theory Spec2Isabelle
  imports Complex_Main
begin

section \<open>Liquid reveal: the script of the page\<close>

text \<open>
  The development embeds \<^verbatim>\<open>script.js\<close>: the construction of the GPU programs, the
  ping-pong framebuffers, the solver step, the reveal/transition state machine, the
  frame callback and the event listeners.

  JavaScript numbers are modelled as reals (integers where the script only holds
  integers): rounding of doubles is not modelled.  The WebGL context is an explicit
  state: a store of float textures (each attached to its own framebuffer), the texture
  units, the current program, the uniform values of each program, the bound framebuffer
  and the list of draw calls issued so far.  What the WebGL implementation and the page
  decide (whether a shader compiles, whether a program links and which uniforms it
  has, what a fragment shader computes, the clock) is a parameter of the model.

  Left out: the vertex and index buffers of the quad and its vertex attribute (every
  draw covers the whole viewport, which \<^verbatim>\<open>drawQuad\<close> sets to the whole target), the two
  calls of \<^verbatim>\<open>getExtension\<close> (float textures are taken to be renderable) and the
  \<^verbatim>\<open>onerror\<close> handler of an image, which only logs.  The filter and wrap parameters
  \<^verbatim>\<open>createFBO\<close> gives a texture (\<^verbatim>\<open>LINEAR\<close>, \<^verbatim>\<open>CLAMP_TO_EDGE\<close>) are not a field of the
  state: they are what the sampling functions of the section on sampling compute.

  The shader sources are in the page, not in the script.  Where a property depends on
  what the advection shader computes, that shader is modelled from the specification
  (\<open>spec_advection\<close>), and the property is stated for a page whose advection program
  computes it.
\<close>

subsection \<open>Configuration\<close>

definition SIM_RESOLUTION :: real where "SIM_RESOLUTION = 128"
definition DYE_RESOLUTION :: real where "DYE_RESOLUTION = 512"
definition DENSITY_DISSIPATION :: real where "DENSITY_DISSIPATION = 1.0"
definition VELOCITY_DISSIPATION :: real where "VELOCITY_DISSIPATION = 0.85"
definition PRESSURE_ITERATIONS :: nat where "PRESSURE_ITERATIONS = 8"
definition SPLAT_RADIUS :: real where "SPLAT_RADIUS = 0.004"
definition SPLAT_FORCE :: real where "SPLAT_FORCE = 6000"
definition REVEAL_THRESHOLD :: real where "REVEAL_THRESHOLD = 0.65"
definition IMAGES :: "string list" where
  "IMAGES = [''resources/p1.jpg'', ''resources/p2.jpg'', ''resources/p3.jpg'', ''resources/p4.jpg'']"

definition TRANSITION_DURATION :: real where "TRANSITION_DURATION = 1200"
definition ADVANCE_ENERGY :: real where "ADVANCE_ENERGY = 8000"

subsection \<open>The WebGL context\<close>

text \<open>The six programs of the script, named by their keys in \<^verbatim>\<open>programs\<close>.\<close>

datatype prog = Advection | Divergence | Pressure | GradientSubtract | Splat | Display

datatype shader_type = VERTEX_SHADER | FRAGMENT_SHADER

datatype uval = U1i int | U1f real | U2f real real | U3f real real real

type_synonym rgba = "real \<times> real \<times> real \<times> real"

record texture =
  tex_width :: int
  tex_height :: int
  tex_data :: "rgba list"

text \<open>One \<^verbatim>\<open>gl.drawElements\<close>: the program in use, its uniform values, the texture bound
  to each texture unit and the framebuffer drawn into (\<open>None\<close> is the canvas).\<close>

record draw_call =
  dc_program :: "prog option"
  dc_uniforms :: "string \<Rightarrow> uval option"
  dc_units :: "nat \<Rightarrow> nat option"
  dc_target :: "nat option"

record gl_context =
  textures :: "nat \<Rightarrow> texture"
  next_name :: nat
  cur_program :: "prog option"
  uniform_vals :: "prog \<Rightarrow> string \<Rightarrow> uval option"
  active_unit :: nat
  unit_tex :: "nat \<Rightarrow> nat option"
  bound_fbo :: "nat option"
  drawingBufferWidth :: real
  drawingBufferHeight :: real
  calls :: "draw_call list"

datatype error =
    TypeError_no_context
  | TypeError_no_element string
  | TypeError_attach_null
  | TypeError_null_program prog

text \<open>The page and the WebGL implementation.  \<open>script_text\<close> is the text of the page's
  \<^verbatim>\<open><script id=...>\<close> elements (the shader sources are in the page, not in the script);
  \<open>link_result\<close> gives, for a vertex and a fragment source that link, the names of the
  active uniforms of the program; \<open>attach_null_throws\<close> says whether
  \<^verbatim>\<open>gl.attachShader(prog, null)\<close> raises a TypeError (it does where the parameter is not
  nullable) or only records a GL error; \<open>fragment\<close> is what a draw with a program writes
  into a target of the given size, from the program's uniforms and the textures bound
  to the units; \<open>drawing_buffer\<close> is the size of the drawing buffer the context gives a
  canvas of a given size; \<open>load_time\<close> is the clock when \<^verbatim>\<open>lastTime\<close> is initialised.\<close>

record env =
  gl_supported :: bool
  script_text :: "string \<Rightarrow> string option"
  compile_ok :: "shader_type \<Rightarrow> string \<Rightarrow> bool"
  link_result :: "string \<Rightarrow> string \<Rightarrow> string list option"
  attach_null_throws :: bool
  fragment :: "prog \<Rightarrow> (string \<Rightarrow> uval option) \<Rightarrow> (nat \<Rightarrow> texture option) \<Rightarrow> int \<Rightarrow> int \<Rightarrow> rgba list"
  innerWidth :: real
  innerHeight :: real
  drawing_buffer :: "real \<Rightarrow> real \<Rightarrow> real \<times> real"
  load_time :: real

definition cleared :: "int \<Rightarrow> int \<Rightarrow> rgba list" where
  "cleared w h = replicate (nat (w * h)) (0, 0, 0, 0)"

text \<open>\<^verbatim>\<open>gl.clear(gl.COLOR_BUFFER_BIT)\<close>: the clear colour is never set, so it is
  transparent black; no scissor test is enabled, so the whole attachment is cleared.
  Clearing the canvas is not recorded.\<close>

definition gl_clear :: "gl_context \<Rightarrow> gl_context" where
  "gl_clear g =
     (case bound_fbo g of
        None \<Rightarrow> g
      | Some n \<Rightarrow>
          g\<lparr>textures := (textures g)
               (n := (textures g n)\<lparr>tex_data := cleared (tex_width (textures g n)) (tex_height (textures g n))\<rparr>)\<rparr>)"

definition gl_bindFramebuffer :: "nat option \<Rightarrow> gl_context \<Rightarrow> gl_context" where
  "gl_bindFramebuffer n g = g\<lparr>bound_fbo := n\<rparr>"

definition gl_useProgram :: "prog \<Rightarrow> gl_context \<Rightarrow> gl_context" where
  "gl_useProgram p g = g\<lparr>cur_program := Some p\<rparr>"

text \<open>A linked program as \<^verbatim>\<open>createProgram\<close> returns it: the GL program and the
  dictionary of its active uniforms (the names; a location is the program with a name).\<close>

record program_obj =
  program :: prog
  uniforms :: "string list"

text \<open>\<^verbatim>\<open>gl.uniform*(p.uniforms.name, v)\<close>: a name that is not an active uniform reads as
  \<^verbatim>\<open>undefined\<close> from the dictionary and the call is ignored; a location of a program
  that is not in use is an error of the GL and changes nothing.\<close>

definition gl_uniform :: "program_obj \<Rightarrow> string \<Rightarrow> uval \<Rightarrow> gl_context \<Rightarrow> gl_context" where
  "gl_uniform p name v g =
     (if name \<in> set (uniforms p) \<and> cur_program g = Some (program p)
      then g\<lparr>uniform_vals := (uniform_vals g)(program p := (uniform_vals g (program p))(name := Some v))\<rparr>
      else g)"

subsection \<open>Framebuffers\<close>

record fbo =
  fbo_name :: nat
  fbo_width :: int
  fbo_height :: int
  fbo_texelX :: real
  fbo_texelY :: real

text \<open>\<^verbatim>\<open>createFBO\<close>: a new texture of \<open>w \<times> h\<close> float texels bound to unit 0, attached to a
  new framebuffer, which stays bound and is cleared.  The texture and its framebuffer
  share one name.  The texture is created with the filters \<^verbatim>\<open>LINEAR\<close> and the wraps
  \<^verbatim>\<open>CLAMP_TO_EDGE\<close>, which is how \<open>bilinear\<close> below samples it.\<close>

definition createFBO :: "int \<Rightarrow> int \<Rightarrow> gl_context \<Rightarrow> fbo \<times> gl_context" where
  "createFBO w h g =
     (let n = next_name g;
          g1 = g\<lparr>next_name := Suc n, active_unit := 0\<rparr>;
          g2 = g1\<lparr>unit_tex := (unit_tex g1)(0 := Some n)\<rparr>;
          g3 = g2\<lparr>textures := (textures g2)(n := \<lparr>tex_width = w, tex_height = h, tex_data = cleared w h\<rparr>)\<rparr>;
          g4 = gl_bindFramebuffer (Some n) g3;
          g5 = gl_clear g4
      in (\<lparr>fbo_name = n, fbo_width = w, fbo_height = h,
           fbo_texelX = 1 / real_of_int w, fbo_texelY = 1 / real_of_int h\<rparr>, g5))"

text \<open>\<^verbatim>\<open>attach(slot)\<close> of a framebuffer object.\<close>

definition attach :: "fbo \<Rightarrow> nat \<Rightarrow> gl_context \<Rightarrow> gl_context" where
  "attach f slot g = g\<lparr>active_unit := slot, unit_tex := (unit_tex g)(slot := Some (fbo_name f))\<rparr>"

text \<open>The double framebuffer: the closure variables \<^verbatim>\<open>a\<close> and \<^verbatim>\<open>b\<close> are fields.\<close>

record doubleFBO =
  dfbo_width :: int
  dfbo_height :: int
  dfbo_texelX :: real
  dfbo_texelY :: real
  dfbo_a :: fbo
  dfbo_b :: fbo

definition createDoubleFBO :: "int \<Rightarrow> int \<Rightarrow> gl_context \<Rightarrow> doubleFBO \<times> gl_context" where
  "createDoubleFBO w h g =
     (let (a, g1) = createFBO w h g;
          (b, g2) = createFBO w h g1
      in (\<lparr>dfbo_width = w, dfbo_height = h,
           dfbo_texelX = 1 / real_of_int w, dfbo_texelY = 1 / real_of_int h,
           dfbo_a = a, dfbo_b = b\<rparr>, g2))"

text \<open>The methods \<^verbatim>\<open>read()\<close>, \<^verbatim>\<open>write()\<close> and \<^verbatim>\<open>swap()\<close> of a double framebuffer.\<close>

definition read_fbo :: "doubleFBO \<Rightarrow> fbo" where
  "read_fbo d = dfbo_a d"

definition write_fbo :: "doubleFBO \<Rightarrow> fbo" where
  "write_fbo d = dfbo_b d"

definition swap_fbo :: "doubleFBO \<Rightarrow> doubleFBO" where
  "swap_fbo d = d\<lparr>dfbo_a := dfbo_b d, dfbo_b := dfbo_a d\<rparr>"

text \<open>\<^verbatim>\<open>getRes\<close>, for a drawing buffer of positive width and height (a buffer of size zero
  gives \<^verbatim>\<open>NaN\<close> in the script).  The quotient and the product are those of the reals:
  where the doubles of the script round \<^verbatim>\<open>target * aspect\<close> across a half, as at a drawing
  buffer of 768 by 1173, the script's result differs from this one by one texel.  No
  property below depends on such a size.\<close>

definition getRes :: "real \<Rightarrow> gl_context \<Rightarrow> int \<times> int" where
  "getRes target g =
     (let aspect = drawingBufferWidth g / drawingBufferHeight g;
          a = (if aspect < 1 then 1 / aspect else aspect);
          mn = round target;
          mx = round (target * a)
      in if drawingBufferWidth g > drawingBufferHeight g then (mx, mn) else (mn, mx))"

subsection \<open>The state of the script\<close>

record pointer_state =
  ptr_x :: real
  ptr_y :: real
  ptr_dx :: real
  ptr_dy :: real
  ptr_moved :: bool

text \<open>The top-level bindings of the script, with the WebGL context, the console and the
  alerts shown.  A binding holds a placeholder until the script initialises it; nothing
  reads it before.\<close>

record world =
  gl :: gl_context
  console :: "string list"
  alerts :: "string list"
  canvas_width :: real
  canvas_height :: real
  programs :: "prog \<Rightarrow> program_obj option"
  simRes :: "int \<times> int"
  dyeRes :: "int \<times> int"
  velocity :: doubleFBO
  dye :: doubleFBO
  divergence :: fbo
  pressure :: doubleFBO
  imageTextures :: "nat list"
  currentImageIdx :: nat
  nextImageIdx :: nat
  blendFactor :: real
  isTransitioning :: bool
  transitionStart :: real
  pointer :: pointer_state
  lastTime :: real
  totalSplatEnergy :: real

type_synonym outcome = "(error \<times> world) + world"

subsection \<open>Shader compilation helpers\<close>

definition compileShader :: "env \<Rightarrow> shader_type \<Rightarrow> string \<Rightarrow> world \<Rightarrow> (shader_type \<times> string) option \<times> world" where
  "compileShader E ty src w =
     (if \<not> compile_ok E ty src
      then (None, w\<lparr>console := console w @ [''Shader compile error:'']\<rparr>)
      else (Some (ty, src), w))"

text \<open>\<^verbatim>\<open>createProgram\<close>; \<open>k\<close> names the GL program object it creates.  A program with a
  shader missing does not link.\<close>

definition createProgram :: "env \<Rightarrow> prog \<Rightarrow> string \<Rightarrow> string \<Rightarrow> world \<Rightarrow> (error \<times> world) + (program_obj option \<times> world)" where
  "createProgram E k vertSrc fragSrc w =
     (let (vert, w1) = compileShader E VERTEX_SHADER vertSrc w;
          (frag, w2) = compileShader E FRAGMENT_SHADER fragSrc w1
      in if (vert = None \<or> frag = None) \<and> attach_null_throws E
         then Inl (TypeError_attach_null, w2)
         else (case (if vert = None \<or> frag = None then None else link_result E vertSrc fragSrc) of
                 None \<Rightarrow> Inr (None, w2\<lparr>console := console w2 @ [''Program link error:'']\<rparr>)
               | Some names \<Rightarrow> Inr (Some \<lparr>program = k, uniforms = names\<rparr>, w2)))"

definition shaderSrc :: "env \<Rightarrow> string \<Rightarrow> string option" where
  "shaderSrc E ident = script_text E ident"

text \<open>The entries of the \<^verbatim>\<open>programs\<close> literal, in the order they are evaluated.\<close>

definition program_sources :: "(prog \<times> string) list" where
  "program_sources =
     [(Advection, ''fragAdvection''), (Divergence, ''fragDivergence''),
      (Pressure, ''fragPressure''), (GradientSubtract, ''fragGradientSubtract''),
      (Splat, ''fragSplat''), (Display, ''fragDisplay'')]"

fun buildPrograms :: "env \<Rightarrow> string \<Rightarrow> (prog \<times> string) list \<Rightarrow> world \<Rightarrow> outcome" where
  "buildPrograms E vertSrc [] w = Inr w"
| "buildPrograms E vertSrc ((k, ident) # rest) w =
     (case shaderSrc E ident of
        None \<Rightarrow> Inl (TypeError_no_element ident, w)
      | Some fragSrc \<Rightarrow>
          (case createProgram E k vertSrc fragSrc w of
             Inl e \<Rightarrow> Inl e
           | Inr (p, w1) \<Rightarrow> buildPrograms E vertSrc rest (w1\<lparr>programs := (programs w1)(k := p)\<rparr>)))"

subsection \<open>Drawing\<close>

text \<open>\<^verbatim>\<open>drawQuad\<close>: the quad covers the viewport, which is the whole target, so the draw
  overwrites every texel of the target.  What is drawn on the canvas is not stored.\<close>

definition drawQuad :: "env \<Rightarrow> fbo option \<Rightarrow> gl_context \<Rightarrow> gl_context" where
  "drawQuad E target g =
     (let g1 = gl_bindFramebuffer (map_option fbo_name target) g;
          c = \<lparr>dc_program = cur_program g1,
               dc_uniforms = (case cur_program g1 of None \<Rightarrow> (\<lambda>_. None) | Some p \<Rightarrow> uniform_vals g1 p),
               dc_units = unit_tex g1,
               dc_target = bound_fbo g1\<rparr>;
          g2 = g1\<lparr>calls := calls g1 @ [c]\<rparr>
      in case (cur_program g2, target) of
           (Some p, Some t) \<Rightarrow>
             g2\<lparr>textures := (textures g2)
                  (fbo_name t := (textures g2 (fbo_name t))
                     \<lparr>tex_data := fragment E p (uniform_vals g2 p)
                                    (\<lambda>u. map_option (textures g2) (unit_tex g2 u))
                                    (fbo_width t) (fbo_height t)\<rparr>)\<rparr>
         | _ \<Rightarrow> g2)"

subsection \<open>Image textures\<close>

text \<open>\<^verbatim>\<open>loadImageTexture\<close>: a new texture, bound to the active unit, holding one opaque
  black pixel until the image has loaded.\<close>

definition loadImageTexture :: "string \<Rightarrow> gl_context \<Rightarrow> nat \<times> gl_context" where
  "loadImageTexture url g =
     (let n = next_name g;
          g1 = g\<lparr>next_name := Suc n\<rparr>;
          g2 = g1\<lparr>unit_tex := (unit_tex g1)(active_unit g1 := Some n)\<rparr>
      in (n, g2\<lparr>textures := (textures g2)(n := \<lparr>tex_width = 1, tex_height = 1, tex_data = [(0, 0, 0, 1)]\<rparr>)\<rparr>))"

fun loadImageTextures :: "string list \<Rightarrow> gl_context \<Rightarrow> nat list \<times> gl_context" where
  "loadImageTextures [] g = ([], g)"
| "loadImageTextures (url # urls) g =
     (let (n, g1) = loadImageTexture url g;
          (ns, g2) = loadImageTextures urls g1
      in (n # ns, g2))"

text \<open>\<^verbatim>\<open>img.onload\<close> of the image of a texture.\<close>

definition onImageLoad :: "nat \<Rightarrow> texture \<Rightarrow> gl_context \<Rightarrow> gl_context" where
  "onImageLoad n img g =
     (let g1 = g\<lparr>unit_tex := (unit_tex g)(active_unit g := Some n)\<rparr>
      in g1\<lparr>textures := (textures g1)(n := img)\<rparr>)"

text \<open>\<^verbatim>\<open>imageTextures[i]\<close> is \<^verbatim>\<open>undefined\<close> out of range, and binding it unbinds the unit.\<close>

definition image_at :: "nat list \<Rightarrow> nat \<Rightarrow> nat option" where
  "image_at ts i = (if i < length ts then Some (ts ! i) else None)"

definition bindImageTexture :: "nat option \<Rightarrow> nat \<Rightarrow> gl_context \<Rightarrow> gl_context" where
  "bindImageTexture tex slot g = g\<lparr>active_unit := slot, unit_tex := (unit_tex g)(slot := tex)\<rparr>"

subsection \<open>Fluid splat\<close>

definition addSplat :: "env \<Rightarrow> real \<Rightarrow> real \<Rightarrow> real \<Rightarrow> real \<Rightarrow> real \<times> real \<times> real \<Rightarrow> world \<Rightarrow> outcome" where
  "addSplat E x y dx dy color w =
     (case programs w Splat of
        None \<Rightarrow> Inl (TypeError_null_program Splat, w)
      | Some p \<Rightarrow>
          (let g1 = gl_useProgram (program p) (gl w);
               g2 = gl_uniform p ''u_target'' (U1i 0) (attach (read_fbo (velocity w)) 0 g1);
               g3 = gl_uniform p ''u_ratio'' (U1f (canvas_width w / canvas_height w)) g2;
               g4 = gl_uniform p ''u_point'' (U2f (x / canvas_width w) (1 - y / canvas_height w)) g3;
               g5 = gl_uniform p ''u_color'' (U3f dx (- dy) 0) g4;
               g6 = gl_uniform p ''u_radius'' (U1f SPLAT_RADIUS) g5;
               g7 = drawQuad E (Some (write_fbo (velocity w))) g6;
               w1 = w\<lparr>gl := g7, velocity := swap_fbo (velocity w)\<rparr>;
               g8 = gl_uniform p ''u_target'' (U1i 0) (attach (read_fbo (dye w1)) 0 (gl w1));
               g9 = gl_uniform p ''u_color'' (case color of (r, g, b) \<Rightarrow> U3f r g b) g8;
               g10 = drawQuad E (Some (write_fbo (dye w1))) g9
           in Inr (w1\<lparr>gl := g10, dye := swap_fbo (dye w1)\<rparr>)))"

subsection \<open>Main simulation step\<close>

text \<open>The five numbered parts of \<^verbatim>\<open>step\<close>, each given the program object it reads from
  \<^verbatim>\<open>programs\<close>.\<close>

definition advectVelocity :: "env \<Rightarrow> program_obj \<Rightarrow> real \<Rightarrow> world \<Rightarrow> world" where
  "advectVelocity E p dt w =
     (let g1 = gl_useProgram (program p) (gl w);
          g2 = gl_uniform p ''u_texel'' (U2f (dfbo_texelX (velocity w)) (dfbo_texelY (velocity w))) g1;
          g3 = gl_uniform p ''u_dyeTexel'' (U2f (dfbo_texelX (velocity w)) (dfbo_texelY (velocity w))) g2;
          g4 = gl_uniform p ''u_velocity'' (U1i 0) (attach (read_fbo (velocity w)) 0 g3);
          g5 = gl_uniform p ''u_source'' (U1i 0) (attach (read_fbo (velocity w)) 0 g4);
          g6 = gl_uniform p ''u_dt'' (U1f dt) g5;
          g7 = gl_uniform p ''u_dissipation'' (U1f VELOCITY_DISSIPATION) g6;
          g8 = drawQuad E (Some (write_fbo (velocity w))) g7
      in w\<lparr>gl := g8, velocity := swap_fbo (velocity w)\<rparr>)"

definition advectDye :: "env \<Rightarrow> program_obj \<Rightarrow> world \<Rightarrow> world" where
  "advectDye E p w =
     (let g1 = gl_uniform p ''u_texel'' (U2f (dfbo_texelX (velocity w)) (dfbo_texelY (velocity w))) (gl w);
          g2 = gl_uniform p ''u_dyeTexel'' (U2f (dfbo_texelX (dye w)) (dfbo_texelY (dye w))) g1;
          g3 = gl_uniform p ''u_velocity'' (U1i 0) (attach (read_fbo (velocity w)) 0 g2);
          g4 = gl_uniform p ''u_source'' (U1i 1) (attach (read_fbo (dye w)) 1 g3);
          g5 = gl_uniform p ''u_dissipation'' (U1f DENSITY_DISSIPATION) g4;
          g6 = drawQuad E (Some (write_fbo (dye w))) g5
      in w\<lparr>gl := g6, dye := swap_fbo (dye w)\<rparr>)"

definition computeDivergence :: "env \<Rightarrow> program_obj \<Rightarrow> world \<Rightarrow> world" where
  "computeDivergence E p w =
     (let g1 = gl_useProgram (program p) (gl w);
          g2 = gl_uniform p ''u_texel'' (U2f (dfbo_texelX (velocity w)) (dfbo_texelY (velocity w))) g1;
          g3 = gl_uniform p ''u_velocity'' (U1i 0) (attach (read_fbo (velocity w)) 0 g2);
          g4 = drawQuad E (Some (divergence w)) g3
      in w\<lparr>gl := g4\<rparr>)"

text \<open>The body of the pressure loop, and the loop with the number of iterations left.\<close>

definition pressureIteration :: "env \<Rightarrow> program_obj \<Rightarrow> world \<Rightarrow> world" where
  "pressureIteration E p w =
     (let g1 = gl_uniform p ''u_pressure'' (U1i 1) (attach (read_fbo (pressure w)) 1 (gl w));
          g2 = drawQuad E (Some (write_fbo (pressure w))) g1
      in w\<lparr>gl := g2, pressure := swap_fbo (pressure w)\<rparr>)"

fun pressureLoop :: "env \<Rightarrow> program_obj \<Rightarrow> nat \<Rightarrow> world \<Rightarrow> world" where
  "pressureLoop E p 0 w = w"
| "pressureLoop E p (Suc n) w = pressureLoop E p n (pressureIteration E p w)"

definition solvePressure :: "env \<Rightarrow> program_obj \<Rightarrow> world \<Rightarrow> world" where
  "solvePressure E p w =
     (let g1 = gl_useProgram (program p) (gl w);
          g2 = gl_uniform p ''u_texel'' (U2f (dfbo_texelX (velocity w)) (dfbo_texelY (velocity w))) g1;
          g3 = gl_uniform p ''u_divergence'' (U1i 0) (attach (divergence w) 0 g2)
      in pressureLoop E p PRESSURE_ITERATIONS (w\<lparr>gl := g3\<rparr>))"

definition subtractGradient :: "env \<Rightarrow> program_obj \<Rightarrow> world \<Rightarrow> world" where
  "subtractGradient E p w =
     (let g1 = gl_useProgram (program p) (gl w);
          g2 = gl_uniform p ''u_texel'' (U2f (dfbo_texelX (velocity w)) (dfbo_texelY (velocity w))) g1;
          g3 = gl_uniform p ''u_pressure'' (U1i 0) (attach (read_fbo (pressure w)) 0 g2);
          g4 = gl_uniform p ''u_velocity'' (U1i 1) (attach (read_fbo (velocity w)) 1 g3);
          g5 = drawQuad E (Some (write_fbo (velocity w))) g4
      in w\<lparr>gl := g5, velocity := swap_fbo (velocity w)\<rparr>)"

text \<open>Reading \<^verbatim>\<open>.program\<close> of a program that is \<^verbatim>\<open>null\<close> raises a TypeError; what the
  step did before stays done.\<close>

definition step :: "env \<Rightarrow> real \<Rightarrow> world \<Rightarrow> outcome" where
  "step E dt w =
     (case programs w Advection of
        None \<Rightarrow> Inl (TypeError_null_program Advection, w)
      | Some adv \<Rightarrow>
          (let w2 = advectDye E adv (advectVelocity E adv dt w)
           in case programs w2 Divergence of
                None \<Rightarrow> Inl (TypeError_null_program Divergence, w2)
              | Some dv \<Rightarrow>
                  (let w3 = computeDivergence E dv w2
                   in case programs w3 Pressure of
                        None \<Rightarrow> Inl (TypeError_null_program Pressure, w3)
                      | Some pr \<Rightarrow>
                          (let w4 = solvePressure E pr w3
                           in case programs w4 GradientSubtract of
                                None \<Rightarrow> Inl (TypeError_null_program GradientSubtract, w4)
                              | Some gs \<Rightarrow> Inr (subtractGradient E gs w4)))))"

subsection \<open>Reveal detection and transition\<close>

text \<open>The clock of a frame: \<open>now\<close> is what \<^verbatim>\<open>performance.now()\<close> returns at the top of
  \<^verbatim>\<open>render\<close>, \<open>now_start\<close> what it returns in \<^verbatim>\<open>startTransition\<close>, when that is called
  in the frame.\<close>

record frame =
  now :: real
  now_start :: real

definition startTransition :: "frame \<Rightarrow> world \<Rightarrow> world" where
  "startTransition f w = w\<lparr>isTransitioning := True, transitionStart := now_start f\<rparr>"

definition checkAdvance :: "frame \<Rightarrow> world \<Rightarrow> world" where
  "checkAdvance f w =
     (if isTransitioning w then w
      else if totalSplatEnergy w > ADVANCE_ENERGY then startTransition f w
      else w)"

definition clearDye :: "world \<Rightarrow> world" where
  "clearDye w =
     (let g1 = gl_clear (gl_bindFramebuffer (Some (fbo_name (read_fbo (dye w)))) (gl w));
          g2 = gl_clear (gl_bindFramebuffer (Some (fbo_name (write_fbo (dye w)))) g1)
      in w\<lparr>gl := g2\<rparr>)"

definition updateTransition :: "real \<Rightarrow> world \<Rightarrow> world" where
  "updateTransition t_now w =
     (if \<not> isTransitioning w then w
      else
        (let t = min ((t_now - transitionStart w) / TRANSITION_DURATION) 1;
             w1 = w\<lparr>blendFactor := t\<rparr>
         in if t \<ge> 1
            then clearDye
                   (w1\<lparr>currentImageIdx := nextImageIdx w1,
                       nextImageIdx := (nextImageIdx w1 + 1) mod length (imageTextures w1),
                       blendFactor := 0,
                       isTransitioning := False,
                       totalSplatEnergy := 0\<rparr>)
            else w1))"

subsection \<open>Render loop\<close>

text \<open>The part of \<^verbatim>\<open>render\<close> guarded by \<^verbatim>\<open>pointer.moved\<close>.\<close>

definition applySplat :: "env \<Rightarrow> frame \<Rightarrow> real \<Rightarrow> world \<Rightarrow> outcome" where
  "applySplat E f dt w =
     (if ptr_moved (pointer w)
      then
        (let speed = sqrt (ptr_dx (pointer w) * ptr_dx (pointer w) + ptr_dy (pointer w) * ptr_dy (pointer w))
         in case addSplat E (ptr_x (pointer w)) (ptr_y (pointer w))
                   (ptr_dx (pointer w) * SPLAT_FORCE * dt)
                   (ptr_dy (pointer w) * SPLAT_FORCE * dt)
                   (0.9, 0.85, 0.8) w of
              Inl e \<Rightarrow> Inl e
            | Inr w1 \<Rightarrow>
                (let w2 = w1\<lparr>totalSplatEnergy := totalSplatEnergy w1 + speed\<rparr>;
                     w3 = w2\<lparr>pointer := (pointer w2)\<lparr>ptr_moved := False\<rparr>\<rparr>
                 in Inr (checkAdvance f w3)))
      else Inr w)"

text \<open>The final draw of \<^verbatim>\<open>render\<close>, to the canvas.\<close>

definition display :: "env \<Rightarrow> world \<Rightarrow> outcome" where
  "display E w =
     (case programs w Display of
        None \<Rightarrow> Inl (TypeError_null_program Display, w)
      | Some dp \<Rightarrow>
          (let g1 = gl_useProgram (program dp) (gl w);
               g2 = gl_uniform dp ''u_fluid'' (U1i 0) (attach (read_fbo (dye w)) 0 g1);
               g3 = gl_uniform dp ''u_image0'' (U1i 1)
                      (bindImageTexture (image_at (imageTextures w) (currentImageIdx w)) 1 g2);
               g4 = gl_uniform dp ''u_image1'' (U1i 2)
                      (bindImageTexture (image_at (imageTextures w) (nextImageIdx w)) 2 g3);
               g5 = gl_uniform dp ''u_blend'' (U1f (blendFactor w)) g4
           in Inr (w\<lparr>gl := drawQuad E None g5\<rparr>)))"

text \<open>\<^verbatim>\<open>render\<close>, one frame.  A result \<open>Inr\<close> is a frame that reached
  \<^verbatim>\<open>requestAnimationFrame(render)\<close>; a result \<open>Inl\<close> is a frame ended by an exception,
  which requests no further frame.\<close>

definition render :: "env \<Rightarrow> frame \<Rightarrow> world \<Rightarrow> outcome" where
  "render E f w =
     (let dt = min ((now f - lastTime w) / 1000) 0.016;
          w1 = w\<lparr>lastTime := now f\<rparr>
      in case applySplat E f dt w1 of
           Inl e \<Rightarrow> Inl e
         | Inr w2 \<Rightarrow>
             (case step E dt w2 of
                Inl e \<Rightarrow> Inl e
              | Inr w3 \<Rightarrow> display E (updateTransition (now f) w3)))"

subsection \<open>Input handling\<close>

record mouse_event =
  clientX :: real
  clientY :: real
  rect_left :: real
  rect_top :: real

definition onMouseMove :: "mouse_event \<Rightarrow> world \<Rightarrow> world" where
  "onMouseMove e w =
     (let x = clientX e - rect_left e;
          y = clientY e - rect_top e
      in w\<lparr>pointer := \<lparr>ptr_x = x, ptr_y = y,
                        ptr_dx = x - ptr_x (pointer w), ptr_dy = y - ptr_y (pointer w),
                        ptr_moved = True\<rparr>\<rparr>)"

text \<open>A touch event: the client positions of \<^verbatim>\<open>targetTouches\<close> and the canvas rectangle.
  With no target touch, reading \<^verbatim>\<open>t.clientX\<close> raises and the handler changes nothing.\<close>

record touch_event =
  targetTouches :: "(real \<times> real) list"
  touch_rect_left :: real
  touch_rect_top :: real

definition onTouchMove :: "touch_event \<Rightarrow> world \<Rightarrow> world" where
  "onTouchMove e w =
     (case targetTouches e of
        [] \<Rightarrow> w
      | (cx, cy) # _ \<Rightarrow>
          (let x = cx - touch_rect_left e;
               y = cy - touch_rect_top e
           in w\<lparr>pointer := \<lparr>ptr_x = x, ptr_y = y,
                             ptr_dx = x - ptr_x (pointer w), ptr_dy = y - ptr_y (pointer w),
                             ptr_moved = True\<rparr>\<rparr>))"

text \<open>The listener of \<^verbatim>\<open>resize\<close>, for the new inner size of the window.\<close>

definition onResize :: "env \<Rightarrow> real \<Rightarrow> real \<Rightarrow> world \<Rightarrow> world" where
  "onResize E iw ih w =
     (let g0 = (gl w)\<lparr>drawingBufferWidth := fst (drawing_buffer E iw ih),
                      drawingBufferHeight := snd (drawing_buffer E iw ih)\<rparr>;
          sr = getRes SIM_RESOLUTION g0;
          dr = getRes DYE_RESOLUTION g0;
          (v, g1) = createDoubleFBO (fst sr) (snd sr) g0;
          (d, g2) = createDoubleFBO (fst dr) (snd dr) g1;
          (dv, g3) = createFBO (fst sr) (snd sr) g2;
          (p, g4) = createDoubleFBO (fst sr) (snd sr) g3
      in w\<lparr>canvas_width := iw, canvas_height := ih, simRes := sr, dyeRes := dr,
           velocity := v, dye := d, divergence := dv, pressure := p, gl := g4\<rparr>)"

subsection \<open>The script from its first line\<close>

definition initial_gl :: "env \<Rightarrow> gl_context" where
  "initial_gl E =
     \<lparr>textures = (\<lambda>_. \<lparr>tex_width = 0, tex_height = 0, tex_data = []\<rparr>),
      next_name = 0, cur_program = None, uniform_vals = (\<lambda>_ _. None),
      active_unit = 0, unit_tex = (\<lambda>_. None), bound_fbo = None,
      drawingBufferWidth = fst (drawing_buffer E (innerWidth E) (innerHeight E)),
      drawingBufferHeight = snd (drawing_buffer E (innerWidth E) (innerHeight E)),
      calls = []\<rparr>"

definition no_fbo :: fbo where
  "no_fbo = \<lparr>fbo_name = 0, fbo_width = 0, fbo_height = 0, fbo_texelX = 0, fbo_texelY = 0\<rparr>"

definition no_doubleFBO :: doubleFBO where
  "no_doubleFBO = \<lparr>dfbo_width = 0, dfbo_height = 0, dfbo_texelX = 0, dfbo_texelY = 0,
                   dfbo_a = no_fbo, dfbo_b = no_fbo\<rparr>"

text \<open>The state when the script starts: the canvas sized to the window, every other
  binding a placeholder.\<close>

definition initial_world :: "env \<Rightarrow> world" where
  "initial_world E =
     \<lparr>gl = initial_gl E, console = [], alerts = [],
      canvas_width = innerWidth E, canvas_height = innerHeight E,
      programs = (\<lambda>_. None), simRes = (0, 0), dyeRes = (0, 0),
      velocity = no_doubleFBO, dye = no_doubleFBO, divergence = no_fbo, pressure = no_doubleFBO,
      imageTextures = [], currentImageIdx = 0, nextImageIdx = 0, blendFactor = 0,
      isTransitioning = False, transitionStart = 0,
      pointer = \<lparr>ptr_x = 0, ptr_y = 0, ptr_dx = 0, ptr_dy = 0, ptr_moved = False\<rparr>,
      lastTime = 0, totalSplatEnergy = 0\<rparr>"

text \<open>The buffers, image textures and state variables, once the programs are built.\<close>

definition createState :: "env \<Rightarrow> world \<Rightarrow> world" where
  "createState E w =
     (let sr = getRes SIM_RESOLUTION (gl w);
          dr = getRes DYE_RESOLUTION (gl w);
          (v, g1) = createDoubleFBO (fst sr) (snd sr) (gl w);
          (d, g2) = createDoubleFBO (fst dr) (snd dr) g1;
          (dv, g3) = createFBO (fst sr) (snd sr) g2;
          (p, g4) = createDoubleFBO (fst sr) (snd sr) g3;
          (imgs, g5) = loadImageTextures IMAGES g4
      in w\<lparr>simRes := sr, dyeRes := dr, velocity := v, dye := d, divergence := dv, pressure := p,
           gl := g5, imageTextures := imgs,
           currentImageIdx := 0, nextImageIdx := 1, blendFactor := 0,
           isTransitioning := False, transitionStart := 0,
           pointer := \<lparr>ptr_x = 0.5 * canvas_width w, ptr_y = 0.5 * canvas_height w,
                       ptr_dx = 0, ptr_dy = 0, ptr_moved = False\<rparr>,
           lastTime := load_time E, totalSplatEnergy := 0\<rparr>)"

text \<open>The script up to the registration of its listeners: everything before the call
  \<^verbatim>\<open>render()\<close> of its last line.  Without a context the script alerts and then raises
  at \<^verbatim>\<open>gl.getExtension\<close>.\<close>

definition startup :: "env \<Rightarrow> outcome" where
  "startup E =
     (let w0 = initial_world E
      in if \<not> gl_supported E
         then Inl (TypeError_no_context,
                   w0\<lparr>alerts := alerts w0 @ [''WebGL not supported in your browser. Try Chrome or Firefox.'']\<rparr>)
         else (case shaderSrc E ''vertShader'' of
                 None \<Rightarrow> Inl (TypeError_no_element ''vertShader'', w0)
               | Some vertSrc \<Rightarrow>
                   (case buildPrograms E vertSrc program_sources w0 of
                      Inl e \<Rightarrow> Inl e
                    | Inr w1 \<Rightarrow> Inr (createState E w1))))"

text \<open>The page once the script has run: its state, and whether a frame is requested.\<close>

record page =
  page_world :: world
  frame_requested :: bool

definition after_render :: "outcome \<Rightarrow> page" where
  "after_render r =
     (case r of
        Inl (e, w) \<Rightarrow> \<lparr>page_world = w, frame_requested = False\<rparr>
      | Inr w \<Rightarrow> \<lparr>page_world = w, frame_requested = True\<rparr>)"

text \<open>The whole script: \<open>Inl\<close> when it is aborted before its listeners are registered,
  else the page after the first call of \<^verbatim>\<open>render\<close>, at the clock \<open>f\<close>.\<close>

definition script :: "env \<Rightarrow> frame \<Rightarrow> (error \<times> world) + page" where
  "script E f =
     (case startup E of
        Inl e \<Rightarrow> Inl e
      | Inr w \<Rightarrow> Inr (after_render (render E f w)))"

datatype event =
    MouseMove mouse_event
  | TouchStart touch_event
  | TouchMove touch_event
  | Resize real real
  | ImageLoad nat texture
  | AnimationFrame frame

fun dispatch :: "env \<Rightarrow> page \<Rightarrow> event \<Rightarrow> page" where
  "dispatch E pg (MouseMove e) = pg\<lparr>page_world := onMouseMove e (page_world pg)\<rparr>"
| "dispatch E pg (TouchStart e) = pg\<lparr>page_world := onTouchMove e (page_world pg)\<rparr>"
| "dispatch E pg (TouchMove e) = pg\<lparr>page_world := onTouchMove e (page_world pg)\<rparr>"
| "dispatch E pg (Resize iw ih) = pg\<lparr>page_world := onResize E iw ih (page_world pg)\<rparr>"
| "dispatch E pg (ImageLoad i img) =
     (case image_at (imageTextures (page_world pg)) i of
        None \<Rightarrow> pg
      | Some n \<Rightarrow> pg\<lparr>page_world := (page_world pg)\<lparr>gl := onImageLoad n img (gl (page_world pg))\<rparr>\<rparr>)"
| "dispatch E pg (AnimationFrame f) =
     (if frame_requested pg then after_render (render E f (page_world pg)) else pg)"

definition run :: "env \<Rightarrow> page \<Rightarrow> event list \<Rightarrow> page" where
  "run E pg evs = foldl (dispatch E) pg evs"

subsection \<open>Notions used in the properties\<close>

text \<open>The clamp of the specification.\<close>

definition spec_clamp :: "real \<Rightarrow> real \<Rightarrow> real \<Rightarrow> real" where
  "spec_clamp x lo hi = max lo (min x hi)"

text \<open>The state a call leaves behind, whether it returned or raised.\<close>

definition outcome_world :: "outcome \<Rightarrow> world" where
  "outcome_world r = (case r of Inl (e, w) \<Rightarrow> w | Inr w \<Rightarrow> w)"

text \<open>The variables of the script that only the script changes: the reveal and
  transition state, the pointer, the programs, the image textures and \<^verbatim>\<open>lastTime\<close>.\<close>

definition script_vars ::
  "world \<Rightarrow> (nat \<times> nat \<times> real \<times> bool \<times> real \<times> real) \<times> pointer_state \<times> (prog \<Rightarrow> program_obj option) \<times> nat list \<times> real" where
  "script_vars w =
     ((currentImageIdx w, nextImageIdx w, blendFactor w, isTransitioning w, transitionStart w,
       totalSplatEnergy w),
      pointer w, programs w, imageTextures w, lastTime w)"

text \<open>The speed \<^verbatim>\<open>render\<close> computes from the pointer's last displacement.\<close>

definition pointer_speed :: "world \<Rightarrow> real" where
  "pointer_speed w = sqrt (ptr_dx (pointer w) * ptr_dx (pointer w) + ptr_dy (pointer w) * ptr_dy (pointer w))"

text \<open>A frame applies a splat when the pointer moved and the splat program is there.\<close>

definition splat_applies :: "world \<Rightarrow> bool" where
  "splat_applies w = (ptr_moved (pointer w) \<and> programs w Splat \<noteq> None)"

text \<open>Every program a frame reads is there: the splat program when the pointer moved,
  and the five others.\<close>

definition frame_ready :: "world \<Rightarrow> bool" where
  "frame_ready w =
     ((ptr_moved (pointer w) \<longrightarrow> programs w Splat \<noteq> None) \<and>
      programs w Advection \<noteq> None \<and> programs w Divergence \<noteq> None \<and>
      programs w Pressure \<noteq> None \<and> programs w GradientSubtract \<noteq> None \<and>
      programs w Display \<noteq> None)"

text \<open>The time delta \<^verbatim>\<open>render\<close> computes at the clock \<open>f\<close>.\<close>

definition frame_dt :: "frame \<Rightarrow> world \<Rightarrow> real" where
  "frame_dt f w = min ((now f - lastTime w) / 1000) 0.016"

text \<open>The entry of \<^verbatim>\<open>programs\<close> for a key is a linked program, the one created for it.\<close>

definition linked :: "world \<Rightarrow> prog \<Rightarrow> bool" where
  "linked w k = (case programs w k of None \<Rightarrow> False | Some p \<Rightarrow> program p = k)"

definition has_uniform :: "world \<Rightarrow> prog \<Rightarrow> string \<Rightarrow> bool" where
  "has_uniform w k name = (case programs w k of None \<Rightarrow> False | Some p \<Rightarrow> name \<in> set (uniforms p))"

text \<open>What is observed of a draw call: its program, the textures bound to units 0 and
  1, and its target.\<close>

definition draw_summary :: "draw_call \<Rightarrow> prog option \<times> nat option \<times> nat option \<times> nat option" where
  "draw_summary c = (dc_program c, dc_units c 0, dc_units c 1, dc_target c)"

text \<open>The time delta and the dissipation factor a draw call passes to its program.\<close>

definition advection_params :: "draw_call \<Rightarrow> uval option \<times> uval option" where
  "advection_params c = (dc_uniforms c ''u_dt'', dc_uniforms c ''u_dissipation'')"

definition all_linked :: "world \<Rightarrow> bool" where
  "all_linked w =
     (linked w Advection \<and> linked w Divergence \<and> linked w Pressure \<and>
      linked w GradientSubtract \<and> linked w Splat \<and> linked w Display)"

text \<open>The fixed sequence of the specification, as draw summaries, for a velocity field
  \<open>v\<close>, a dye field \<open>d\<close>, a divergence buffer \<open>dv\<close> and a pressure field \<open>p\<close> as they are
  when the step starts (\<open>u1\<close> is what texture unit 1 holds then): velocity
  self-advection from the read side of \<open>v\<close> into its write side; dye advection along the
  velocity just written; divergence of that velocity; eight pressure iterations, each
  reading the divergence and the side of \<open>p\<close> the one before wrote; gradient subtraction
  from the relaxed pressure and that velocity into the other side of \<open>v\<close>.\<close>

definition spec_solver_sequence ::
  "doubleFBO \<Rightarrow> doubleFBO \<Rightarrow> fbo \<Rightarrow> doubleFBO \<Rightarrow> nat option \<Rightarrow>
   (prog option \<times> nat option \<times> nat option \<times> nat option) list" where
  "spec_solver_sequence v d dv p u1 =
     [(Some Advection, Some (fbo_name (read_fbo v)), u1, Some (fbo_name (write_fbo v))),
      (Some Advection, Some (fbo_name (write_fbo v)), Some (fbo_name (read_fbo d)), Some (fbo_name (write_fbo d))),
      (Some Divergence, Some (fbo_name (write_fbo v)), Some (fbo_name (read_fbo d)), Some (fbo_name dv))] @
     concat (replicate 4
       [(Some Pressure, Some (fbo_name dv), Some (fbo_name (read_fbo p)), Some (fbo_name (write_fbo p))),
        (Some Pressure, Some (fbo_name dv), Some (fbo_name (write_fbo p)), Some (fbo_name (read_fbo p)))]) @
     [(Some GradientSubtract, Some (fbo_name (read_fbo p)), Some (fbo_name (write_fbo v)), Some (fbo_name (read_fbo v)))]"

text \<open>Whether the page holds the vertex source and the six fragment sources, and each
  compiles; and what linking the program of a key gives.\<close>

definition sources_compile :: "env \<Rightarrow> bool" where
  "sources_compile E =
     (case script_text E ''vertShader'' of
        None \<Rightarrow> False
      | Some v \<Rightarrow>
          compile_ok E VERTEX_SHADER v \<and>
          list_all (\<lambda>(k, i). case script_text E i of
                                None \<Rightarrow> False
                              | Some f \<Rightarrow> compile_ok E FRAGMENT_SHADER f) program_sources)"

definition sources_present :: "env \<Rightarrow> bool" where
  "sources_present E =
     (script_text E ''vertShader'' \<noteq> None \<and>
      list_all (\<lambda>(k, i). script_text E i \<noteq> None) program_sources)"

definition program_link :: "env \<Rightarrow> prog \<Rightarrow> string list option" where
  "program_link E k =
     (case (script_text E ''vertShader'', map_of program_sources k) of
        (Some v, Some i) \<Rightarrow> (case script_text E i of None \<Rightarrow> None | Some f \<Rightarrow> link_result E v f)
      | _ \<Rightarrow> None)"

text \<open>What building one entry of \<^verbatim>\<open>programs\<close> does to the state when both shaders
  compile: the entry is the linked program, or \<^verbatim>\<open>null\<close> with an error on the console.\<close>

definition link_step :: "env \<Rightarrow> string \<Rightarrow> prog \<times> string \<Rightarrow> world \<Rightarrow> world" where
  "link_step E v ki w =
     (case link_result E v (the (script_text E (snd ki))) of
        None \<Rightarrow> w\<lparr>console := console w @ [''Program link error:''], programs := (programs w)(fst ki := None)\<rparr>
      | Some ns \<Rightarrow> w\<lparr>programs := (programs w)(fst ki \<mapsto> \<lparr>program = fst ki, uniforms = ns\<rparr>)\<rparr>)"

text \<open>The buffers of \<open>w'\<close> are those of \<open>w\<close>, each double field as it was or swapped.\<close>

definition same_buffers :: "world \<Rightarrow> world \<Rightarrow> bool" where
  "same_buffers w w' =
     ((velocity w' = velocity w \<or> velocity w' = swap_fbo (velocity w)) \<and>
      (dye w' = dye w \<or> dye w' = swap_fbo (dye w)) \<and>
      (pressure w' = pressure w \<or> pressure w' = swap_fbo (pressure w)) \<and>
      divergence w' = divergence w)"

text \<open>The names of the seven buffers of the simulation.\<close>

definition buffer_names :: "world \<Rightarrow> nat list" where
  "buffer_names w =
     [fbo_name (dfbo_a (velocity w)), fbo_name (dfbo_b (velocity w)),
      fbo_name (dfbo_a (dye w)), fbo_name (dfbo_b (dye w)),
      fbo_name (divergence w),
      fbo_name (dfbo_a (pressure w)), fbo_name (dfbo_b (pressure w))]"

subsection \<open>Sampling a texture, and the advection stage\<close>

text \<open>Texels are added and scaled channel by channel.\<close>

definition rgba_scale :: "real \<Rightarrow> rgba \<Rightarrow> rgba" where
  "rgba_scale k p = (case p of (r, g, b, a) \<Rightarrow> (k * r, k * g, k * b, k * a))"

definition rgba_add :: "rgba \<Rightarrow> rgba \<Rightarrow> rgba" where
  "rgba_add p q = (case p of (r, g, b, a) \<Rightarrow> case q of (r', g', b', a') \<Rightarrow> (r + r', g + g', b + b', a + a'))"

text \<open>\<^verbatim>\<open>texture2D\<close> on a texture as \<^verbatim>\<open>createFBO\<close> makes it.  The wrap \<^verbatim>\<open>CLAMP_TO_EDGE\<close>
  clamps a texel index to the texture; rows are stored one after the other.  A texture
  whose data does not cover its size is incomplete and samples as opaque black.\<close>

definition clamp_index :: "int \<Rightarrow> int \<Rightarrow> int" where
  "clamp_index n i = max 0 (min (n - 1) i)"

definition texel :: "texture \<Rightarrow> int \<Rightarrow> int \<Rightarrow> rgba" where
  "texel t i j =
     (let k = nat (clamp_index (tex_height t) j * tex_width t + clamp_index (tex_width t) i)
      in if k < length (tex_data t) then tex_data t ! k else (0, 0, 0, 1))"

text \<open>The filter \<^verbatim>\<open>LINEAR\<close>: at the coordinates \<open>(u, v)\<close> in \<open>[0, 1]\<close>, the weighted mean
  of the four texels around \<open>(u * width - 1/2, v * height - 1/2)\<close>, the weights being the
  fractional parts.\<close>

definition bilinear :: "texture \<Rightarrow> real \<Rightarrow> real \<Rightarrow> rgba" where
  "bilinear t u v =
     (let s = u * real_of_int (tex_width t) - 1 / 2;
          r = v * real_of_int (tex_height t) - 1 / 2;
          i = \<lfloor>s\<rfloor>; j = \<lfloor>r\<rfloor>;
          a = s - real_of_int i; b = r - real_of_int j
      in rgba_add
           (rgba_scale (1 - b) (rgba_add (rgba_scale (1 - a) (texel t i j)) (rgba_scale a (texel t (i + 1) j))))
           (rgba_scale b (rgba_add (rgba_scale (1 - a) (texel t i (j + 1))) (rgba_scale a (texel t (i + 1) (j + 1))))))"

text \<open>A sampler uniform names a texture unit (unit 0 when it was never set), and a
  float uniform that was never set is 0.\<close>

definition sampler :: "(string \<Rightarrow> uval option) \<Rightarrow> (nat \<Rightarrow> texture option) \<Rightarrow> string \<Rightarrow> real \<Rightarrow> real \<Rightarrow> rgba" where
  "sampler us ts name u v =
     (case ts (case us name of Some (U1i n) \<Rightarrow> nat n | _ \<Rightarrow> 0) of
        None \<Rightarrow> (0, 0, 0, 1)
      | Some t \<Rightarrow> bilinear t u v)"

definition uniform1f :: "(string \<Rightarrow> uval option) \<Rightarrow> string \<Rightarrow> real" where
  "uniform1f us name = (case us name of Some (U1f x) \<Rightarrow> x | _ \<Rightarrow> 0)"

definition uniform2f :: "(string \<Rightarrow> uval option) \<Rightarrow> string \<Rightarrow> real \<times> real" where
  "uniform2f us name = (case us name of Some (U2f x y) \<Rightarrow> (x, y) | _ \<Rightarrow> (0, 0))"

text \<open>Modelled from the spec: the advection shader of the page, for the texel \<open>k\<close> of a
  target of \<open>w\<close> by \<open>h\<close> texels.  The sources of the shaders are in the page and not
  under \<^verbatim>\<open>src/\<close>; the specification describes the stage (4.3, steps 1 and 2): for each
  cell, trace its position backward by \<open>dt\<close> times the velocity there, bilinearly resample
  the source field at that position, and multiply by the dissipation factor.  The
  position of the cell is the centre of the texel, in \<open>[0, 1]\<close>; the velocity is in grid
  cells per unit of time, so the displacement is scaled by the grid step \<^verbatim>\<open>u_texel\<close>; the
  velocity is the first two channels of \<^verbatim>\<open>u_velocity\<close>, the source is \<^verbatim>\<open>u_source\<close>.\<close>

definition spec_advection_texel ::
  "(string \<Rightarrow> uval option) \<Rightarrow> (nat \<Rightarrow> texture option) \<Rightarrow> int \<Rightarrow> int \<Rightarrow> nat \<Rightarrow> rgba" where
  "spec_advection_texel us ts w h k =
     (let u = (real_of_int (int k mod w) + 1 / 2) / real_of_int w;
          v = (real_of_int (int k div w) + 1 / 2) / real_of_int h;
          vel = sampler us ts ''u_velocity'' u v;
          dt = uniform1f us ''u_dt'';
          cell = uniform2f us ''u_texel''
      in rgba_scale (uniform1f us ''u_dissipation'')
           (sampler us ts ''u_source'' (u - dt * fst vel * fst cell) (v - dt * fst (snd vel) * snd cell)))"

text \<open>Modelled from the spec: the advection shader of the page, as the fragment stage of
  a draw into a target of \<open>w\<close> by \<open>h\<close> texels.\<close>

definition spec_advection ::
  "(string \<Rightarrow> uval option) \<Rightarrow> (nat \<Rightarrow> texture option) \<Rightarrow> int \<Rightarrow> int \<Rightarrow> rgba list" where
  "spec_advection us ts w h = map (spec_advection_texel us ts w h) [0..<nat (w * h)]"

text \<open>Every channel of a texel, and of every texel of a texture, lies between \<open>lo\<close> and
  \<open>hi\<close>.\<close>

definition rgba_within :: "real \<Rightarrow> real \<Rightarrow> rgba \<Rightarrow> bool" where
  "rgba_within lo hi p = (case p of (r, g, b, a) \<Rightarrow>
     lo \<le> r \<and> r \<le> hi \<and> lo \<le> g \<and> g \<le> hi \<and> lo \<le> b \<and> b \<le> hi \<and> lo \<le> a \<and> a \<le> hi)"

definition tex_within :: "real \<Rightarrow> real \<Rightarrow> texture \<Rightarrow> bool" where
  "tex_within lo hi t = list_all (rgba_within lo hi) (tex_data t)"

text \<open>A texture has a size and the data of that size; the texture of a framebuffer
  object has the size the object records; the two sides of a field are such textures,
  of one size.  This is how \<^verbatim>\<open>createDoubleFBO\<close> allocates them.\<close>

definition tex_ok :: "texture \<Rightarrow> bool" where
  "tex_ok t = (1 \<le> tex_width t \<and> 1 \<le> tex_height t \<and> length (tex_data t) = nat (tex_width t * tex_height t))"

definition fbo_ok :: "gl_context \<Rightarrow> fbo \<Rightarrow> bool" where
  "fbo_ok g b =
     (tex_width (textures g (fbo_name b)) = fbo_width b \<and>
      tex_height (textures g (fbo_name b)) = fbo_height b \<and>
      1 \<le> fbo_width b \<and> 1 \<le> fbo_height b \<and>
      length (tex_data (textures g (fbo_name b))) = nat (fbo_width b * fbo_height b))"

definition field_ok :: "gl_context \<Rightarrow> doubleFBO \<Rightarrow> bool" where
  "field_ok g d =
     (fbo_ok g (dfbo_a d) \<and> fbo_ok g (dfbo_b d) \<and>
      fbo_width (dfbo_a d) = fbo_width (dfbo_b d) \<and> fbo_height (dfbo_a d) = fbo_height (dfbo_b d))"

subsection \<open>An example page\<close>

text \<open>A page whose six programs compile and link, each with the uniforms the script
  sets, in a window of 1280 by 720; its fragment stage paints every target white.\<close>

definition example_ids :: "string list" where
  "example_ids = [''vertShader'', ''fragAdvection'', ''fragDivergence'', ''fragPressure'',
                  ''fragGradientSubtract'', ''fragSplat'', ''fragDisplay'']"

definition example_uniforms :: "string \<Rightarrow> string list" where
  "example_uniforms src =
     (if src = ''fragAdvection'' then [''u_texel'', ''u_dyeTexel'', ''u_velocity'', ''u_source'', ''u_dt'', ''u_dissipation'']
      else if src = ''fragDivergence'' then [''u_texel'', ''u_velocity'']
      else if src = ''fragPressure'' then [''u_texel'', ''u_divergence'', ''u_pressure'']
      else if src = ''fragGradientSubtract'' then [''u_texel'', ''u_pressure'', ''u_velocity'']
      else if src = ''fragSplat'' then [''u_target'', ''u_ratio'', ''u_point'', ''u_color'', ''u_radius'']
      else [''u_fluid'', ''u_image0'', ''u_image1'', ''u_blend''])"

definition example_fragment :: "prog \<Rightarrow> (string \<Rightarrow> uval option) \<Rightarrow> (nat \<Rightarrow> texture option) \<Rightarrow> int \<Rightarrow> int \<Rightarrow> rgba list" where
  "example_fragment p us ts w h = replicate (nat (w * h)) (1, 1, 1, 1)"

definition example_env :: env where
  "example_env =
     \<lparr>gl_supported = True,
      script_text = (\<lambda>i. if i \<in> set example_ids then Some i else None),
      compile_ok = (\<lambda>ty src. True),
      link_result = (\<lambda>v f. Some (example_uniforms f)),
      attach_null_throws = True,
      fragment = example_fragment,
      innerWidth = 1280, innerHeight = 720,
      drawing_buffer = (\<lambda>w h. (w, h)),
      load_time = 0\<rparr>"

definition example_programs :: "prog \<Rightarrow> program_obj option" where
  "example_programs k =
     Some \<lparr>program = k,
           uniforms = example_uniforms
             (case k of Advection \<Rightarrow> ''fragAdvection'' | Divergence \<Rightarrow> ''fragDivergence''
              | Pressure \<Rightarrow> ''fragPressure'' | GradientSubtract \<Rightarrow> ''fragGradientSubtract''
              | Splat \<Rightarrow> ''fragSplat'' | Display \<Rightarrow> ''fragDisplay'')\<rparr>"

text \<open>The state of the example page when its script reaches \<^verbatim>\<open>render()\<close>.\<close>

definition example_world :: world where
  "example_world = createState example_env ((initial_world example_env)\<lparr>programs := example_programs\<rparr>)"

text \<open>The example page after the first call of \<^verbatim>\<open>render\<close>, at 16 ms; then a pointer
  move of 8001 pixels to the right, a frame at 32 ms (which starts a transition, at 33
  ms) and a frame at 633 ms: the state 600 ms into the transition.\<close>

definition example_page :: page where
  "example_page = after_render (render example_env \<lparr>now = 16, now_start = 16\<rparr> example_world)"

definition example_events :: "event list" where
  "example_events =
     [MouseMove \<lparr>clientX = 8641, clientY = 360, rect_left = 0, rect_top = 0\<rparr>,
      AnimationFrame \<lparr>now = 32, now_start = 33\<rparr>,
      AnimationFrame \<lparr>now = 633, now_start = 633\<rparr>]"

definition mid_transition :: world where
  "mid_transition = page_world (run example_env example_page example_events)"

text \<open>The example page with a splat program that does not link.\<close>

definition broken_env :: env where
  "broken_env =
     example_env\<lparr>link_result := (\<lambda>v f. if f = ''fragSplat'' then None else Some (example_uniforms f))\<rparr>"

text \<open>The example page with a pressure shader that does not compile.\<close>

definition uncompiled_env :: env where
  "uncompiled_env = example_env\<lparr>compile_ok := (\<lambda>ty src. src \<noteq> ''fragPressure'')\<rparr>"

text \<open>The example page with the advection shader of the specification.\<close>

definition spec_fragment :: "prog \<Rightarrow> (string \<Rightarrow> uval option) \<Rightarrow> (nat \<Rightarrow> texture option) \<Rightarrow> int \<Rightarrow> int \<Rightarrow> rgba list" where
  "spec_fragment p = (if p = Advection then spec_advection else example_fragment p)"

definition spec_env :: env where
  "spec_env = example_env\<lparr>fragment := spec_fragment\<rparr>"

text \<open>A dye field revealed (1 in every channel) in its first column and nowhere else.\<close>

definition painted_column :: "int \<Rightarrow> int \<Rightarrow> rgba list" where
  "painted_column w h =
     map (\<lambda>k. if int k mod w = 0 then (1, 1, 1, 1) else (0, 0, 0, 0)) [0..<nat (w * h)]"

text \<open>The example page when its script reaches \<^verbatim>\<open>render()\<close>, with a fluid state written
  into the read sides of its fields: the velocity is \<open>(vx, 0)\<close> in every cell, and the dye
  is revealed in its first column, as after a stroke down the left edge.  A splat of a
  pointer move of ten pixels injects a velocity of about 960.\<close>

definition painted_world :: "real \<Rightarrow> world" where
  "painted_world vx =
     example_world\<lparr>gl := (gl example_world)\<lparr>textures := (textures (gl example_world))
       (fbo_name (read_fbo (velocity example_world)) :=
          (textures (gl example_world) (fbo_name (read_fbo (velocity example_world))))
            \<lparr>tex_data := replicate (nat (dfbo_width (velocity example_world) * dfbo_height (velocity example_world)))
                            (vx, 0, 0, 0)\<rparr>,
        fbo_name (read_fbo (dye example_world)) :=
          (textures (gl example_world) (fbo_name (read_fbo (dye example_world))))
            \<lparr>tex_data := painted_column (dfbo_width (dye example_world)) (dfbo_height (dye example_world))\<rparr>)\<rparr>\<rparr>"

section \<open>Auxiliary facts\<close>

subsection \<open>The primitives of the context\<close>

lemma gl_uniform_other [simp]:
  "calls (gl_uniform p n v g) = calls g"
  "unit_tex (gl_uniform p n v g) = unit_tex g"
  "cur_program (gl_uniform p n v g) = cur_program g"
  "textures (gl_uniform p n v g) = textures g"
  "bound_fbo (gl_uniform p n v g) = bound_fbo g"
  "active_unit (gl_uniform p n v g) = active_unit g"
  "next_name (gl_uniform p n v g) = next_name g"
  by (simp_all add: gl_uniform_def)

lemma gl_uniform_vals [simp]:
  "uniform_vals (gl_uniform p n v g) q m =
     (if n \<in> set (uniforms p) \<and> cur_program g = Some (program p) \<and> q = program p \<and> m = n
      then Some v else uniform_vals g q m)"
  by (simp add: gl_uniform_def)

lemma attach_simps [simp]:
  "calls (attach f s g) = calls g"
  "unit_tex (attach f s g) = (unit_tex g)(s := Some (fbo_name f))"
  "cur_program (attach f s g) = cur_program g"
  "textures (attach f s g) = textures g"
  "bound_fbo (attach f s g) = bound_fbo g"
  "uniform_vals (attach f s g) = uniform_vals g"
  "next_name (attach f s g) = next_name g"
  by (simp_all add: attach_def)

lemma gl_useProgram_simps [simp]:
  "calls (gl_useProgram p g) = calls g"
  "unit_tex (gl_useProgram p g) = unit_tex g"
  "cur_program (gl_useProgram p g) = Some p"
  "textures (gl_useProgram p g) = textures g"
  "bound_fbo (gl_useProgram p g) = bound_fbo g"
  "uniform_vals (gl_useProgram p g) = uniform_vals g"
  "next_name (gl_useProgram p g) = next_name g"
  by (simp_all add: gl_useProgram_def)

lemma bindImageTexture_simps [simp]:
  "calls (bindImageTexture t s g) = calls g"
  "unit_tex (bindImageTexture t s g) = (unit_tex g)(s := t)"
  "cur_program (bindImageTexture t s g) = cur_program g"
  "textures (bindImageTexture t s g) = textures g"
  "bound_fbo (bindImageTexture t s g) = bound_fbo g"
  "uniform_vals (bindImageTexture t s g) = uniform_vals g"
  "next_name (bindImageTexture t s g) = next_name g"
  by (simp_all add: bindImageTexture_def)

lemma drawQuad_simps [simp]:
  "calls (drawQuad E t g) = calls g @
     [\<lparr>dc_program = cur_program g,
       dc_uniforms = (case cur_program g of None \<Rightarrow> (\<lambda>_. None) | Some p \<Rightarrow> uniform_vals g p),
       dc_units = unit_tex g, dc_target = map_option fbo_name t\<rparr>]"
  "unit_tex (drawQuad E t g) = unit_tex g"
  "cur_program (drawQuad E t g) = cur_program g"
  "bound_fbo (drawQuad E t g) = map_option fbo_name t"
  "uniform_vals (drawQuad E t g) = uniform_vals g"
  "next_name (drawQuad E t g) = next_name g"
  by (simp_all add: drawQuad_def gl_bindFramebuffer_def Let_def split: option.splits)

lemma swap_fbo_simps [simp]:
  "read_fbo (swap_fbo d) = write_fbo d"
  "write_fbo (swap_fbo d) = read_fbo d"
  "swap_fbo (swap_fbo d) = d"
  "dfbo_texelX (swap_fbo d) = dfbo_texelX d"
  "dfbo_texelY (swap_fbo d) = dfbo_texelY d"
  "dfbo_width (swap_fbo d) = dfbo_width d"
  "dfbo_height (swap_fbo d) = dfbo_height d"
  by (simp_all add: swap_fbo_def read_fbo_def write_fbo_def)

lemma linkedD:
  assumes "linked w k"
  shows "\<exists>ns. programs w k = Some \<lparr>program = k, uniforms = ns\<rparr>"
proof (cases "programs w k")
  case None
  with assms show ?thesis by (simp add: linked_def)
next
  case (Some p)
  with assms show ?thesis by (cases p) (simp add: linked_def)
qed

lemma outcome_world_simps [simp]:
  "outcome_world (Inr w) = w"
  "outcome_world (Inl (e, w)) = w"
  by (simp_all add: outcome_world_def)

subsection \<open>What the stages leave unchanged\<close>

lemma pressureLoop_vars: "script_vars (pressureLoop E p n w) = script_vars w"
  by (induction n arbitrary: w) (simp_all add: pressureIteration_def Let_def script_vars_def)

lemma pressureLoop_programs [simp]: "programs (pressureLoop E p n w) = programs w"
  using pressureLoop_vars[of E p n w] by (simp add: script_vars_def)

lemma step_vars: "script_vars (outcome_world (step E dt w)) = script_vars w"
  using pressureLoop_vars
  by (simp add: step_def Let_def advectVelocity_def advectDye_def computeDivergence_def
      solvePressure_def subtractGradient_def script_vars_def split: option.splits)

lemma display_vars: "script_vars (outcome_world (display E w)) = script_vars w"
  by (simp add: display_def Let_def script_vars_def split: option.splits)

lemma script_vars_eqD:
  assumes "script_vars a = script_vars b"
  shows "currentImageIdx a = currentImageIdx b" "nextImageIdx a = nextImageIdx b"
    "blendFactor a = blendFactor b" "isTransitioning a = isTransitioning b"
    "transitionStart a = transitionStart b" "totalSplatEnergy a = totalSplatEnergy b"
    "pointer a = pointer b" "programs a = programs b" "imageTextures a = imageTextures b"
    "lastTime a = lastTime b"
  using assms by (simp_all add: script_vars_def)

lemma updateTransition_vars_cong:
  "script_vars a = script_vars b \<Longrightarrow>
   script_vars (updateTransition t a) = script_vars (updateTransition t b)"
  by (simp add: updateTransition_def Let_def clearDye_def script_vars_def)

subsection \<open>The splat of a frame\<close>

lemma applySplat_not_moved:
  "\<not> ptr_moved (pointer w) \<Longrightarrow> applySplat E f dt w = Inr w"
  by (simp add: applySplat_def)

lemma applySplat_null:
  "ptr_moved (pointer w) \<Longrightarrow> programs w Splat = None \<Longrightarrow>
   applySplat E f dt w = Inl (TypeError_null_program Splat, w)"
  by (simp add: applySplat_def addSplat_def Let_def)

lemma applySplat_moved:
  assumes "ptr_moved (pointer w)" "programs w Splat \<noteq> None"
  shows "\<exists>w1 w2. applySplat E f dt w = Inr w2 \<and> script_vars w1 = script_vars w \<and>
           w2 = checkAdvance f (w1\<lparr>totalSplatEnergy := totalSplatEnergy w + pointer_speed w,
                                   pointer := (pointer w)\<lparr>ptr_moved := False\<rparr>\<rparr>)"
  using assms
  by (auto simp add: applySplat_def addSplat_def Let_def script_vars_def pointer_speed_def)

lemma checkAdvance_vars:
  "currentImageIdx (checkAdvance f w) = currentImageIdx w"
  "nextImageIdx (checkAdvance f w) = nextImageIdx w"
  "blendFactor (checkAdvance f w) = blendFactor w"
  "totalSplatEnergy (checkAdvance f w) = totalSplatEnergy w"
  "pointer (checkAdvance f w) = pointer w"
  "programs (checkAdvance f w) = programs w"
  "imageTextures (checkAdvance f w) = imageTextures w"
  "lastTime (checkAdvance f w) = lastTime w"
  "gl (checkAdvance f w) = gl w"
  "isTransitioning (checkAdvance f w) = (isTransitioning w \<or> totalSplatEnergy w > ADVANCE_ENERGY)"
  "transitionStart (checkAdvance f w) =
     (if \<not> isTransitioning w \<and> totalSplatEnergy w > ADVANCE_ENERGY then now_start f else transitionStart w)"
  by (simp_all add: checkAdvance_def startTransition_def)

lemma applySplat_effect:
  fixes E f dt w
  defines "wa \<equiv> outcome_world (applySplat E f dt w)"
  shows "totalSplatEnergy wa = (if splat_applies w then totalSplatEnergy w + pointer_speed w else totalSplatEnergy w)"
    and "isTransitioning wa = (isTransitioning w \<or> splat_applies w \<and> totalSplatEnergy w + pointer_speed w > ADVANCE_ENERGY)"
    and "transitionStart wa = (if \<not> isTransitioning w \<and> splat_applies w \<and> totalSplatEnergy w + pointer_speed w > ADVANCE_ENERGY
                               then now_start f else transitionStart w)"
    and "currentImageIdx wa = currentImageIdx w" and "nextImageIdx wa = nextImageIdx w"
    and "blendFactor wa = blendFactor w" and "programs wa = programs w"
    and "imageTextures wa = imageTextures w" and "lastTime wa = lastTime w"
    and "pointer wa = (if splat_applies w then (pointer w)\<lparr>ptr_moved := False\<rparr> else pointer w)"
proof -
  consider (still) "\<not> ptr_moved (pointer w)" | (null) "ptr_moved (pointer w)" "programs w Splat = None"
    | (moved) "ptr_moved (pointer w)" "programs w Splat \<noteq> None" by blast
  then have "(totalSplatEnergy wa = (if splat_applies w then totalSplatEnergy w + pointer_speed w else totalSplatEnergy w))
    \<and> (isTransitioning wa = (isTransitioning w \<or> splat_applies w \<and> totalSplatEnergy w + pointer_speed w > ADVANCE_ENERGY))
    \<and> (transitionStart wa = (if \<not> isTransitioning w \<and> splat_applies w \<and> totalSplatEnergy w + pointer_speed w > ADVANCE_ENERGY
                               then now_start f else transitionStart w))
    \<and> currentImageIdx wa = currentImageIdx w \<and> nextImageIdx wa = nextImageIdx w
    \<and> blendFactor wa = blendFactor w \<and> programs wa = programs w
    \<and> imageTextures wa = imageTextures w \<and> lastTime wa = lastTime w
    \<and> pointer wa = (if splat_applies w then (pointer w)\<lparr>ptr_moved := False\<rparr> else pointer w)"
  proof cases
    case still
    then show ?thesis by (simp add: wa_def applySplat_not_moved splat_applies_def)
  next
    case null
    then show ?thesis by (simp add: wa_def applySplat_null splat_applies_def)
  next
    case moved
    from applySplat_moved[OF moved, of E f dt] obtain w1 w2 where
      r: "applySplat E f dt w = Inr w2" and v: "script_vars w1 = script_vars w" and
      w2: "w2 = checkAdvance f (w1\<lparr>totalSplatEnergy := totalSplatEnergy w + pointer_speed w,
                                   pointer := (pointer w)\<lparr>ptr_moved := False\<rparr>\<rparr>)"
      by blast
    have sa: "splat_applies w" using moved by (simp add: splat_applies_def)
    show ?thesis
      using script_vars_eqD[OF v] sa
      by (simp add: wa_def r w2 checkAdvance_vars)
  qed
  then show "totalSplatEnergy wa = (if splat_applies w then totalSplatEnergy w + pointer_speed w else totalSplatEnergy w)"
    and "isTransitioning wa = (isTransitioning w \<or> splat_applies w \<and> totalSplatEnergy w + pointer_speed w > ADVANCE_ENERGY)"
    and "transitionStart wa = (if \<not> isTransitioning w \<and> splat_applies w \<and> totalSplatEnergy w + pointer_speed w > ADVANCE_ENERGY
                               then now_start f else transitionStart w)"
    and "currentImageIdx wa = currentImageIdx w" and "nextImageIdx wa = nextImageIdx w"
    and "blendFactor wa = blendFactor w" and "programs wa = programs w"
    and "imageTextures wa = imageTextures w" and "lastTime wa = lastTime w"
    and "pointer wa = (if splat_applies w then (pointer w)\<lparr>ptr_moved := False\<rparr> else pointer w)"
    by blast+
qed

subsection \<open>The outcome of a frame\<close>

lemma render_vars:
  fixes E f w
  defines "wa \<equiv> outcome_world (applySplat E f (frame_dt f w) (w\<lparr>lastTime := now f\<rparr>))"
  shows "script_vars (outcome_world (render E f w)) = script_vars wa \<and> isl (render E f w) \<or>
         script_vars (outcome_world (render E f w)) = script_vars (updateTransition (now f) wa)"
proof (cases "applySplat E f (frame_dt f w) (w\<lparr>lastTime := now f\<rparr>)")
  case (Inl ew)
  then show ?thesis by (cases ew) (simp add: render_def Let_def wa_def frame_dt_def)
next
  case (Inr w2)
  note a = this
  show ?thesis
  proof (cases "step E (frame_dt f w) w2")
    case (Inl ew)
    obtain e w3 where ew: "ew = (e, w3)" by (cases ew)
    have "script_vars w3 = script_vars w2"
      using step_vars[of E "frame_dt f w" w2] Inl ew by simp
    then show ?thesis
      using a Inl ew by (simp add: render_def Let_def wa_def frame_dt_def)
  next
    case (Inr w3)
    have v: "script_vars w3 = script_vars w2"
      using step_vars[of E "frame_dt f w" w2] Inr by simp
    have "render E f w = display E (updateTransition (now f) w3)"
      using a Inr by (simp add: render_def Let_def frame_dt_def)
    then have "script_vars (outcome_world (render E f w)) = script_vars (updateTransition (now f) w3)"
      by (simp add: display_vars)
    also have "\<dots> = script_vars (updateTransition (now f) w2)"
      by (rule updateTransition_vars_cong[OF v])
    finally show ?thesis using a by (simp add: wa_def)
  qed
qed

lemma display_isl: "isl (display E w) = (programs w Display = None)"
  by (simp add: display_def Let_def split: option.splits)

lemma step_isl:
  "isl (step E dt w) = (programs w Advection = None \<or> programs w Divergence = None \<or>
      programs w Pressure = None \<or> programs w GradientSubtract = None)"
  by (simp add: step_def Let_def advectVelocity_def advectDye_def computeDivergence_def
      solvePressure_def split: option.splits)

lemma applySplat_isl:
  "isl (applySplat E f dt w) = (ptr_moved (pointer w) \<and> programs w Splat = None)"
  by (simp add: applySplat_def addSplat_def Let_def split: option.splits)

lemma updateTransition_programs [simp]: "programs (updateTransition t w) = programs w"
  by (simp add: updateTransition_def Let_def clearDye_def)

lemma render_isl: "isl (render E f w) = (\<not> frame_ready w)"
proof (cases "applySplat E f (frame_dt f w) (w\<lparr>lastTime := now f\<rparr>)")
  case (Inl ew)
  then have "isl (applySplat E f (frame_dt f w) (w\<lparr>lastTime := now f\<rparr>))" by simp
  then have "ptr_moved (pointer w) \<and> programs w Splat = None" by (simp add: applySplat_isl)
  moreover have "isl (render E f w)" using Inl by (simp add: render_def Let_def frame_dt_def)
  ultimately show ?thesis by (simp add: frame_ready_def)
next
  case (Inr w2)
  then have "\<not> isl (applySplat E f (frame_dt f w) (w\<lparr>lastTime := now f\<rparr>))" by simp
  then have s: "ptr_moved (pointer w) \<longrightarrow> programs w Splat \<noteq> None" by (simp add: applySplat_isl)
  have p2: "programs w2 = programs w"
    using applySplat_effect(7)[of E f "frame_dt f w" "w\<lparr>lastTime := now f\<rparr>"] Inr by simp
  show ?thesis
  proof (cases "step E (frame_dt f w) w2")
    case (Inl ew)
    then have "isl (step E (frame_dt f w) w2)" by simp
    then have "programs w Advection = None \<or> programs w Divergence = None \<or>
      programs w Pressure = None \<or> programs w GradientSubtract = None"
      by (simp add: step_isl p2)
    moreover have "isl (render E f w)" using Inr Inl by (simp add: render_def Let_def frame_dt_def)
    ultimately show ?thesis by (auto simp add: frame_ready_def)
  next
    case (Inr w3)
    then have "\<not> isl (step E (frame_dt f w) w2)" by simp
    then have st: "programs w Advection \<noteq> None \<and> programs w Divergence \<noteq> None \<and>
      programs w Pressure \<noteq> None \<and> programs w GradientSubtract \<noteq> None"
      by (simp add: step_isl p2)
    have p3: "programs w3 = programs w"
      using script_vars_eqD(8)[OF step_vars[of E "frame_dt f w" w2]] Inr p2 by simp
    have "render E f w = display E (updateTransition (now f) w3)"
      using \<open>applySplat E f (frame_dt f w) (w\<lparr>lastTime := now f\<rparr>) = Inr w2\<close> Inr
      by (simp add: render_def Let_def frame_dt_def)
    then have "isl (render E f w) = (programs w Display = None)"
      by (simp add: display_isl p3)
    then show ?thesis using s st by (simp add: frame_ready_def)
  qed
qed

lemma render_ready:
  assumes "frame_ready w"
  shows "\<exists>w'. render E f w = Inr w' \<and>
     script_vars w' = script_vars (updateTransition (now f)
        (outcome_world (applySplat E f (frame_dt f w) (w\<lparr>lastTime := now f\<rparr>))))"
proof -
  have n: "\<not> isl (render E f w)" using assms by (simp add: render_isl)
  then obtain w' where r: "render E f w = Inr w'" by (cases "render E f w") auto
  with render_vars[of E f w] n show ?thesis by auto
qed

lemma updateTransition_effect:
  "totalSplatEnergy (updateTransition t w) =
     (if isTransitioning w \<and> TRANSITION_DURATION \<le> t - transitionStart w then 0 else totalSplatEnergy w)"
  "isTransitioning (updateTransition t w) =
     (isTransitioning w \<and> t - transitionStart w < TRANSITION_DURATION)"
  "transitionStart (updateTransition t w) = transitionStart w"
  by (auto simp add: updateTransition_def Let_def clearDye_def TRANSITION_DURATION_def min_def)

lemma pointer_speed_nonneg: "0 \<le> pointer_speed w"
  by (simp add: pointer_speed_def)

lemma applySplat_speed:
  "pointer_speed (w\<lparr>lastTime := t\<rparr>) = pointer_speed w"
  "splat_applies (w\<lparr>lastTime := t\<rparr>) = splat_applies w"
  by (simp_all add: pointer_speed_def splat_applies_def)

text \<open>The energy and the transition flag a frame leaves, by cases on whether it raised.\<close>

lemma render_energy_cases:
  fixes E f w
  defines "w' \<equiv> outcome_world (render E f w)"
    and "e1 \<equiv> (if splat_applies w then totalSplatEnergy w + pointer_speed w else totalSplatEnergy w)"
    and "tr1 \<equiv> (isTransitioning w \<or> splat_applies w \<and> totalSplatEnergy w + pointer_speed w > ADVANCE_ENERGY)"
    and "ts1 \<equiv> (if \<not> isTransitioning w \<and> splat_applies w \<and> totalSplatEnergy w + pointer_speed w > ADVANCE_ENERGY
                 then now_start f else transitionStart w)"
  shows "(totalSplatEnergy w' = e1 \<and> isTransitioning w' = tr1 \<and> isl (render E f w)) \<or>
         (totalSplatEnergy w' = (if tr1 \<and> TRANSITION_DURATION \<le> now f - ts1 then 0 else e1) \<and>
          isTransitioning w' = (tr1 \<and> now f - ts1 < TRANSITION_DURATION))"
proof -
  let ?wa = "outcome_world (applySplat E f (frame_dt f w) (w\<lparr>lastTime := now f\<rparr>))"
  note ef = applySplat_effect[of E f "frame_dt f w" "w\<lparr>lastTime := now f\<rparr>", unfolded applySplat_speed]
  have a: "totalSplatEnergy ?wa = e1" "isTransitioning ?wa = tr1" "transitionStart ?wa = ts1"
    using ef(1,2,3) by (simp_all add: e1_def tr1_def ts1_def)
  from render_vars[of E f w]
  consider (raised) "script_vars w' = script_vars ?wa" "isl (render E f w)"
    | (shown) "script_vars w' = script_vars (updateTransition (now f) ?wa)"
    unfolding w'_def by blast
  then show ?thesis
  proof cases
    case raised
    then show ?thesis using script_vars_eqD(4,6)[OF raised(1)] a by simp
  next
    case shown
    show ?thesis using script_vars_eqD(4,6)[OF shown] a
      by (simp add: updateTransition_effect)
  qed
qed

subsection \<open>Allocation, and the example page\<close>

lemma createFBO_simps:
  "fst (createFBO w h g) = \<lparr>fbo_name = next_name g, fbo_width = w, fbo_height = h,
      fbo_texelX = 1 / real_of_int w, fbo_texelY = 1 / real_of_int h\<rparr>"
  "next_name (snd (createFBO w h g)) = Suc (next_name g)"
  "textures (snd (createFBO w h g)) =
     (textures g)(next_name g := \<lparr>tex_width = w, tex_height = h, tex_data = cleared w h\<rparr>)"
  "calls (snd (createFBO w h g)) = calls g"
  "cur_program (snd (createFBO w h g)) = cur_program g"
  "uniform_vals (snd (createFBO w h g)) = uniform_vals g"
  "drawingBufferWidth (snd (createFBO w h g)) = drawingBufferWidth g"
  "drawingBufferHeight (snd (createFBO w h g)) = drawingBufferHeight g"
  by (simp_all add: createFBO_def Let_def gl_clear_def gl_bindFramebuffer_def)

lemma createDoubleFBO_simps:
  "fst (createDoubleFBO w h g) =
     \<lparr>dfbo_width = w, dfbo_height = h, dfbo_texelX = 1 / real_of_int w, dfbo_texelY = 1 / real_of_int h,
      dfbo_a = \<lparr>fbo_name = next_name g, fbo_width = w, fbo_height = h,
                fbo_texelX = 1 / real_of_int w, fbo_texelY = 1 / real_of_int h\<rparr>,
      dfbo_b = \<lparr>fbo_name = Suc (next_name g), fbo_width = w, fbo_height = h,
                fbo_texelX = 1 / real_of_int w, fbo_texelY = 1 / real_of_int h\<rparr>\<rparr>"
  "next_name (snd (createDoubleFBO w h g)) = Suc (Suc (next_name g))"
  "textures (snd (createDoubleFBO w h g)) =
     (textures g)(next_name g := \<lparr>tex_width = w, tex_height = h, tex_data = cleared w h\<rparr>,
                  Suc (next_name g) := \<lparr>tex_width = w, tex_height = h, tex_data = cleared w h\<rparr>)"
  "calls (snd (createDoubleFBO w h g)) = calls g"
  "cur_program (snd (createDoubleFBO w h g)) = cur_program g"
  "uniform_vals (snd (createDoubleFBO w h g)) = uniform_vals g"
  "drawingBufferWidth (snd (createDoubleFBO w h g)) = drawingBufferWidth g"
  "drawingBufferHeight (snd (createDoubleFBO w h g)) = drawingBufferHeight g"
  by (simp_all add: createDoubleFBO_def Let_def split_def createFBO_simps)

lemma onResize_vars: "script_vars (onResize E iw ih w) = script_vars w"
  by (simp add: onResize_def Let_def split_def script_vars_def)

lemma example_env_simps:
  "gl_supported example_env"
  "script_text example_env i = (if i \<in> set example_ids then Some i else None)"
  "compile_ok example_env ty src"
  "link_result example_env v f = Some (example_uniforms f)"
  "innerWidth example_env = 1280" "innerHeight example_env = 720"
  "drawing_buffer example_env a b = (a, b)"
  "load_time example_env = 0"
  "fragment example_env = example_fragment"
  by (simp_all add: example_env_def)

lemma example_programs_eq:
  "(\<lambda>_. None)
     (Advection \<mapsto> \<lparr>program = Advection, uniforms = example_uniforms ''fragAdvection''\<rparr>,
      Divergence \<mapsto> \<lparr>program = Divergence, uniforms = example_uniforms ''fragDivergence''\<rparr>,
      Pressure \<mapsto> \<lparr>program = Pressure, uniforms = example_uniforms ''fragPressure''\<rparr>,
      GradientSubtract \<mapsto> \<lparr>program = GradientSubtract, uniforms = example_uniforms ''fragGradientSubtract''\<rparr>,
      Splat \<mapsto> \<lparr>program = Splat, uniforms = example_uniforms ''fragSplat''\<rparr>,
      Display \<mapsto> \<lparr>program = Display, uniforms = example_uniforms ''fragDisplay''\<rparr>) = example_programs"
proof
  fix k show "((\<lambda>_. None)
     (Advection \<mapsto> \<lparr>program = Advection, uniforms = example_uniforms ''fragAdvection''\<rparr>,
      Divergence \<mapsto> \<lparr>program = Divergence, uniforms = example_uniforms ''fragDivergence''\<rparr>,
      Pressure \<mapsto> \<lparr>program = Pressure, uniforms = example_uniforms ''fragPressure''\<rparr>,
      GradientSubtract \<mapsto> \<lparr>program = GradientSubtract, uniforms = example_uniforms ''fragGradientSubtract''\<rparr>,
      Splat \<mapsto> \<lparr>program = Splat, uniforms = example_uniforms ''fragSplat''\<rparr>,
      Display \<mapsto> \<lparr>program = Display, uniforms = example_uniforms ''fragDisplay''\<rparr>)) k = example_programs k"
    by (cases k) (simp_all add: example_programs_def)
qed

lemma example_buildPrograms:
  "buildPrograms example_env ''vertShader'' program_sources (initial_world example_env) =
     Inr ((initial_world example_env)\<lparr>programs := example_programs\<rparr>)"
proof -
  have p0: "programs (initial_world example_env) = (\<lambda>_. None)"
    by (simp add: initial_world_def)
  show ?thesis
    by (simp add: program_sources_def shaderSrc_def example_env_simps example_ids_def
        createProgram_def compileShader_def p0 example_programs_eq)
qed

lemma example_startup: "startup example_env = Inr example_world"
  by (simp add: startup_def Let_def example_env_simps shaderSrc_def example_ids_def
      example_buildPrograms example_world_def)

lemma example_world_vars:
  "script_vars example_world =
     ((0, 1, 0, False, 0, 0), \<lparr>ptr_x = 640, ptr_y = 360, ptr_dx = 0, ptr_dy = 0, ptr_moved = False\<rparr>,
      example_programs, [7, 8, 9, 10], 0)"
  by (simp add: example_world_def createState_def Let_def split_def script_vars_def
      initial_world_def example_env_simps IMAGES_def loadImageTexture_def createDoubleFBO_simps
      createFBO_simps initial_gl_def)

subsection \<open>Energy over events, and facts of the example page\<close>

lemma render_energy_nonneg:
  assumes "0 \<le> totalSplatEnergy w"
  shows "0 \<le> totalSplatEnergy (outcome_world (render E f w))"
  using render_energy_cases[of E f w] assms pointer_speed_nonneg[of w]
  by (auto split: if_splits)

lemma after_render_world [simp]: "page_world (after_render r) = outcome_world r"
  by (cases r) (auto simp add: after_render_def)

lemma onMouseMove_energy [simp]: "totalSplatEnergy (onMouseMove e w) = totalSplatEnergy w"
  by (simp add: onMouseMove_def Let_def)

lemma onTouchMove_energy [simp]: "totalSplatEnergy (onTouchMove e w) = totalSplatEnergy w"
  by (simp add: onTouchMove_def Let_def split: list.splits)

lemma onResize_energy [simp]: "totalSplatEnergy (onResize E iw ih w) = totalSplatEnergy w"
  using script_vars_eqD(6)[OF onResize_vars] .

lemma dispatch_energy_nonneg:
  assumes "0 \<le> totalSplatEnergy (page_world pg)"
  shows "0 \<le> totalSplatEnergy (page_world (dispatch E pg ev))"
  using assms
  by (cases ev) (simp_all add: render_energy_nonneg split: option.splits)

lemma run_energy_nonneg:
  "0 \<le> totalSplatEnergy (page_world pg) \<Longrightarrow> 0 \<le> totalSplatEnergy (page_world (run E pg evs))"
  unfolding run_def
  by (induction evs arbitrary: pg) (simp_all add: dispatch_energy_nonneg)

lemma createState_energy [simp]: "totalSplatEnergy (createState E w) = 0"
  by (simp add: createState_def Let_def split_def)

lemma startup_energy: "startup E = Inr w \<Longrightarrow> totalSplatEnergy w = 0"
  by (auto simp add: startup_def Let_def split: if_splits option.splits sum.splits)

lemma script_energy_nonneg:
  assumes "script E f0 = Inr pg"
  shows "0 \<le> totalSplatEnergy (page_world pg)"
proof -
  from assms obtain w where s: "startup E = Inr w" and pg: "pg = after_render (render E f0 w)"
    by (auto simp add: script_def split: sum.splits)
  have "0 \<le> totalSplatEnergy w" using startup_energy[OF s] by simp
  then show ?thesis unfolding pg by (simp add: render_energy_nonneg)
qed

lemma example_world_fields:
  "currentImageIdx example_world = 0" "nextImageIdx example_world = 1"
  "blendFactor example_world = 0" "\<not> isTransitioning example_world"
  "transitionStart example_world = 0" "totalSplatEnergy example_world = 0"
  "pointer example_world = \<lparr>ptr_x = 640, ptr_y = 360, ptr_dx = 0, ptr_dy = 0, ptr_moved = False\<rparr>"
  "programs example_world = example_programs" "imageTextures example_world = [7, 8, 9, 10]"
  "lastTime example_world = 0"
  using example_world_vars by (simp_all add: script_vars_def)

lemma example_frame_ready:
  "programs w = example_programs \<Longrightarrow> frame_ready w"
  by (simp add: frame_ready_def example_programs_def)

lemma pointer_speed_horizontal:
  "ptr_dx (pointer w) = a \<Longrightarrow> ptr_dy (pointer w) = 0 \<Longrightarrow> 0 \<le> a \<Longrightarrow> pointer_speed w = a"
  by (simp add: pointer_speed_def)

lemma example_script:
  "script example_env f = Inr (after_render (render example_env f example_world))"
  by (simp add: script_def example_startup)

subsection \<open>The buffers after allocation\<close>

lemma createState_buffers:
  "buffer_names (createState E w) =
     (let n = next_name (gl w) in [n, Suc n, Suc (Suc n), Suc (Suc (Suc n)), Suc (Suc (Suc (Suc n))),
        Suc (Suc (Suc (Suc (Suc n)))), Suc (Suc (Suc (Suc (Suc (Suc n)))))])"
  by (simp add: createState_def Let_def split_def buffer_names_def createDoubleFBO_simps createFBO_simps)

lemma onResize_buffers:
  "buffer_names (onResize E iw ih w) =
     (let n = next_name (gl w) in [n, Suc n, Suc (Suc n), Suc (Suc (Suc n)), Suc (Suc (Suc (Suc n))),
        Suc (Suc (Suc (Suc (Suc n)))), Suc (Suc (Suc (Suc (Suc (Suc n)))))])"
  by (simp add: onResize_def Let_def split_def buffer_names_def createDoubleFBO_simps createFBO_simps)

lemma example_world_buffers: "buffer_names example_world = [0, 1, 2, 3, 4, 5, 6]"
  by (simp add: example_world_def createState_buffers Let_def initial_world_def initial_gl_def)

lemma onResize_gl:
  "drawingBufferWidth (gl (onResize E iw ih w)) = fst (drawing_buffer E iw ih)"
  "drawingBufferHeight (gl (onResize E iw ih w)) = snd (drawing_buffer E iw ih)"
  "next_name (gl (onResize E iw ih w)) = next_name (gl w) + 7"
  "calls (gl (onResize E iw ih w)) = calls (gl w)"
  by (simp_all add: onResize_def Let_def split_def createDoubleFBO_simps createFBO_simps)

lemma getRes_cong:
  "drawingBufferWidth g = drawingBufferWidth g' \<Longrightarrow> drawingBufferHeight g = drawingBufferHeight g' \<Longrightarrow>
   getRes t g = getRes t g'"
  by (simp add: getRes_def)

subsection \<open>The draw calls of a step and of a frame\<close>

lemma step_calls:
  assumes "linked w Advection" "linked w Divergence" "linked w Pressure" "linked w GradientSubtract"
  shows "\<exists>w' cs. step E dt w = Inr w' \<and> calls (gl w') = calls (gl w) @ cs \<and>
     map draw_summary cs = spec_solver_sequence (velocity w) (dye w) (divergence w) (pressure w) (unit_tex (gl w) 1) \<and>
     map advection_params (take 2 cs) =
       [((if has_uniform w Advection ''u_dt'' then Some (U1f dt) else uniform_vals (gl w) Advection ''u_dt''),
         (if has_uniform w Advection ''u_dissipation'' then Some (U1f VELOCITY_DISSIPATION)
          else uniform_vals (gl w) Advection ''u_dissipation'')),
        ((if has_uniform w Advection ''u_dt'' then Some (U1f dt) else uniform_vals (gl w) Advection ''u_dt''),
         (if has_uniform w Advection ''u_dissipation'' then Some (U1f DENSITY_DISSIPATION)
          else uniform_vals (gl w) Advection ''u_dissipation''))] \<and>
     velocity w' = velocity w \<and> dye w' = swap_fbo (dye w) \<and> pressure w' = pressure w"
proof -
  from assms obtain a d p s where
    "programs w Advection = Some \<lparr>program = Advection, uniforms = a\<rparr>"
    "programs w Divergence = Some \<lparr>program = Divergence, uniforms = d\<rparr>"
    "programs w Pressure = Some \<lparr>program = Pressure, uniforms = p\<rparr>"
    "programs w GradientSubtract = Some \<lparr>program = GradientSubtract, uniforms = s\<rparr>"
    by (meson linkedD)
  then show ?thesis
    by (simp add: step_def Let_def advectVelocity_def advectDye_def computeDivergence_def
        solvePressure_def subtractGradient_def PRESSURE_ITERATIONS_def eval_nat_numeral
        pressureIteration_def draw_summary_def advection_params_def has_uniform_def
        read_fbo_def write_fbo_def swap_fbo_def spec_solver_sequence_def)
qed

lemma updateTransition_calls [simp]: "calls (gl (updateTransition t w)) = calls (gl w)"
  by (simp add: updateTransition_def Let_def clearDye_def gl_clear_def gl_bindFramebuffer_def
      split: option.splits)

lemma applySplat_calls:
  assumes "linked w Splat"
  shows "\<exists>w2 cs. applySplat E f dt w = Inr w2 \<and> calls (gl w2) = calls (gl w) @ cs \<and>
     map dc_program cs = (if ptr_moved (pointer w) then [Some Splat, Some Splat] else []) \<and>
     velocity w2 = (if ptr_moved (pointer w) then swap_fbo (velocity w) else velocity w) \<and>
     dye w2 = (if ptr_moved (pointer w) then swap_fbo (dye w) else dye w) \<and>
     pressure w2 = pressure w \<and> divergence w2 = divergence w \<and> programs w2 = programs w \<and>
     unit_tex (gl w2) 1 = unit_tex (gl w) 1 \<and>
     uniform_vals (gl w2) Advection = uniform_vals (gl w) Advection"
proof -
  from linkedD[OF assms] obtain s where
    p: "programs w Splat = Some \<lparr>program = Splat, uniforms = s\<rparr>" by blast
  show ?thesis
  proof (cases "ptr_moved (pointer w)")
    case False
    then show ?thesis by (simp add: applySplat_not_moved)
  next
    case True
    then show ?thesis
      using p
      by (simp add: applySplat_def addSplat_def Let_def checkAdvance_def startTransition_def fun_eq_iff)
  qed
qed

lemma display_calls:
  assumes "linked w Display"
  shows "\<exists>w' c. display E w = Inr w' \<and> calls (gl w') = calls (gl w) @ [c] \<and>
     dc_program c = Some Display \<and> dc_target c = None"
proof -
  from linkedD[OF assms] obtain s where
    p: "programs w Display = Some \<lparr>program = Display, uniforms = s\<rparr>" by blast
  then show ?thesis by (simp add: display_def Let_def)
qed

lemma render_calls:
  assumes "all_linked w"
  shows "\<exists>w' cs1 cs2 c. render E f w = Inr w' \<and> calls (gl w') = calls (gl w) @ cs1 @ cs2 @ [c] \<and>
     map dc_program cs1 = (if ptr_moved (pointer w) then [Some Splat, Some Splat] else []) \<and>
     map draw_summary cs2 =
       spec_solver_sequence (if ptr_moved (pointer w) then swap_fbo (velocity w) else velocity w)
         (if ptr_moved (pointer w) then swap_fbo (dye w) else dye w)
         (divergence w) (pressure w) (unit_tex (gl w) 1) \<and>
     map advection_params (take 2 cs2) =
       [((if has_uniform w Advection ''u_dt'' then Some (U1f (frame_dt f w)) else uniform_vals (gl w) Advection ''u_dt''),
         (if has_uniform w Advection ''u_dissipation'' then Some (U1f VELOCITY_DISSIPATION)
          else uniform_vals (gl w) Advection ''u_dissipation'')),
        ((if has_uniform w Advection ''u_dt'' then Some (U1f (frame_dt f w)) else uniform_vals (gl w) Advection ''u_dt''),
         (if has_uniform w Advection ''u_dissipation'' then Some (U1f DENSITY_DISSIPATION)
          else uniform_vals (gl w) Advection ''u_dissipation''))] \<and>
     dc_program c = Some Display \<and> dc_target c = None"
proof -
  let ?w1 = "w\<lparr>lastTime := now f\<rparr>" and ?dt = "frame_dt f w"
  have l1: "linked ?w1 Splat" using assms by (simp add: all_linked_def linked_def)
  from applySplat_calls[OF l1, of E f ?dt] obtain w2 cs1 where
    a: "applySplat E f ?dt ?w1 = Inr w2" and c1: "calls (gl w2) = calls (gl w) @ cs1"
    and m1: "map dc_program cs1 = (if ptr_moved (pointer w) then [Some Splat, Some Splat] else [])"
    and f2: "velocity w2 = (if ptr_moved (pointer w) then swap_fbo (velocity w) else velocity w)"
      "dye w2 = (if ptr_moved (pointer w) then swap_fbo (dye w) else dye w)"
      "pressure w2 = pressure w" "divergence w2 = divergence w"
    and p2: "programs w2 = programs w"
    and u2: "unit_tex (gl w2) 1 = unit_tex (gl w) 1"
      "uniform_vals (gl w2) Advection = uniform_vals (gl w) Advection"
    by auto
  have l2: "linked w2 Advection" "linked w2 Divergence" "linked w2 Pressure" "linked w2 GradientSubtract"
    using assms by (simp_all add: all_linked_def linked_def p2)
  have h2: "has_uniform w2 Advection n = has_uniform w Advection n" for n
    by (simp add: has_uniform_def p2)
  from step_calls[OF l2, of E ?dt] obtain w3 cs2 where
    s: "step E ?dt w2 = Inr w3" and c2: "calls (gl w3) = calls (gl w2) @ cs2"
    and m2: "map draw_summary cs2 =
       spec_solver_sequence (velocity w2) (dye w2) (divergence w2) (pressure w2) (unit_tex (gl w2) 1)"
    and q2: "map advection_params (take 2 cs2) =
       [((if has_uniform w2 Advection ''u_dt'' then Some (U1f ?dt) else uniform_vals (gl w2) Advection ''u_dt''),
         (if has_uniform w2 Advection ''u_dissipation'' then Some (U1f VELOCITY_DISSIPATION)
          else uniform_vals (gl w2) Advection ''u_dissipation'')),
        ((if has_uniform w2 Advection ''u_dt'' then Some (U1f ?dt) else uniform_vals (gl w2) Advection ''u_dt''),
         (if has_uniform w2 Advection ''u_dissipation'' then Some (U1f DENSITY_DISSIPATION)
          else uniform_vals (gl w2) Advection ''u_dissipation''))]"
    by (elim exE conjE) (rule that; assumption)
  have p3: "programs w3 = programs w"
    using script_vars_eqD(8)[OF step_vars[of E ?dt w2]] s p2 by simp
  have l3: "linked (updateTransition (now f) w3) Display"
    using assms by (simp add: all_linked_def linked_def p3)
  from display_calls[OF l3, of E] obtain w' c where
    d: "display E (updateTransition (now f) w3) = Inr w'"
    and c3: "calls (gl w') = calls (gl w3) @ [c]"
    and m3: "dc_program c = Some Display" "dc_target c = None"
    by auto
  have r: "render E f w = Inr w'"
    using a s d by (simp add: render_def Let_def frame_dt_def)
  have cc: "calls (gl w') = calls (gl w) @ cs1 @ cs2 @ [c]"
    by (simp add: c3 c2 c1)
  note m2' = m2[unfolded f2 u2]
  note q2' = q2[unfolded h2 u2]
  show ?thesis
    apply (rule exI[of _ w'], rule exI[of _ cs1], rule exI[of _ cs2], rule exI[of _ c])
    apply (intro conjI)
          apply (rule r)
         apply (rule cc)
        apply (rule m1)
       apply (rule m2')
      apply (rule q2')
     apply (rule m3(1))
    apply (rule m3(2))
    done
qed

lemma solver_calls_decompose:
  assumes "map draw_summary cs = spec_solver_sequence v d dv p u1"
  shows "\<exists>c1 c2 rest. cs = c1 # c2 # rest \<and>
     dc_program c1 = Some Advection \<and> dc_target c1 = Some (fbo_name (write_fbo v)) \<and>
     dc_program c2 = Some Advection \<and> dc_target c2 = Some (fbo_name (write_fbo d)) \<and>
     map dc_program rest = Some Divergence # replicate 8 (Some Pressure) @ [Some GradientSubtract]"
proof -
  have "map dc_program cs = map fst (map draw_summary cs)"
    by (simp add: draw_summary_def comp_def)
  then have p: "map dc_program cs =
      [Some Advection, Some Advection, Some Divergence] @ replicate 8 (Some Pressure) @ [Some GradientSubtract]"
    by (simp add: assms spec_solver_sequence_def eval_nat_numeral)
  have "map dc_target cs = map (\<lambda>s. snd (snd (snd s))) (map draw_summary cs)"
    by (simp add: draw_summary_def comp_def)
  then have t: "take 2 (map dc_target cs) = [Some (fbo_name (write_fbo v)), Some (fbo_name (write_fbo d))]"
    by (simp add: assms spec_solver_sequence_def)
  from p obtain c1 c2 rest where cs: "cs = c1 # c2 # rest"
    by (auto simp add: map_eq_Cons_conv)
  show ?thesis
    using p t unfolding cs by simp
qed

lemma loadImageTextures_calls [simp]: "calls (snd (loadImageTextures urls g)) = calls g"
  by (induction urls arbitrary: g) (simp_all add: loadImageTexture_def Let_def split_def)

lemma example_world_calls: "calls (gl example_world) = []"
  by (simp add: example_world_def createState_def Let_def split_def createDoubleFBO_simps
      createFBO_simps initial_world_def initial_gl_def)

lemma example_all_linked: "programs w = example_programs \<Longrightarrow> all_linked w"
  by (simp add: all_linked_def linked_def example_programs_def)

lemma example_has_uniform:
  "programs w = example_programs \<Longrightarrow> has_uniform w Advection ''u_dt''"
  "programs w = example_programs \<Longrightarrow> has_uniform w Advection ''u_dissipation''"
  by (simp_all add: has_uniform_def example_programs_def example_uniforms_def)

subsection \<open>Building the programs\<close>

lemma createProgram_compiled:
  assumes "compile_ok E VERTEX_SHADER v" "compile_ok E FRAGMENT_SHADER f"
  shows "createProgram E k v f w =
     (case link_result E v f of
        None \<Rightarrow> Inr (None, w\<lparr>console := console w @ [''Program link error:'']\<rparr>)
      | Some ns \<Rightarrow> Inr (Some \<lparr>program = k, uniforms = ns\<rparr>, w))"
  using assms by (simp add: createProgram_def compileShader_def)

lemma createProgram_not_compiled:
  assumes "\<not> compile_ok E VERTEX_SHADER v \<or> \<not> compile_ok E FRAGMENT_SHADER f" "attach_null_throws E"
  shows "\<exists>w'. createProgram E k v f w = Inl (TypeError_attach_null, w') \<and>
           ''Shader compile error:'' \<in> set (console w')"
  using assms by (auto simp add: createProgram_def compileShader_def)

lemma buildPrograms_compiled:
  assumes "compile_ok E VERTEX_SHADER v"
    and "list_all (\<lambda>(k, i). case script_text E i of None \<Rightarrow> False
                              | Some f \<Rightarrow> compile_ok E FRAGMENT_SHADER f) srcs"
  shows "buildPrograms E v srcs w = Inr (fold (link_step E v) srcs w)"
  using assms(2)
proof (induction srcs arbitrary: w)
  case Nil
  show ?case by simp
next
  case (Cons ki srcs)
  obtain k i where ki: "ki = (k, i)" by (cases ki)
  from Cons.prems ki obtain f where f: "script_text E i = Some f" "compile_ok E FRAGMENT_SHADER f"
    by (auto split: option.splits)
  from Cons.prems have rest: "list_all (\<lambda>(k, i). case script_text E i of None \<Rightarrow> False
                              | Some f \<Rightarrow> compile_ok E FRAGMENT_SHADER f) srcs" by simp
  show ?case
    unfolding ki
    by (simp add: shaderSrc_def f createProgram_compiled[OF assms(1) f(2)] Cons.IH[OF rest]
        link_step_def split: option.splits)
qed

lemma buildPrograms_not_compiled:
  assumes "attach_null_throws E"
    and "list_all (\<lambda>(k, i). script_text E i \<noteq> None) srcs"
    and "srcs \<noteq> []"
    and "\<not> (compile_ok E VERTEX_SHADER v \<and>
            list_all (\<lambda>(k, i). case script_text E i of None \<Rightarrow> False
                              | Some f \<Rightarrow> compile_ok E FRAGMENT_SHADER f) srcs)"
  shows "\<exists>w'. buildPrograms E v srcs w = Inl (TypeError_attach_null, w') \<and>
           ''Shader compile error:'' \<in> set (console w')"
  using assms(2,3,4)
proof (induction srcs arbitrary: w)
  case Nil
  then show ?case by simp
next
  case (Cons ki srcs)
  obtain k i where ki: "ki = (k, i)" by (cases ki)
  from Cons.prems(1) ki obtain f where f: "script_text E i = Some f" by auto
  show ?case
  proof (cases "compile_ok E VERTEX_SHADER v \<and> compile_ok E FRAGMENT_SHADER f")
    case False
    then have "\<not> compile_ok E VERTEX_SHADER v \<or> \<not> compile_ok E FRAGMENT_SHADER f" by blast
    from createProgram_not_compiled[OF this assms(1), of k w]
    show ?thesis unfolding ki by (auto simp add: shaderSrc_def f)
  next
    case True
    then have cv: "compile_ok E VERTEX_SHADER v" and cf: "compile_ok E FRAGMENT_SHADER f" by blast+
    have bad: "\<not> (compile_ok E VERTEX_SHADER v \<and>
            list_all (\<lambda>(k, i). case script_text E i of None \<Rightarrow> False
                              | Some f \<Rightarrow> compile_ok E FRAGMENT_SHADER f) srcs)"
      using Cons.prems(3) cv cf unfolding ki by (simp add: f)
    then have ne: "srcs \<noteq> []" using cv by auto
    have pres: "list_all (\<lambda>(k, i). script_text E i \<noteq> None) srcs" using Cons.prems(1) by simp
    note IH = Cons.IH[OF pres ne bad]
    show ?thesis
      unfolding ki
      using IH
      by (simp add: shaderSrc_def f createProgram_compiled[OF cv cf] split: option.splits)
  qed
qed

lemma link_step_programs:
  "programs (link_step E v (k, i) w) =
     (programs w)(k := map_option (\<lambda>ns. \<lparr>program = k, uniforms = ns\<rparr>) (link_result E v (the (script_text E i))))"
  by (simp add: link_step_def split: option.splits)

lemma link_step_console:
  "console (link_step E v (k, i) w) =
     console w @ (if link_result E v (the (script_text E i)) = None then [''Program link error:''] else [])"
  by (simp add: link_step_def split: option.splits)

lemma createState_keeps [simp]:
  "programs (createState E w) = programs w" "console (createState E w) = console w"
  "\<not> ptr_moved (pointer (createState E w))"
  by (simp_all add: createState_def Let_def split_def)

lemma startup_compiled:
  assumes "gl_supported E" and "sources_compile E"
  shows "\<exists>w. startup E = Inr w \<and> \<not> ptr_moved (pointer w) \<and>
     (\<forall>k. programs w k = map_option (\<lambda>ns. \<lparr>program = k, uniforms = ns\<rparr>) (program_link E k)) \<and>
     (\<forall>k. program_link E k = None \<longrightarrow> ''Program link error:'' \<in> set (console w))"
proof -
  from assms(2) obtain v where v: "script_text E ''vertShader'' = Some v"
    and cv: "compile_ok E VERTEX_SHADER v"
    and cf: "list_all (\<lambda>(k, i). case script_text E i of None \<Rightarrow> False
                              | Some f \<Rightarrow> compile_ok E FRAGMENT_SHADER f) program_sources"
    by (auto simp add: sources_compile_def split: option.splits)
  let ?w1 = "fold (link_step E v) program_sources (initial_world E)"
  have s: "startup E = Inr (createState E ?w1)"
    using assms(1) by (simp add: startup_def Let_def shaderSrc_def v buildPrograms_compiled[OF cv cf])
  have pres: "script_text E i \<noteq> None" if "(k, i) \<in> set program_sources" for k i
    using cf that by (auto simp add: list_all_iff split: option.splits)
  have pl: "program_link E k = link_result E v (the (script_text E (the (map_of program_sources k))))" for k
    using pres[of k] by (cases k) (auto simp add: program_link_def v program_sources_def split: option.splits)
  have p: "programs ?w1 k = map_option (\<lambda>ns. \<lparr>program = k, uniforms = ns\<rparr>) (program_link E k)" for k
    unfolding pl
    by (cases k) (simp_all add: program_sources_def link_step_programs initial_world_def)
  have c: "''Program link error:'' \<in> set (console ?w1)" if "program_link E k = None" for k
    using that unfolding pl
    by (cases k) (simp_all add: program_sources_def link_step_console)
  show ?thesis
    using s p c by auto
qed

lemma startup_not_compiled:
  assumes "gl_supported E" and "sources_present E" and "\<not> sources_compile E" and "attach_null_throws E"
  shows "\<exists>w'. startup E = Inl (TypeError_attach_null, w') \<and> ''Shader compile error:'' \<in> set (console w')"
proof -
  from assms(2) obtain v where v: "script_text E ''vertShader'' = Some v"
    and pres: "list_all (\<lambda>(k, i). script_text E i \<noteq> None) program_sources"
    by (auto simp add: sources_present_def)
  have bad: "\<not> (compile_ok E VERTEX_SHADER v \<and>
            list_all (\<lambda>(k, i). case script_text E i of None \<Rightarrow> False
                              | Some f \<Rightarrow> compile_ok E FRAGMENT_SHADER f) program_sources)"
    using assms(3) by (simp add: sources_compile_def v)
  have ne: "program_sources \<noteq> []" by (simp add: program_sources_def)
  from buildPrograms_not_compiled[OF assms(4) pres ne bad, of "initial_world E"]
  show ?thesis
    using assms(1) by (auto simp add: startup_def Let_def shaderSrc_def v)
qed

lemma render_programs: "programs (outcome_world (render E f w)) = programs w"
proof -
  let ?wa = "outcome_world (applySplat E f (frame_dt f w) (w\<lparr>lastTime := now f\<rparr>))"
  have a: "programs ?wa = programs w"
    using applySplat_effect(7)[of E f "frame_dt f w" "w\<lparr>lastTime := now f\<rparr>"] by simp
  from render_vars[of E f w] show ?thesis
    using a by (auto dest!: script_vars_eqD(8))
qed

lemma dispatch_programs: "programs (page_world (dispatch E pg ev)) = programs (page_world pg)"
proof (cases ev)
  case (Resize iw ih)
  then show ?thesis using script_vars_eqD(8)[OF onResize_vars] by simp
qed (simp_all add: render_programs onMouseMove_def onTouchMove_def Let_def split: option.splits list.splits)

lemma run_programs: "programs (page_world (run E pg evs)) = programs (page_world pg)"
  unfolding run_def
  by (induction evs arbitrary: pg) (simp_all add: dispatch_programs)

lemma after_render_requested: "frame_requested (after_render r) = (\<not> isl r)"
  by (cases r) (auto simp add: after_render_def)

lemma step_error:
  assumes "step E dt w = Inl (e, w')"
  shows "\<exists>k. e = TypeError_null_program k \<and> programs w k = None"
  using assms
  by (auto simp add: step_def Let_def advectVelocity_def advectDye_def computeDivergence_def
      solvePressure_def split: option.splits)

lemma render_error:
  assumes "render E f w = Inl (e, w')"
  shows "\<exists>k. e = TypeError_null_program k \<and> programs w k = None"
proof (cases "applySplat E f (frame_dt f w) (w\<lparr>lastTime := now f\<rparr>)")
  case (Inl ew)
  then have "isl (applySplat E f (frame_dt f w) (w\<lparr>lastTime := now f\<rparr>))" by simp
  then have m: "ptr_moved (pointer w)" "programs w Splat = None" by (simp_all add: applySplat_isl)
  then have "applySplat E f (frame_dt f w) (w\<lparr>lastTime := now f\<rparr>) =
      Inl (TypeError_null_program Splat, w\<lparr>lastTime := now f\<rparr>)"
    by (simp add: applySplat_null)
  then have "e = TypeError_null_program Splat"
    using assms by (simp add: render_def Let_def frame_dt_def)
  with m show ?thesis by blast
next
  case (Inr w2)
  have p2: "programs w2 = programs w"
    using applySplat_effect(7)[of E f "frame_dt f w" "w\<lparr>lastTime := now f\<rparr>"] Inr by simp
  show ?thesis
  proof (cases "step E (frame_dt f w) w2")
    case (Inl ew)
    then have "step E (frame_dt f w) w2 = Inl (e, w')"
      using assms Inr by (simp add: render_def Let_def frame_dt_def)
    from step_error[OF this] show ?thesis by (simp add: p2)
  next
    case (Inr w3)
    have p3: "programs w3 = programs w"
      using script_vars_eqD(8)[OF step_vars[of E "frame_dt f w" w2]] Inr p2 by simp
    have "display E (updateTransition (now f) w3) = Inl (e, w')"
      using assms \<open>applySplat E f (frame_dt f w) (w\<lparr>lastTime := now f\<rparr>) = Inr w2\<close> Inr
      by (simp add: render_def Let_def frame_dt_def)
    then have "e = TypeError_null_program Display \<and> programs w Display = None"
      by (auto simp add: display_def Let_def p3 split: option.splits)
    then show ?thesis by blast
  qed
qed

lemma broken_env_simps:
  "gl_supported broken_env"
  "script_text broken_env i = (if i \<in> set example_ids then Some i else None)"
  "compile_ok broken_env ty src"
  "link_result broken_env v f = (if f = ''fragSplat'' then None else Some (example_uniforms f))"
  by (simp_all add: broken_env_def example_env_def)

lemma broken_env_facts:
  "sources_present broken_env" "sources_compile broken_env"
  "program_link broken_env k = (if k = Splat then None else map_option uniforms (example_programs k))"
proof -
  show "sources_present broken_env" "sources_compile broken_env"
    by (simp_all add: sources_present_def sources_compile_def broken_env_simps
        program_sources_def example_ids_def)
  show "program_link broken_env k = (if k = Splat then None else map_option uniforms (example_programs k))"
    by (cases k) (simp_all add: program_link_def broken_env_simps program_sources_def example_ids_def
        example_programs_def)
qed

lemma broken_startup:
  "\<exists>w. startup broken_env = Inr w \<and> \<not> ptr_moved (pointer w) \<and> programs w Splat = None \<and>
       programs w Advection \<noteq> None \<and> programs w Divergence \<noteq> None \<and> programs w Pressure \<noteq> None \<and>
       programs w GradientSubtract \<noteq> None \<and> programs w Display \<noteq> None \<and>
       ''Program link error:'' \<in> set (console w)"
proof -
  from startup_compiled[OF broken_env_simps(1) broken_env_facts(2)] obtain w where
    w: "startup broken_env = Inr w" "\<not> ptr_moved (pointer w)"
    and p: "\<And>k. programs w k = map_option (\<lambda>ns. \<lparr>program = k, uniforms = ns\<rparr>) (program_link broken_env k)"
    and c: "\<And>k. program_link broken_env k = None \<Longrightarrow> ''Program link error:'' \<in> set (console w)"
    by blast
  have "''Program link error:'' \<in> set (console w)"
    by (rule c[of Splat]) (simp add: broken_env_facts)
  then show ?thesis
    using w by (simp add: p broken_env_facts example_programs_def)
qed

lemma uncompiled_env_facts:
  "gl_supported uncompiled_env" "sources_present uncompiled_env" "\<not> sources_compile uncompiled_env"
  "attach_null_throws uncompiled_env"
  by (simp_all add: uncompiled_env_def example_env_def sources_present_def sources_compile_def
      program_sources_def example_ids_def)

subsection \<open>The buffers during a run\<close>

lemma same_buffers_refl [simp]: "same_buffers w w"
  by (simp add: same_buffers_def)

lemma same_buffers_trans: "same_buffers a b \<Longrightarrow> same_buffers b c \<Longrightarrow> same_buffers a c"
  by (auto simp add: same_buffers_def)

lemma same_buffers_set:
  assumes "same_buffers w w'"
  shows "set (buffer_names w') = set (buffer_names w)"
proof -
  have v: "{fbo_name (dfbo_a (velocity w')), fbo_name (dfbo_b (velocity w'))} =
           {fbo_name (dfbo_a (velocity w)), fbo_name (dfbo_b (velocity w))}"
    using assms by (auto simp add: same_buffers_def swap_fbo_def)
  have d: "{fbo_name (dfbo_a (dye w')), fbo_name (dfbo_b (dye w'))} =
           {fbo_name (dfbo_a (dye w)), fbo_name (dfbo_b (dye w))}"
    using assms by (auto simp add: same_buffers_def swap_fbo_def)
  have p: "{fbo_name (dfbo_a (pressure w')), fbo_name (dfbo_b (pressure w'))} =
           {fbo_name (dfbo_a (pressure w)), fbo_name (dfbo_b (pressure w))}"
    using assms by (auto simp add: same_buffers_def swap_fbo_def)
  have dv: "divergence w' = divergence w" using assms by (simp add: same_buffers_def)
  have "set (buffer_names w') =
      {fbo_name (dfbo_a (velocity w')), fbo_name (dfbo_b (velocity w'))} \<union>
      {fbo_name (dfbo_a (dye w')), fbo_name (dfbo_b (dye w'))} \<union>
      {fbo_name (divergence w')} \<union>
      {fbo_name (dfbo_a (pressure w')), fbo_name (dfbo_b (pressure w'))}"
    by (auto simp add: buffer_names_def)
  also have "\<dots> =
      {fbo_name (dfbo_a (velocity w)), fbo_name (dfbo_b (velocity w))} \<union>
      {fbo_name (dfbo_a (dye w)), fbo_name (dfbo_b (dye w))} \<union>
      {fbo_name (divergence w)} \<union>
      {fbo_name (dfbo_a (pressure w)), fbo_name (dfbo_b (pressure w))}"
    by (simp only: v d p dv)
  also have "\<dots> = set (buffer_names w)"
    by (auto simp add: buffer_names_def)
  finally show ?thesis .
qed

lemma same_buffers_distinct:
  assumes "same_buffers w w'"
  shows "distinct (buffer_names w') = distinct (buffer_names w)"
proof -
  have l: "length (buffer_names w') = length (buffer_names w)"
    by (simp add: buffer_names_def)
  have "distinct (buffer_names w') = (card (set (buffer_names w')) = length (buffer_names w'))"
    using distinct_card card_distinct by blast
  also have "\<dots> = (card (set (buffer_names w)) = length (buffer_names w))"
    by (simp only: same_buffers_set[OF assms] l)
  also have "\<dots> = distinct (buffer_names w)"
    using distinct_card card_distinct by blast
  finally show ?thesis .
qed

lemma pressureLoop_buffers: "same_buffers w (pressureLoop E p n w)"
proof (induction n arbitrary: w)
  case 0
  show ?case by simp
next
  case (Suc n)
  have "same_buffers w (pressureIteration E p w)"
    by (simp add: same_buffers_def pressureIteration_def Let_def)
  from same_buffers_trans[OF this Suc[of "pressureIteration E p w"]]
  show ?case by simp
qed

lemma section_buffers:
  "same_buffers w (advectVelocity E p dt w)" "same_buffers w (advectDye E p w)"
  "same_buffers w (computeDivergence E p w)" "same_buffers w (subtractGradient E p w)"
  "same_buffers w (updateTransition t w)" "same_buffers w (checkAdvance f w)"
  by (simp_all add: same_buffers_def advectVelocity_def advectDye_def computeDivergence_def
      subtractGradient_def updateTransition_def clearDye_def checkAdvance_def startTransition_def Let_def)

lemma solvePressure_buffers: "same_buffers w (solvePressure E p w)"
proof -
  let ?w1 = "w\<lparr>gl := gl_uniform p ''u_divergence'' (U1i 0) (attach (divergence w) 0
      (gl_uniform p ''u_texel'' (U2f (dfbo_texelX (velocity w)) (dfbo_texelY (velocity w)))
        (gl_useProgram (program p) (gl w))))\<rparr>"
  have "same_buffers w ?w1" by (simp add: same_buffers_def)
  from same_buffers_trans[OF this pressureLoop_buffers[of ?w1 E p PRESSURE_ITERATIONS]]
  show ?thesis by (simp add: solvePressure_def Let_def)
qed

lemma step_buffers: "same_buffers w (outcome_world (step E dt w))"
proof -
  have a: "same_buffers w (advectDye E p (advectVelocity E p dt w))" for p
    by (rule same_buffers_trans[OF section_buffers(1) section_buffers(2)])
  have b: "same_buffers w (computeDivergence E q (advectDye E p (advectVelocity E p dt w)))" for p q
    by (rule same_buffers_trans[OF a section_buffers(3)])
  have c: "same_buffers w (solvePressure E r (computeDivergence E q (advectDye E p (advectVelocity E p dt w))))" for p q r
    by (rule same_buffers_trans[OF b solvePressure_buffers])
  have d: "same_buffers w (subtractGradient E s (solvePressure E r (computeDivergence E q (advectDye E p (advectVelocity E p dt w)))))" for p q r s
    by (rule same_buffers_trans[OF c section_buffers(4)])
  show ?thesis
    by (simp add: step_def Let_def a b c d split: option.splits)
qed

lemma addSplat_buffers: "same_buffers w (outcome_world (addSplat E x y dx dy c w))"
  by (simp add: addSplat_def Let_def same_buffers_def split: option.splits)

lemma display_buffers: "same_buffers w (outcome_world (display E w))"
  by (simp add: display_def Let_def same_buffers_def split: option.splits)

lemma applySplat_buffers: "same_buffers w (outcome_world (applySplat E f dt w))"
proof (cases "ptr_moved (pointer w)")
  case False
  then show ?thesis by (simp add: applySplat_not_moved)
next
  case True
  let ?r = "addSplat E (ptr_x (pointer w)) (ptr_y (pointer w)) (ptr_dx (pointer w) * SPLAT_FORCE * dt)
                   (ptr_dy (pointer w) * SPLAT_FORCE * dt) (0.9, 0.85, 0.8) w"
  have ab: "same_buffers w (outcome_world ?r)" by (rule addSplat_buffers)
  show ?thesis
  proof (cases ?r)
    case (Inl ew)
    obtain e w1 where ew: "ew = (e, w1)" by (cases ew)
    have "same_buffers w w1" using ab Inl ew by simp
    then show ?thesis using True Inl ew by (simp add: applySplat_def Let_def)
  next
    case (Inr w1)
    have s1: "same_buffers w w1" using ab Inr by simp
    show ?thesis
      using True Inr s1
      by (simp add: applySplat_def Let_def same_buffers_def checkAdvance_def startTransition_def)
  qed
qed

lemma render_buffers: "same_buffers w (outcome_world (render E f w))"
proof -
  let ?w1 = "w\<lparr>lastTime := now f\<rparr>"
  have s0: "same_buffers w ?w1" by (simp add: same_buffers_def)
  show ?thesis
  proof (cases "applySplat E f (frame_dt f w) ?w1")
    case (Inl ew)
    then show ?thesis
      using same_buffers_trans[OF s0 applySplat_buffers[of ?w1 E f "frame_dt f w"]]
      by (cases ew) (simp add: render_def Let_def frame_dt_def)
  next
    case (Inr w2)
    have s2: "same_buffers w w2"
      using same_buffers_trans[OF s0 applySplat_buffers[of ?w1 E f "frame_dt f w"]] Inr by simp
    show ?thesis
    proof (cases "step E (frame_dt f w) w2")
      case (Inl ew)
      then show ?thesis
        using same_buffers_trans[OF s2 step_buffers[of w2 E "frame_dt f w"]] Inr
        by (cases ew) (simp add: render_def Let_def frame_dt_def)
    next
      case (Inr w3)
      have s3: "same_buffers w w3"
        using same_buffers_trans[OF s2 step_buffers[of w2 E "frame_dt f w"]] Inr by simp
      have s4: "same_buffers w (updateTransition (now f) w3)"
        by (rule same_buffers_trans[OF s3 section_buffers(5)])
      have "render E f w = display E (updateTransition (now f) w3)"
        using \<open>applySplat E f (frame_dt f w) ?w1 = Inr w2\<close> Inr
        by (simp add: render_def Let_def frame_dt_def)
      then show ?thesis
        using same_buffers_trans[OF s4 display_buffers[of "updateTransition (now f) w3" E]] by simp
    qed
  qed
qed

lemma dispatch_buffers_distinct:
  assumes "distinct (buffer_names (page_world pg))"
  shows "distinct (buffer_names (page_world (dispatch E pg ev)))"
proof (cases ev)
  case (Resize iw ih)
  then show ?thesis by (simp add: onResize_buffers Let_def)
next
  case (AnimationFrame f)
  then show ?thesis
    using assms same_buffers_distinct[OF render_buffers[of "page_world pg" E f]] by simp
qed (use assms in \<open>simp_all add: buffer_names_def onMouseMove_def onTouchMove_def Let_def
      split: option.splits list.splits\<close>)

lemma run_buffers_distinct:
  "distinct (buffer_names (page_world pg)) \<Longrightarrow> distinct (buffer_names (page_world (run E pg evs)))"
  unfolding run_def
  by (induction evs arbitrary: pg) (simp_all add: dispatch_buffers_distinct)

lemma script_buffers_distinct:
  assumes "script E f0 = Inr pg"
  shows "distinct (buffer_names (page_world (run E pg evs)))"
proof -
  from assms obtain w where s: "startup E = Inr w" and pg: "pg = after_render (render E f0 w)"
    by (auto simp add: script_def split: sum.splits)
  from s have "distinct (buffer_names w)"
    by (auto simp add: startup_def Let_def createState_buffers split: if_splits option.splits sum.splits)
  then have "distinct (buffer_names (page_world pg))"
    unfolding pg using same_buffers_distinct[OF render_buffers[of w E f0]] by simp
  then show ?thesis by (rule run_buffers_distinct)
qed

subsection \<open>The variables after a frame, and a run of the example page\<close>

lemma updateTransition_fields:
  "blendFactor (updateTransition t w) =
     (if isTransitioning w
      then (if TRANSITION_DURATION \<le> t - transitionStart w then 0
            else (t - transitionStart w) / TRANSITION_DURATION)
      else blendFactor w)"
  "pointer (updateTransition t w) = pointer w"
  "imageTextures (updateTransition t w) = imageTextures w"
  "lastTime (updateTransition t w) = lastTime w"
  "currentImageIdx (updateTransition t w) =
     (if isTransitioning w \<and> TRANSITION_DURATION \<le> t - transitionStart w then nextImageIdx w
      else currentImageIdx w)"
  "nextImageIdx (updateTransition t w) =
     (if isTransitioning w \<and> TRANSITION_DURATION \<le> t - transitionStart w
      then (nextImageIdx w + 1) mod length (imageTextures w) else nextImageIdx w)"
  by (auto simp add: updateTransition_def Let_def clearDye_def TRANSITION_DURATION_def min_def)

lemma example_page_script: "script example_env \<lparr>now = 16, now_start = 16\<rparr> = Inr example_page"
  by (simp add: example_script example_page_def)

lemma ready_frame_vars:
  assumes "frame_ready w"
  shows "\<exists>w'. render E f w = Inr w' \<and>
     script_vars w' = script_vars (updateTransition (now f)
       (if ptr_moved (pointer w)
        then checkAdvance f (w\<lparr>pointer := (pointer w)\<lparr>ptr_moved := False\<rparr>, lastTime := now f,
                                 totalSplatEnergy := totalSplatEnergy w + pointer_speed w\<rparr>)
        else w\<lparr>lastTime := now f\<rparr>))"
proof -
  let ?w1 = "w\<lparr>lastTime := now f\<rparr>"
  let ?wa = "outcome_world (applySplat E f (frame_dt f w) ?w1)"
  let ?wb = "if ptr_moved (pointer w)
        then checkAdvance f (w\<lparr>pointer := (pointer w)\<lparr>ptr_moved := False\<rparr>, lastTime := now f,
                                 totalSplatEnergy := totalSplatEnergy w + pointer_speed w\<rparr>)
        else w\<lparr>lastTime := now f\<rparr>"
  from render_ready[OF assms, of E f] obtain w' where
    r: "render E f w = Inr w'" and v: "script_vars w' = script_vars (updateTransition (now f) ?wa)"
    by blast
  have ab: "script_vars ?wa = script_vars ?wb"
  proof (cases "ptr_moved (pointer w)")
    case False
    then show ?thesis by (simp add: applySplat_not_moved)
  next
    case True
    then have m: "ptr_moved (pointer ?w1)" by simp
    have p: "programs ?w1 Splat \<noteq> None" using assms True by (simp add: frame_ready_def)
    from applySplat_moved[OF m p, of E f "frame_dt f w"] obtain w1 w2 where
      a: "applySplat E f (frame_dt f w) ?w1 = Inr w2" and v1: "script_vars w1 = script_vars ?w1"
      and w2: "w2 = checkAdvance f (w1\<lparr>totalSplatEnergy := totalSplatEnergy ?w1 + pointer_speed ?w1,
                                   pointer := (pointer ?w1)\<lparr>ptr_moved := False\<rparr>\<rparr>)"
      by blast
    show ?thesis
      using True script_vars_eqD[OF v1]
      by (simp add: a w2 script_vars_def checkAdvance_vars applySplat_speed)
  qed
  have "script_vars (updateTransition (now f) ?wa) = script_vars (updateTransition (now f) ?wb)"
    by (rule updateTransition_vars_cong[OF ab])
  with r v show ?thesis by simp
qed

lemma script_vars_fields:
  assumes "script_vars w = ((ci, ni, bf, tr, ts, en), p, pr, im, lt)"
  shows "currentImageIdx w = ci" "nextImageIdx w = ni" "blendFactor w = bf" "isTransitioning w = tr"
    "transitionStart w = ts" "totalSplatEnergy w = en" "pointer w = p" "programs w = pr"
    "imageTextures w = im" "lastTime w = lt"
  using assms by (simp_all add: script_vars_def)

lemma updateTransition_script_vars:
  assumes "script_vars w = ((ci, ni, bf, tr, ts, en), p, pr, im, lt)"
  shows "script_vars (updateTransition t w) =
     (if tr \<and> TRANSITION_DURATION \<le> t - ts
      then ((ni, (ni + 1) mod length im, 0, False, ts, 0), p, pr, im, lt)
      else ((ci, ni, (if tr then (t - ts) / TRANSITION_DURATION else bf), tr, ts, en), p, pr, im, lt))"
  using script_vars_fields[OF assms]
  by (simp add: script_vars_def updateTransition_effect updateTransition_fields)

lemma example_page_vars:
  "frame_requested example_page"
  "script_vars (page_world example_page) =
     ((0, 1, 0, False, 0, 0), \<lparr>ptr_x = 640, ptr_y = 360, ptr_dx = 0, ptr_dy = 0, ptr_moved = False\<rparr>,
      example_programs, [7, 8, 9, 10], 16)"
proof -
  let ?f = "\<lparr>now = 16, now_start = 16\<rparr>"
  have rdy: "frame_ready example_world"
    by (rule example_frame_ready) (simp add: example_world_fields)
  from ready_frame_vars[OF rdy, of example_env ?f] obtain w' where
    r: "render example_env ?f example_world = Inr w'"
    and v: "script_vars w' = script_vars (updateTransition (now ?f)
       (if ptr_moved (pointer example_world)
        then checkAdvance ?f (example_world\<lparr>pointer := (pointer example_world)\<lparr>ptr_moved := False\<rparr>,
               lastTime := now ?f,
               totalSplatEnergy := totalSplatEnergy example_world + pointer_speed example_world\<rparr>)
        else example_world\<lparr>lastTime := now ?f\<rparr>))"
    by blast
  have b: "script_vars (example_world\<lparr>lastTime := 16\<rparr>) =
     ((0, 1, 0, False, 0, 0), \<lparr>ptr_x = 640, ptr_y = 360, ptr_dx = 0, ptr_dy = 0, ptr_moved = False\<rparr>,
      example_programs, [7, 8, 9, 10], 16)"
    by (simp add: script_vars_def example_world_fields)
  have "script_vars w' = script_vars (updateTransition 16 (example_world\<lparr>lastTime := 16\<rparr>))"
    unfolding v by (simp add: example_world_fields)
  also have "\<dots> = ((0, 1, 0, False, 0, 0), \<lparr>ptr_x = 640, ptr_y = 360, ptr_dx = 0, ptr_dy = 0, ptr_moved = False\<rparr>,
      example_programs, [7, 8, 9, 10], 16)"
    unfolding updateTransition_script_vars[OF b] by simp
  finally have w': "script_vars w' = ((0, 1, 0, False, 0, 0), \<lparr>ptr_x = 640, ptr_y = 360, ptr_dx = 0, ptr_dy = 0, ptr_moved = False\<rparr>,
      example_programs, [7, 8, 9, 10], 16)" .
  have pg: "example_page = \<lparr>page_world = w', frame_requested = True\<rparr>"
    by (simp add: example_page_def r after_render_def)
  show "frame_requested example_page" by (simp add: pg)
  show "script_vars (page_world example_page) =
     ((0, 1, 0, False, 0, 0), \<lparr>ptr_x = 640, ptr_y = 360, ptr_dx = 0, ptr_dy = 0, ptr_moved = False\<rparr>,
      example_programs, [7, 8, 9, 10], 16)"
    by (simp add: pg w')
qed

lemma ready_frame_still:
  assumes "frame_ready w" and "script_vars w = ((ci, ni, bf, tr, ts, en), p, pr, im, lt)"
    and "\<not> ptr_moved p"
  shows "\<exists>w'. render E f w = Inr w' \<and>
     script_vars w' =
       (if tr \<and> TRANSITION_DURATION \<le> now f - ts
        then ((ni, (ni + 1) mod length im, 0, False, ts, 0), p, pr, im, now f)
        else ((ci, ni, (if tr then (now f - ts) / TRANSITION_DURATION else bf), tr, ts, en), p, pr, im, now f))"
proof -
  note fl = script_vars_fields[OF assms(2)]
  have nm: "\<not> ptr_moved (pointer w)" using assms(3) fl(7) by simp
  have b: "script_vars (w\<lparr>lastTime := now f\<rparr>) = ((ci, ni, bf, tr, ts, en), p, pr, im, now f)"
    using fl by (simp add: script_vars_def)
  from ready_frame_vars[OF assms(1), of E f] nm obtain w' where
    r: "render E f w = Inr w'"
    and v: "script_vars w' = script_vars (updateTransition (now f) (w\<lparr>lastTime := now f\<rparr>))"
    by auto
  show ?thesis
    using r v unfolding updateTransition_script_vars[OF b] by blast
qed

lemma ready_frame_moved:
  assumes "frame_ready w" and "script_vars w = ((ci, ni, bf, tr, ts, en), p, pr, im, lt)"
    and "ptr_moved p" and "pointer_speed w = sp"
  shows "\<exists>w'. render E f w = Inr w' \<and>
     script_vars w' =
       (if (tr \<or> en + sp > ADVANCE_ENERGY) \<and>
           TRANSITION_DURATION \<le> now f - (if \<not> tr \<and> en + sp > ADVANCE_ENERGY then now_start f else ts)
        then ((ni, (ni + 1) mod length im, 0, False,
               (if \<not> tr \<and> en + sp > ADVANCE_ENERGY then now_start f else ts), 0),
              p\<lparr>ptr_moved := False\<rparr>, pr, im, now f)
        else ((ci, ni,
               (if tr \<or> en + sp > ADVANCE_ENERGY
                then (now f - (if \<not> tr \<and> en + sp > ADVANCE_ENERGY then now_start f else ts)) / TRANSITION_DURATION
                else bf),
               (tr \<or> en + sp > ADVANCE_ENERGY),
               (if \<not> tr \<and> en + sp > ADVANCE_ENERGY then now_start f else ts), en + sp),
              p\<lparr>ptr_moved := False\<rparr>, pr, im, now f))"
proof -
  note fl = script_vars_fields[OF assms(2)]
  have m: "ptr_moved (pointer w)" using assms(3) fl(7) by simp
  let ?wb = "checkAdvance f (w\<lparr>pointer := (pointer w)\<lparr>ptr_moved := False\<rparr>, lastTime := now f,
                                 totalSplatEnergy := totalSplatEnergy w + pointer_speed w\<rparr>)"
  have b: "script_vars ?wb =
      ((ci, ni, bf, (tr \<or> en + sp > ADVANCE_ENERGY),
        (if \<not> tr \<and> en + sp > ADVANCE_ENERGY then now_start f else ts), en + sp),
       p\<lparr>ptr_moved := False\<rparr>, pr, im, now f)"
    using fl assms(4) by (simp add: script_vars_def checkAdvance_vars)
  from ready_frame_vars[OF assms(1), of E f] m obtain w' where
    r: "render E f w = Inr w'"
    and v: "script_vars w' = script_vars (updateTransition (now f) ?wb)"
    by auto
  show ?thesis
    using r v unfolding updateTransition_script_vars[OF b] by blast
qed

lemma mid_transition_vars:
  "frame_requested (run example_env example_page example_events)"
  "script_vars mid_transition =
     ((0, 1, 1 / 2, True, 33, 8001),
      \<lparr>ptr_x = 8641, ptr_y = 360, ptr_dx = 8001, ptr_dy = 0, ptr_moved = False\<rparr>,
      example_programs, [7, 8, 9, 10], 633)"
proof -
  let ?e = "\<lparr>clientX = 8641, clientY = 360, rect_left = 0, rect_top = 0\<rparr>"
  let ?f1 = "\<lparr>now = 32, now_start = 33\<rparr>" and ?f2 = "\<lparr>now = 633, now_start = 633\<rparr>"
  let ?w0 = "page_world example_page"
  let ?w1 = "onMouseMove ?e ?w0"
  note f0 = script_vars_fields[OF example_page_vars(2)]
  have v1: "script_vars ?w1 =
     ((0, 1, 0, False, 0, 0), \<lparr>ptr_x = 8641, ptr_y = 360, ptr_dx = 8001, ptr_dy = 0, ptr_moved = True\<rparr>,
      example_programs, [7, 8, 9, 10], 16)"
    by (simp add: script_vars_def onMouseMove_def Let_def f0)
  note f1 = script_vars_fields[OF v1]
  have rdy1: "frame_ready ?w1" by (rule example_frame_ready) (rule f1(8))
  have sp1: "pointer_speed ?w1 = 8001" by (rule pointer_speed_horizontal) (simp_all add: f1)
  from ready_frame_moved[OF rdy1 v1 _ sp1, of example_env ?f1] obtain w2 where
    r1: "render example_env ?f1 ?w1 = Inr w2"
    and v2: "script_vars w2 =
     ((0, 1, - (1 / 1200), True, 33, 8001),
      \<lparr>ptr_x = 8641, ptr_y = 360, ptr_dx = 8001, ptr_dy = 0, ptr_moved = False\<rparr>,
      example_programs, [7, 8, 9, 10], 32)"
    by (auto simp add: ADVANCE_ENERGY_def TRANSITION_DURATION_def)
  note f2 = script_vars_fields[OF v2]
  have rdy2: "frame_ready w2" by (rule example_frame_ready) (rule f2(8))
  from ready_frame_still[OF rdy2 v2, of example_env ?f2] obtain w3 where
    r2: "render example_env ?f2 w2 = Inr w3"
    and v3: "script_vars w3 =
     ((0, 1, 1 / 2, True, 33, 8001),
      \<lparr>ptr_x = 8641, ptr_y = 360, ptr_dx = 8001, ptr_dy = 0, ptr_moved = False\<rparr>,
      example_programs, [7, 8, 9, 10], 633)"
    by (auto simp add: TRANSITION_DURATION_def)
  have run: "run example_env example_page example_events = \<lparr>page_world = w3, frame_requested = True\<rparr>"
    by (simp add: run_def example_events_def example_page_vars(1) r1 r2 after_render_def)
  show "frame_requested (run example_env example_page example_events)" by (simp add: run)
  show "script_vars mid_transition =
     ((0, 1, 1 / 2, True, 33, 8001),
      \<lparr>ptr_x = 8641, ptr_y = 360, ptr_dx = 8001, ptr_dy = 0, ptr_moved = False\<rparr>,
      example_programs, [7, 8, 9, 10], 633)"
    by (simp add: mid_transition_def run v3)
qed

lemma mid_transition_buffers: "distinct (buffer_names mid_transition)"
  unfolding mid_transition_def
  by (rule script_buffers_distinct[OF example_page_script])

subsection \<open>Sampling\<close>

lemma clamp_index_range: "1 \<le> n \<Longrightarrow> 0 \<le> clamp_index n i \<and> clamp_index n i \<le> n - 1"
  by (simp add: clamp_index_def)

lemma texel_index:
  assumes "1 \<le> W" "1 \<le> H" "0 \<le> ci" "ci \<le> W - 1" "0 \<le> cj" "cj \<le> H - 1"
  shows "nat (cj * W + ci) < nat (W * H)"
proof -
  have "cj * W \<le> (H - 1) * W" using assms by (intro mult_right_mono) simp_all
  then have "cj * W + ci < H * W" using assms by (simp add: algebra_simps)
  moreover have "0 \<le> cj * W + ci" using assms by simp
  ultimately show ?thesis by (simp add: mult.commute)
qed

lemma texel_nth:
  assumes "tex_ok t"
  shows "nat (clamp_index (tex_height t) j * tex_width t + clamp_index (tex_width t) i) < length (tex_data t)"
    and "texel t i j = tex_data t ! nat (clamp_index (tex_height t) j * tex_width t + clamp_index (tex_width t) i)"
proof -
  show a: "nat (clamp_index (tex_height t) j * tex_width t + clamp_index (tex_width t) i) < length (tex_data t)"
    using assms clamp_index_range[of "tex_width t" i] clamp_index_range[of "tex_height t" j]
      texel_index[of "tex_width t" "tex_height t" "clamp_index (tex_width t) i" "clamp_index (tex_height t) j"]
    by (simp add: tex_ok_def)
  show "texel t i j = tex_data t ! nat (clamp_index (tex_height t) j * tex_width t + clamp_index (tex_width t) i)"
    using a by (simp add: texel_def Let_def)
qed

lemma texel_within:
  assumes "tex_ok t" "tex_within lo hi t"
  shows "rgba_within lo hi (texel t i j)"
  using texel_nth[OF assms(1), where i = i and j = j] assms(2)
  by (simp add: tex_within_def list_all_length)

lemma mix_within:
  assumes "rgba_within lo hi p" "rgba_within lo hi q" "0 \<le> a" "a \<le> 1"
  shows "rgba_within lo hi (rgba_add (rgba_scale (1 - a) p) (rgba_scale a q))"
proof -
  have c: "\<And>x y::real. lo \<le> x \<Longrightarrow> x \<le> hi \<Longrightarrow> lo \<le> y \<Longrightarrow> y \<le> hi \<Longrightarrow>
             lo \<le> (1 - a) * x + a * y \<and> (1 - a) * x + a * y \<le> hi"
  proof -
    fix x y :: real assume h: "lo \<le> x" "x \<le> hi" "lo \<le> y" "y \<le> hi"
    have "(1 - a) * lo \<le> (1 - a) * x" "a * lo \<le> a * y" "(1 - a) * x \<le> (1 - a) * hi" "a * y \<le> a * hi"
      using h assms(3,4) by (simp_all add: mult_left_mono)
    then show "lo \<le> (1 - a) * x + a * y \<and> (1 - a) * x + a * y \<le> hi"
      by (simp add: algebra_simps)
  qed
  obtain r g b al where p: "p = (r, g, b, al)" by (cases p)
  obtain r' g' b' al' where q: "q = (r', g', b', al')" by (cases q)
  show ?thesis
    using assms(1,2) c[of r r'] c[of g g'] c[of b b'] c[of al al']
    by (simp add: p q rgba_within_def rgba_add_def rgba_scale_def)
qed

lemma bilinear_within:
  assumes "tex_ok t" "tex_within lo hi t"
  shows "rgba_within lo hi (bilinear t u v)"
proof -
  have f: "\<And>x::real. 0 \<le> x - real_of_int \<lfloor>x\<rfloor> \<and> x - real_of_int \<lfloor>x\<rfloor> \<le> 1"
    by (simp add: algebra_simps) linarith
  show ?thesis
    unfolding bilinear_def Let_def
    by (intro mix_within texel_within assms) (simp_all add: f)
qed

lemma scale_within:
  assumes "rgba_within lo hi p" "0 \<le> d"
  shows "rgba_within (d * lo) (d * hi) (rgba_scale d p)"
  using assms by (cases p) (simp add: rgba_within_def rgba_scale_def mult_left_mono)

lemma rgba_zero_simps [simp]:
  "rgba_scale k (0, 0, 0, 0) = (0, 0, 0, 0)"
  "rgba_scale 0 p = (0, 0, 0, 0)"
  "rgba_scale 1 p = p"
  "rgba_add p (0, 0, 0, 0) = p"
  "rgba_add (0, 0, 0, 0) p = p"
  by (cases p; simp add: rgba_scale_def rgba_add_def)+

lemma mix_same: "rgba_add (rgba_scale (1 - a) p) (rgba_scale a p) = p"
  by (cases p) (simp add: rgba_scale_def rgba_add_def algebra_simps)

lemma texel_uniform:
  assumes "tex_ok t" "tex_data t = replicate n c"
  shows "texel t i j = c"
  using texel_nth[OF assms(1), where i = i and j = j] assms(2) by simp

lemma bilinear_uniform:
  assumes "tex_ok t" "tex_data t = replicate n c"
  shows "bilinear t u v = c"
  by (simp add: bilinear_def Let_def texel_uniform[OF assms] mix_same)

lemma texel_zero:
  assumes "tex_ok t" "2 \<le> tex_width t" "1 \<le> i"
    and z: "\<And>k. k < length (tex_data t) \<Longrightarrow> int k mod tex_width t \<noteq> 0 \<Longrightarrow> tex_data t ! k = (0, 0, 0, 0)"
  shows "texel t i j = (0, 0, 0, 0)"
proof -
  let ?W = "tex_width t" and ?H = "tex_height t"
  let ?ci = "clamp_index ?W i" and ?cj = "clamp_index ?H j"
  have ci: "1 \<le> ?ci" "?ci \<le> ?W - 1" using assms(2,3) by (simp_all add: clamp_index_def)
  have cj: "0 \<le> ?cj" using assms(1) by (simp add: clamp_index_def tex_ok_def)
  have nn: "0 \<le> ?cj * ?W + ?ci" using ci cj assms(2) by simp
  have "(?cj * ?W + ?ci) mod ?W = ?ci" using ci by simp
  then have m: "int (nat (?cj * ?W + ?ci)) mod ?W \<noteq> 0" using nn ci by simp
  from texel_nth[OF assms(1), where i = i and j = j] z[OF _ m] show ?thesis by simp
qed

lemma bilinear_zero:
  assumes "tex_ok t" "2 \<le> tex_width t" "1 \<le> u * real_of_int (tex_width t) - 1 / 2"
    and z: "\<And>k. k < length (tex_data t) \<Longrightarrow> int k mod tex_width t \<noteq> 0 \<Longrightarrow> tex_data t ! k = (0, 0, 0, 0)"
  shows "bilinear t u v = (0, 0, 0, 0)"
proof -
  have f: "1 \<le> \<lfloor>u * real_of_int (tex_width t) - 1 / 2\<rfloor>" using assms(3) by (simp add: le_floor_iff)
  then have f': "1 \<le> \<lfloor>u * real_of_int (tex_width t) - 1 / 2\<rfloor> + 1" by simp
  note t0 = texel_zero[OF assms(1,2) f z] texel_zero[OF assms(1,2) f' z]
  show ?thesis by (simp add: bilinear_def Let_def t0)
qed

lemma bilinear_centre:
  assumes "tex_ok t" "0 \<le> i" "i < tex_width t" "0 \<le> j" "j < tex_height t"
  shows "bilinear t ((real_of_int i + 1 / 2) / real_of_int (tex_width t))
                    ((real_of_int j + 1 / 2) / real_of_int (tex_height t)) =
         tex_data t ! nat (j * tex_width t + i)"
proof -
  have w: "0 < real_of_int (tex_width t)" "0 < real_of_int (tex_height t)" using assms by simp_all
  have s: "(real_of_int i + 1 / 2) / real_of_int (tex_width t) * real_of_int (tex_width t) - 1 / 2 = real_of_int i"
    "(real_of_int j + 1 / 2) / real_of_int (tex_height t) * real_of_int (tex_height t) - 1 / 2 = real_of_int j"
    using w by simp_all
  have c: "clamp_index (tex_width t) i = i" "clamp_index (tex_height t) j = j"
    using assms by (simp_all add: clamp_index_def)
  have "texel t i j = tex_data t ! nat (j * tex_width t + i)"
    using texel_nth(2)[OF assms(1), where i = i and j = j] by (simp add: c)
  then show ?thesis
    unfolding bilinear_def Let_def s by simp
qed

lemma fbo_ok_tex_ok: "fbo_ok g b \<Longrightarrow> tex_ok (textures g (fbo_name b))"
  by (simp add: fbo_ok_def tex_ok_def)

subsection \<open>The advection stage of the specification\<close>

lemma spec_advection_within:
  assumes "us ''u_source'' = Some (U1i n)" "ts (nat n) = Some t" "tex_ok t" "tex_within lo hi t"
    and "us ''u_dissipation'' = Some (U1f d)" "0 \<le> d"
  shows "list_all (rgba_within (d * lo) (d * hi)) (spec_advection us ts w h)"
  using assms scale_within[OF bilinear_within[OF assms(3,4)] assms(6)]
  by (simp add: spec_advection_def spec_advection_texel_def Let_def list_all_iff sampler_def uniform1f_def)

lemma spec_advection_uniform:
  assumes "us ''u_source'' = Some (U1i n)" "ts (nat n) = Some t" "tex_ok t" "tex_data t = replicate m c"
    and "us ''u_dissipation'' = Some (U1f d)"
  shows "spec_advection us ts w h = replicate (nat (w * h)) (rgba_scale d c)"
proof -
  have "spec_advection_texel us ts w h = (\<lambda>k. rgba_scale d c)"
    by (rule ext)
      (simp add: spec_advection_texel_def Let_def sampler_def uniform1f_def assms(1,2,5)
        bilinear_uniform[OF assms(3,4)])
  then show ?thesis by (simp add: spec_advection_def map_replicate_const)
qed

lemma spec_advection_carried_off:
  assumes us: "us ''u_source'' = Some (U1i 1)" "us ''u_velocity'' = Some (U1i 0)"
      "us ''u_dt'' = Some (U1f dt)" "us ''u_texel'' = Some (U2f tx ty)"
    and ts: "ts 0 = Some tv" "ts 1 = Some td"
    and v: "tex_ok tv" "tex_data tv = replicate n (vx, vy, p, q)"
    and d: "tex_ok td" "tex_width td = w" "2 \<le> w"
    and z: "\<And>k. k < length (tex_data td) \<Longrightarrow> int k mod w \<noteq> 0 \<Longrightarrow> tex_data td ! k = (0, 0, 0, 0)"
    and shift: "1 \<le> - (dt * vx * tx) * real_of_int w"
  shows "spec_advection us ts w h = cleared w h"
proof -
  have ts1: "ts (Suc 0) = Some td" using ts(2) by simp
  have "spec_advection_texel us ts w h = (\<lambda>k. (0, 0, 0, 0))"
  proof (rule ext)
    fix k
    let ?u = "(real_of_int (int k mod w) + 1 / 2) / real_of_int w"
    have w0: "0 < real_of_int w" using d(3) by simp
    have m: "0 \<le> real_of_int (int k mod w)" using d(3) by simp
    have "(?u - dt * vx * tx) * real_of_int w - 1 / 2 =
          real_of_int (int k mod w) + (- (dt * vx * tx) * real_of_int w)"
      using w0 by (simp add: field_simps)
    then have s: "1 \<le> (?u - dt * vx * tx) * real_of_int (tex_width td) - 1 / 2"
      using m shift by (simp add: d(2))
    have "bilinear td (?u - dt * vx * tx) y = (0, 0, 0, 0)" for y
      using bilinear_zero[OF d(1) _ s] d(2,3) z by simp
    then show "spec_advection_texel us ts w h k = (0, 0, 0, 0)"
      by (simp add: spec_advection_texel_def Let_def sampler_def uniform1f_def uniform2f_def us ts ts1
          bilinear_uniform[OF v])
  qed
  then show ?thesis
    by (simp add: spec_advection_def cleared_def map_replicate_const)
qed

lemma spec_advection_rest:
  assumes us: "us ''u_source'' = Some (U1i n)" "us ''u_velocity'' = Some (U1i m)"
      "us ''u_dissipation'' = Some (U1f 1)"
    and ts: "ts (nat m) = Some tv" "ts (nat n) = Some td"
    and v: "tex_ok tv" "tex_within 0 0 tv"
    and d: "tex_ok td" "tex_width td = w" "tex_height td = h"
  shows "spec_advection us ts w h = tex_data td"
proof (rule nth_equalityI)
  show l: "length (spec_advection us ts w h) = length (tex_data td)"
    using d by (simp add: spec_advection_def tex_ok_def)
  fix k assume "k < length (spec_advection us ts w h)"
  then have k: "k < nat (w * h)" by (simp add: spec_advection_def)
  have wh: "1 \<le> w" "1 \<le> h" using d by (simp_all add: tex_ok_def)
  have kk: "int k < w * h" using k by simp
  have i: "0 \<le> int k mod w" "int k mod w < w" using wh by simp_all
  have j: "0 \<le> int k div w" using wh by (simp add: pos_imp_zdiv_nonneg_iff)
  have e: "int k div w * w + int k mod w = int k" by simp
  have le: "int k div w * w \<le> int k" using i(1) e by linarith
  have j': "int k div w < h"
  proof (rule ccontr)
    assume "\<not> int k div w < h"
    then have "h \<le> int k div w" by simp
    then have "h * w \<le> int k div w * w" using wh by (intro mult_right_mono) simp_all
    with le kk show False by (simp add: mult.commute)
  qed
  have vel: "fst (bilinear tv x y) = 0" "fst (snd (bilinear tv x y)) = 0" for x y
    using bilinear_within[OF v, of x y] by (cases "bilinear tv x y"; simp add: rgba_within_def)+
  have "spec_advection_texel us ts w h k =
        bilinear td ((real_of_int (int k mod w) + 1 / 2) / real_of_int (tex_width td))
                    ((real_of_int (int k div w) + 1 / 2) / real_of_int (tex_height td))"
    by (simp add: spec_advection_texel_def Let_def sampler_def uniform1f_def us ts vel d)
  also have "\<dots> = tex_data td ! nat (int k div w * tex_width td + int k mod w)"
    using i j j' d by (intro bilinear_centre) simp_all
  also have "\<dots> = tex_data td ! k" by (simp add: d(2) e)
  finally show "spec_advection us ts w h ! k = tex_data td ! k"
    using k by (simp add: spec_advection_def)
qed

subsection \<open>The textures after a step and after a frame\<close>

lemma drawQuad_textures:
  "textures (drawQuad E None g) = textures g"
  "cur_program g = Some p \<Longrightarrow>
   textures (drawQuad E (Some t) g) =
     (textures g)(fbo_name t := (textures g (fbo_name t))
        \<lparr>tex_data := fragment E p (uniform_vals g p) (\<lambda>u. map_option (textures g) (unit_tex g u))
                       (fbo_width t) (fbo_height t)\<rparr>)"
  by (simp_all add: drawQuad_def gl_bindFramebuffer_def Let_def split: option.splits)

lemma drawQuad_textures_other:
  "map_option fbo_name t \<noteq> Some n \<Longrightarrow> textures (drawQuad E t g) n = textures g n"
  by (auto simp add: drawQuad_def gl_bindFramebuffer_def Let_def split: option.splits)

lemma advectVelocity_textures:
  assumes "program p = Advection"
  shows "\<exists>us ts.
     textures (gl (advectVelocity E p dt w)) =
       (textures (gl w))(fbo_name (write_fbo (velocity w)) :=
          (textures (gl w) (fbo_name (write_fbo (velocity w))))
            \<lparr>tex_data := fragment E Advection us ts
                            (fbo_width (write_fbo (velocity w))) (fbo_height (write_fbo (velocity w)))\<rparr>) \<and>
     (''u_dissipation'' \<in> set (uniforms p) \<longrightarrow> us ''u_dissipation'' = Some (U1f VELOCITY_DISSIPATION)) \<and>
     (''u_source'' \<in> set (uniforms p) \<longrightarrow> us ''u_source'' = Some (U1i 0)) \<and>
     (''u_velocity'' \<in> set (uniforms p) \<longrightarrow> us ''u_velocity'' = Some (U1i 0)) \<and>
     (''u_dt'' \<in> set (uniforms p) \<longrightarrow> us ''u_dt'' = Some (U1f dt)) \<and>
     (''u_texel'' \<in> set (uniforms p) \<longrightarrow>
        us ''u_texel'' = Some (U2f (dfbo_texelX (velocity w)) (dfbo_texelY (velocity w)))) \<and>
     ts 0 = Some (textures (gl w) (fbo_name (read_fbo (velocity w))))"
  unfolding advectVelocity_def Let_def
  apply (simp add: drawQuad_textures assms)
  apply (intro exI conjI)
       apply (rule refl)
      apply (simp_all add: assms)
  done

lemma advectDye_textures:
  assumes "program p = Advection" "cur_program (gl w) = Some Advection"
  shows "\<exists>us ts.
     textures (gl (advectDye E p w)) =
       (textures (gl w))(fbo_name (write_fbo (dye w)) :=
          (textures (gl w) (fbo_name (write_fbo (dye w))))
            \<lparr>tex_data := fragment E Advection us ts
                            (fbo_width (write_fbo (dye w))) (fbo_height (write_fbo (dye w)))\<rparr>) \<and>
     (''u_dissipation'' \<in> set (uniforms p) \<longrightarrow> us ''u_dissipation'' = Some (U1f DENSITY_DISSIPATION)) \<and>
     (''u_source'' \<in> set (uniforms p) \<longrightarrow> us ''u_source'' = Some (U1i 1)) \<and>
     (''u_velocity'' \<in> set (uniforms p) \<longrightarrow> us ''u_velocity'' = Some (U1i 0)) \<and>
     us ''u_dt'' = uniform_vals (gl w) Advection ''u_dt'' \<and>
     (''u_texel'' \<in> set (uniforms p) \<longrightarrow>
        us ''u_texel'' = Some (U2f (dfbo_texelX (velocity w)) (dfbo_texelY (velocity w)))) \<and>
     ts 0 = Some (textures (gl w) (fbo_name (read_fbo (velocity w)))) \<and>
     ts 1 = Some (textures (gl w) (fbo_name (read_fbo (dye w))))"
  unfolding advectDye_def Let_def
  apply (simp add: drawQuad_textures assms)
  apply (intro exI conjI)
       apply (rule refl)
      apply (simp_all add: assms)
  done

lemma advectVelocity_fields:
  "velocity (advectVelocity E p dt w) = swap_fbo (velocity w)"
  "dye (advectVelocity E p dt w) = dye w"
  "pressure (advectVelocity E p dt w) = pressure w"
  "divergence (advectVelocity E p dt w) = divergence w"
  "programs (advectVelocity E p dt w) = programs w"
  "cur_program (gl (advectVelocity E p dt w)) = Some (program p)"
  "uniform_vals (gl (advectVelocity E p dt w)) (program p) ''u_dt'' =
     (if ''u_dt'' \<in> set (uniforms p) then Some (U1f dt) else uniform_vals (gl w) (program p) ''u_dt'')"
  by (simp_all add: advectVelocity_def Let_def)

lemma advectDye_fields:
  "velocity (advectDye E p w) = velocity w"
  "dye (advectDye E p w) = swap_fbo (dye w)"
  "pressure (advectDye E p w) = pressure w"
  "divergence (advectDye E p w) = divergence w"
  "programs (advectDye E p w) = programs w"
  by (simp_all add: advectDye_def Let_def)

lemma computeDivergence_textures:
  "n \<noteq> fbo_name (divergence w) \<Longrightarrow> textures (gl (computeDivergence E p w)) n = textures (gl w) n"
  "velocity (computeDivergence E p w) = velocity w"
  "dye (computeDivergence E p w) = dye w"
  "pressure (computeDivergence E p w) = pressure w"
  "divergence (computeDivergence E p w) = divergence w"
  "programs (computeDivergence E p w) = programs w"
  by (simp_all add: computeDivergence_def Let_def drawQuad_textures_other)

lemma pressureLoop_textures:
  "n \<noteq> fbo_name (dfbo_a (pressure w)) \<Longrightarrow> n \<noteq> fbo_name (dfbo_b (pressure w)) \<Longrightarrow>
   textures (gl (pressureLoop E p k w)) n = textures (gl w) n \<and>
   velocity (pressureLoop E p k w) = velocity w \<and> dye (pressureLoop E p k w) = dye w"
proof (induction k arbitrary: w)
  case 0
  then show ?case by simp
next
  case (Suc k)
  have a: "n \<noteq> fbo_name (dfbo_a (pressure (pressureIteration E p w)))"
    "n \<noteq> fbo_name (dfbo_b (pressure (pressureIteration E p w)))"
    using Suc.prems by (simp_all add: pressureIteration_def Let_def swap_fbo_def)
  have b: "textures (gl (pressureIteration E p w)) n = textures (gl w) n"
    "velocity (pressureIteration E p w) = velocity w" "dye (pressureIteration E p w) = dye w"
    using Suc.prems by (simp_all add: pressureIteration_def Let_def drawQuad_textures_other write_fbo_def)
  show ?case using Suc.IH[OF a] b by simp
qed

lemma solvePressure_textures:
  assumes "n \<noteq> fbo_name (dfbo_a (pressure w))" "n \<noteq> fbo_name (dfbo_b (pressure w))"
  shows "textures (gl (solvePressure E p w)) n = textures (gl w) n"
    "velocity (solvePressure E p w) = velocity w" "dye (solvePressure E p w) = dye w"
  using pressureLoop_textures[of n "w\<lparr>gl := gl_uniform p ''u_divergence'' (U1i 0)
      (attach (divergence w) 0 (gl_uniform p ''u_texel''
         (U2f (dfbo_texelX (velocity w)) (dfbo_texelY (velocity w))) (gl_useProgram (program p) (gl w))))\<rparr>"
      E p PRESSURE_ITERATIONS] assms
  by (simp_all add: solvePressure_def Let_def)

lemma subtractGradient_textures:
  "n \<noteq> fbo_name (write_fbo (velocity w)) \<Longrightarrow> textures (gl (subtractGradient E p w)) n = textures (gl w) n"
  "dye (subtractGradient E p w) = dye w"
  by (simp_all add: subtractGradient_def Let_def drawQuad_textures_other)

lemma step_advection:
  assumes l: "linked w Advection" "linked w Divergence" "linked w Pressure" "linked w GradientSubtract"
    and d: "distinct (buffer_names w)"
  shows "\<exists>w' us1 ts1 us2 ts2. step E dt w = Inr w' \<and> dye w' = swap_fbo (dye w) \<and>
     textures (gl w') (fbo_name (write_fbo (velocity w))) =
       (textures (gl w) (fbo_name (write_fbo (velocity w))))
         \<lparr>tex_data := fragment E Advection us1 ts1
            (fbo_width (write_fbo (velocity w))) (fbo_height (write_fbo (velocity w)))\<rparr> \<and>
     textures (gl w') (fbo_name (write_fbo (dye w))) =
       (textures (gl w) (fbo_name (write_fbo (dye w))))
         \<lparr>tex_data := fragment E Advection us2 ts2
            (fbo_width (write_fbo (dye w))) (fbo_height (write_fbo (dye w)))\<rparr> \<and>
     (has_uniform w Advection ''u_dissipation'' \<longrightarrow>
        us1 ''u_dissipation'' = Some (U1f VELOCITY_DISSIPATION) \<and>
        us2 ''u_dissipation'' = Some (U1f DENSITY_DISSIPATION)) \<and>
     (has_uniform w Advection ''u_source'' \<longrightarrow>
        us1 ''u_source'' = Some (U1i 0) \<and> us2 ''u_source'' = Some (U1i 1)) \<and>
     (has_uniform w Advection ''u_velocity'' \<longrightarrow>
        us1 ''u_velocity'' = Some (U1i 0) \<and> us2 ''u_velocity'' = Some (U1i 0)) \<and>
     (has_uniform w Advection ''u_dt'' \<longrightarrow>
        us1 ''u_dt'' = Some (U1f dt) \<and> us2 ''u_dt'' = Some (U1f dt)) \<and>
     (has_uniform w Advection ''u_texel'' \<longrightarrow>
        us1 ''u_texel'' = Some (U2f (dfbo_texelX (velocity w)) (dfbo_texelY (velocity w))) \<and>
        us2 ''u_texel'' = Some (U2f (dfbo_texelX (velocity w)) (dfbo_texelY (velocity w)))) \<and>
     ts1 0 = Some (textures (gl w) (fbo_name (read_fbo (velocity w)))) \<and>
     ts2 0 = Some (textures (gl w') (fbo_name (write_fbo (velocity w)))) \<and>
     ts2 1 = Some (textures (gl w) (fbo_name (read_fbo (dye w))))"
proof -
  let ?va = "fbo_name (read_fbo (velocity w))" and ?vb = "fbo_name (write_fbo (velocity w))"
  let ?da = "fbo_name (read_fbo (dye w))" and ?db = "fbo_name (write_fbo (dye w))"
  from linkedD[OF l(1)] obtain n1 where p1: "programs w Advection = Some \<lparr>program = Advection, uniforms = n1\<rparr>" by blast
  from linkedD[OF l(2)] obtain n2 where p2: "programs w Divergence = Some \<lparr>program = Divergence, uniforms = n2\<rparr>" by blast
  from linkedD[OF l(3)] obtain n3 where p3: "programs w Pressure = Some \<lparr>program = Pressure, uniforms = n3\<rparr>" by blast
  from linkedD[OF l(4)] obtain n4 where p4: "programs w GradientSubtract = Some \<lparr>program = GradientSubtract, uniforms = n4\<rparr>" by blast
  let ?adv = "\<lparr>program = Advection, uniforms = n1\<rparr>"
  let ?dv = "\<lparr>program = Divergence, uniforms = n2\<rparr>"
  let ?pr = "\<lparr>program = Pressure, uniforms = n3\<rparr>"
  let ?gs = "\<lparr>program = GradientSubtract, uniforms = n4\<rparr>"
  define w1 where "w1 = advectVelocity E ?adv dt w"
  define w2 where "w2 = advectDye E ?adv w1"
  define w3 where "w3 = computeDivergence E ?dv w2"
  define w4 where "w4 = solvePressure E ?pr w3"
  define w5 where "w5 = subtractGradient E ?gs w4"
  have hu: "has_uniform w Advection n = (n \<in> set n1)" for n
    by (simp add: has_uniform_def p1)
  have ne: "?va \<noteq> ?vb" "?da \<noteq> ?db" "?vb \<noteq> ?db" "?vb \<noteq> ?da" "?va \<noteq> ?db"
    "?vb \<noteq> fbo_name (divergence w)" "?db \<noteq> fbo_name (divergence w)"
    "?vb \<noteq> fbo_name (dfbo_a (pressure w))" "?vb \<noteq> fbo_name (dfbo_b (pressure w))"
    "?db \<noteq> fbo_name (dfbo_a (pressure w))" "?db \<noteq> fbo_name (dfbo_b (pressure w))"
    using d by (auto simp add: buffer_names_def read_fbo_def write_fbo_def)
  have f1: "velocity w1 = swap_fbo (velocity w)" "dye w1 = dye w" "pressure w1 = pressure w"
    "divergence w1 = divergence w" "programs w1 = programs w" "cur_program (gl w1) = Some Advection"
    "uniform_vals (gl w1) Advection ''u_dt'' =
       (if ''u_dt'' \<in> set n1 then Some (U1f dt) else uniform_vals (gl w) Advection ''u_dt'')"
    using advectVelocity_fields[of E ?adv dt w] by (simp_all add: w1_def)
  have f2: "velocity w2 = swap_fbo (velocity w)" "dye w2 = swap_fbo (dye w)" "pressure w2 = pressure w"
    "divergence w2 = divergence w" "programs w2 = programs w"
    using advectDye_fields[of E ?adv w1] f1 by (simp_all add: w2_def)
  have f3: "velocity w3 = swap_fbo (velocity w)" "dye w3 = swap_fbo (dye w)" "pressure w3 = pressure w"
    "divergence w3 = divergence w" "programs w3 = programs w"
    using computeDivergence_textures(2-6)[of E ?dv w2] f2 by (simp_all add: w3_def)
  have t3: "textures (gl w3) n = textures (gl w2) n" if "n \<noteq> fbo_name (divergence w)" for n
    using computeDivergence_textures(1)[of n w2 E ?dv] that f2 by (simp add: w3_def)
  have t4: "textures (gl w4) n = textures (gl w3) n"
    if "n \<noteq> fbo_name (dfbo_a (pressure w))" "n \<noteq> fbo_name (dfbo_b (pressure w))" for n
    using solvePressure_textures(1)[of n w3 E ?pr] that f3 by (simp add: w4_def)
  have f4: "velocity w4 = swap_fbo (velocity w)" "dye w4 = swap_fbo (dye w)" "programs w4 = programs w"
    using solvePressure_textures(2,3)[of "Suc (fbo_name (dfbo_a (pressure w3)) + fbo_name (dfbo_b (pressure w3)))" w3 E ?pr]
    by (simp_all add: w4_def f3 solvePressure_def Let_def)
  have t5: "textures (gl w5) n = textures (gl w4) n" if "n \<noteq> ?va" for n
    using subtractGradient_textures(1)[of n w4 E ?gs] that f4 by (simp add: w5_def)
  have f5: "dye w5 = swap_fbo (dye w)"
    using subtractGradient_textures(2)[of E ?gs w4] f4 by (simp add: w5_def)
  have s: "step E dt w = Inr w5"
    using p1 p2 p3 p4 f2(5) f3(5) f4(3)
    by (simp add: step_def Let_def w1_def[symmetric] w2_def[symmetric] w3_def[symmetric]
        w4_def[symmetric] w5_def[symmetric])
  have pa: "program ?adv = Advection" by simp
  from advectVelocity_textures[OF pa, of E dt w, unfolded program_obj.select_convs, folded w1_def]
  obtain us1 ts1 where
    a1: "textures (gl w1) = (textures (gl w))(?vb := (textures (gl w) ?vb)
            \<lparr>tex_data := fragment E Advection us1 ts1
               (fbo_width (write_fbo (velocity w))) (fbo_height (write_fbo (velocity w)))\<rparr>)"
    and u1: "''u_dissipation'' \<in> set n1 \<longrightarrow> us1 ''u_dissipation'' = Some (U1f VELOCITY_DISSIPATION)"
      "''u_source'' \<in> set n1 \<longrightarrow> us1 ''u_source'' = Some (U1i 0)"
      "''u_velocity'' \<in> set n1 \<longrightarrow> us1 ''u_velocity'' = Some (U1i 0)"
      "''u_dt'' \<in> set n1 \<longrightarrow> us1 ''u_dt'' = Some (U1f dt)"
      "''u_texel'' \<in> set n1 \<longrightarrow> us1 ''u_texel'' = Some (U2f (dfbo_texelX (velocity w)) (dfbo_texelY (velocity w)))"
    and s1: "ts1 0 = Some (textures (gl w) ?va)"
    by (elim exE conjE) (rule that; assumption)
  from advectDye_textures[OF pa f1(6), of E, unfolded program_obj.select_convs, folded w2_def]
  obtain us2 ts2 where
    a2: "textures (gl w2) = (textures (gl w1))(?db := (textures (gl w1) ?db)
            \<lparr>tex_data := fragment E Advection us2 ts2
               (fbo_width (write_fbo (dye w))) (fbo_height (write_fbo (dye w)))\<rparr>)"
    and u2: "''u_dissipation'' \<in> set n1 \<longrightarrow> us2 ''u_dissipation'' = Some (U1f DENSITY_DISSIPATION)"
      "''u_source'' \<in> set n1 \<longrightarrow> us2 ''u_source'' = Some (U1i 1)"
      "''u_velocity'' \<in> set n1 \<longrightarrow> us2 ''u_velocity'' = Some (U1i 0)"
      "us2 ''u_dt'' = uniform_vals (gl w1) Advection ''u_dt''"
      "''u_texel'' \<in> set n1 \<longrightarrow> us2 ''u_texel'' = Some (U2f (dfbo_texelX (velocity w)) (dfbo_texelY (velocity w)))"
    and s2: "ts2 0 = Some (textures (gl w1) ?vb)" "ts2 1 = Some (textures (gl w1) ?da)"
    unfolding f1(1,2) swap_fbo_simps by (elim exE conjE) (rule that; assumption)
  have vb1: "textures (gl w1) ?vb = (textures (gl w) ?vb)
            \<lparr>tex_data := fragment E Advection us1 ts1
               (fbo_width (write_fbo (velocity w))) (fbo_height (write_fbo (velocity w)))\<rparr>"
    and da1: "textures (gl w1) ?da = textures (gl w) ?da"
    and db1: "textures (gl w1) ?db = textures (gl w) ?db"
    using ne by (simp_all add: a1)
  have vb5: "textures (gl w5) ?vb = textures (gl w1) ?vb"
    using ne by (simp add: t5 t4 t3 a2)
  have db5: "textures (gl w5) ?db = (textures (gl w) ?db)
            \<lparr>tex_data := fragment E Advection us2 ts2
               (fbo_width (write_fbo (dye w))) (fbo_height (write_fbo (dye w)))\<rparr>"
    using ne by (simp add: t5 t4 t3 a2 db1)
  show ?thesis
    apply (rule exI[of _ w5], rule exI[of _ us1], rule exI[of _ ts1], rule exI[of _ us2], rule exI[of _ ts2])
    using s f5 vb5 vb1 db5 u1 u2 s1 s2 da1 f1(7)
    by (simp add: hu)
qed

lemma display_textures:
  "textures (gl (outcome_world (display E w))) = textures (gl w)"
  "dye (outcome_world (display E w)) = dye w"
  by (simp_all add: display_def Let_def drawQuad_textures split: option.splits)

lemma updateTransition_textures:
  "dye (updateTransition t w) = dye w"
  "\<not> (isTransitioning w \<and> TRANSITION_DURATION \<le> t - transitionStart w) \<Longrightarrow>
     textures (gl (updateTransition t w)) = textures (gl w)"
  "n \<noteq> fbo_name (read_fbo (dye w)) \<Longrightarrow> n \<noteq> fbo_name (write_fbo (dye w)) \<Longrightarrow>
     textures (gl (updateTransition t w)) n = textures (gl w) n"
  by (auto simp add: updateTransition_def Let_def clearDye_def gl_clear_def gl_bindFramebuffer_def
      TRANSITION_DURATION_def min_def)

lemma render_advection:
  fixes E f w
  defines "w2 \<equiv> outcome_world (applySplat E f (frame_dt f w) (w\<lparr>lastTime := now f\<rparr>))"
  assumes l: "all_linked w" and d: "distinct (buffer_names w)"
  shows "\<exists>w' us1 ts1 us2 ts2. render E f w = Inr w' \<and> dye w' = swap_fbo (dye w2) \<and>
     textures (gl w') (fbo_name (write_fbo (velocity w2))) =
       (textures (gl w2) (fbo_name (write_fbo (velocity w2))))
         \<lparr>tex_data := fragment E Advection us1 ts1
            (fbo_width (write_fbo (velocity w2))) (fbo_height (write_fbo (velocity w2)))\<rparr> \<and>
     (\<not> (isTransitioning w2 \<and> TRANSITION_DURATION \<le> now f - transitionStart w2) \<longrightarrow>
      textures (gl w') (fbo_name (write_fbo (dye w2))) =
        (textures (gl w2) (fbo_name (write_fbo (dye w2))))
          \<lparr>tex_data := fragment E Advection us2 ts2
             (fbo_width (write_fbo (dye w2))) (fbo_height (write_fbo (dye w2)))\<rparr>) \<and>
     (has_uniform w Advection ''u_dissipation'' \<longrightarrow>
        us1 ''u_dissipation'' = Some (U1f VELOCITY_DISSIPATION) \<and>
        us2 ''u_dissipation'' = Some (U1f DENSITY_DISSIPATION)) \<and>
     (has_uniform w Advection ''u_source'' \<longrightarrow>
        us1 ''u_source'' = Some (U1i 0) \<and> us2 ''u_source'' = Some (U1i 1)) \<and>
     (has_uniform w Advection ''u_velocity'' \<longrightarrow>
        us1 ''u_velocity'' = Some (U1i 0) \<and> us2 ''u_velocity'' = Some (U1i 0)) \<and>
     (has_uniform w Advection ''u_dt'' \<longrightarrow>
        us1 ''u_dt'' = Some (U1f (frame_dt f w)) \<and> us2 ''u_dt'' = Some (U1f (frame_dt f w))) \<and>
     (has_uniform w Advection ''u_texel'' \<longrightarrow>
        us1 ''u_texel'' = Some (U2f (dfbo_texelX (velocity w2)) (dfbo_texelY (velocity w2))) \<and>
        us2 ''u_texel'' = Some (U2f (dfbo_texelX (velocity w2)) (dfbo_texelY (velocity w2)))) \<and>
     ts1 0 = Some (textures (gl w2) (fbo_name (read_fbo (velocity w2)))) \<and>
     ts2 0 = Some (textures (gl w') (fbo_name (write_fbo (velocity w2)))) \<and>
     ts2 1 = Some (textures (gl w2) (fbo_name (read_fbo (dye w2))))"
proof -
  let ?w1 = "w\<lparr>lastTime := now f\<rparr>" and ?dt = "frame_dt f w"
  have "\<not> isl (applySplat E f ?dt ?w1)"
    using l by (auto simp add: applySplat_isl all_linked_def linked_def split: option.splits)
  then have a: "applySplat E f ?dt ?w1 = Inr w2"
    unfolding w2_def by (cases "applySplat E f ?dt ?w1") auto
  have p2: "programs w2 = programs w"
    using applySplat_effect(7)[of E f ?dt ?w1] by (simp add: w2_def)
  have l2: "linked w2 Advection" "linked w2 Divergence" "linked w2 Pressure" "linked w2 GradientSubtract"
    using l by (simp_all add: all_linked_def linked_def p2)
  have h2: "has_uniform w2 Advection n = has_uniform w Advection n" for n
    by (simp add: has_uniform_def p2)
  have "same_buffers ?w1 w2" unfolding w2_def by (rule applySplat_buffers)
  from same_buffers_distinct[OF this] d have d2: "distinct (buffer_names w2)"
    by (simp add: buffer_names_def)
  from step_advection[OF l2 d2, of E ?dt, unfolded h2] obtain w3 us1 ts1 us2 ts2 where
    s: "step E ?dt w2 = Inr w3" and dy: "dye w3 = swap_fbo (dye w2)"
    and tv: "textures (gl w3) (fbo_name (write_fbo (velocity w2))) =
       (textures (gl w2) (fbo_name (write_fbo (velocity w2))))
         \<lparr>tex_data := fragment E Advection us1 ts1
            (fbo_width (write_fbo (velocity w2))) (fbo_height (write_fbo (velocity w2)))\<rparr>"
    and td: "textures (gl w3) (fbo_name (write_fbo (dye w2))) =
       (textures (gl w2) (fbo_name (write_fbo (dye w2))))
         \<lparr>tex_data := fragment E Advection us2 ts2
            (fbo_width (write_fbo (dye w2))) (fbo_height (write_fbo (dye w2)))\<rparr>"
    and u: "has_uniform w Advection ''u_dissipation'' \<longrightarrow>
        us1 ''u_dissipation'' = Some (U1f VELOCITY_DISSIPATION) \<and>
        us2 ''u_dissipation'' = Some (U1f DENSITY_DISSIPATION)"
      "has_uniform w Advection ''u_source'' \<longrightarrow>
        us1 ''u_source'' = Some (U1i 0) \<and> us2 ''u_source'' = Some (U1i 1)"
      "has_uniform w Advection ''u_velocity'' \<longrightarrow>
        us1 ''u_velocity'' = Some (U1i 0) \<and> us2 ''u_velocity'' = Some (U1i 0)"
      "has_uniform w Advection ''u_dt'' \<longrightarrow>
        us1 ''u_dt'' = Some (U1f ?dt) \<and> us2 ''u_dt'' = Some (U1f ?dt)"
      "has_uniform w Advection ''u_texel'' \<longrightarrow>
        us1 ''u_texel'' = Some (U2f (dfbo_texelX (velocity w2)) (dfbo_texelY (velocity w2))) \<and>
        us2 ''u_texel'' = Some (U2f (dfbo_texelX (velocity w2)) (dfbo_texelY (velocity w2)))"
    and ts: "ts1 0 = Some (textures (gl w2) (fbo_name (read_fbo (velocity w2))))"
      "ts2 0 = Some (textures (gl w3) (fbo_name (write_fbo (velocity w2))))"
      "ts2 1 = Some (textures (gl w2) (fbo_name (read_fbo (dye w2))))"
    by (elim exE conjE) (rule that; assumption)
  have v3: "isTransitioning w3 = isTransitioning w2" "transitionStart w3 = transitionStart w2"
    "programs w3 = programs w"
    using script_vars_eqD(4,5,8)[OF step_vars[of E ?dt w2]] s p2 by simp_all
  have "\<not> isl (display E (updateTransition (now f) w3))"
    using l by (simp add: display_isl v3 all_linked_def linked_def split: option.splits)
  then obtain w' where dp: "display E (updateTransition (now f) w3) = Inr w'"
    by (cases "display E (updateTransition (now f) w3)") auto
  have r: "render E f w = Inr w'"
    using a s dp by (simp add: render_def Let_def frame_dt_def)
  have t': "textures (gl w') = textures (gl (updateTransition (now f) w3))"
    and d': "dye w' = dye w3"
    using display_textures[of E "updateTransition (now f) w3"] dp
    by (simp_all add: updateTransition_textures)
  have ne: "fbo_name (write_fbo (velocity w2)) \<noteq> fbo_name (read_fbo (dye w3))"
    "fbo_name (write_fbo (velocity w2)) \<noteq> fbo_name (write_fbo (dye w3))"
    using d2 by (auto simp add: buffer_names_def dy read_fbo_def write_fbo_def swap_fbo_def)
  have tv': "textures (gl w') (fbo_name (write_fbo (velocity w2))) =
      textures (gl w3) (fbo_name (write_fbo (velocity w2)))"
    using ne by (simp add: t' updateTransition_textures(3))
  have td': "textures (gl w') (fbo_name (write_fbo (dye w2))) =
      textures (gl w3) (fbo_name (write_fbo (dye w2)))"
    if "\<not> (isTransitioning w2 \<and> TRANSITION_DURATION \<le> now f - transitionStart w2)"
    using that by (simp add: t' updateTransition_textures(2) v3)
  show ?thesis
    apply (rule exI[of _ w'], rule exI[of _ us1], rule exI[of _ ts1], rule exI[of _ us2], rule exI[of _ ts2])
    using r d' dy tv' tv td' td u ts
    by simp
qed

lemma advection_draws:
  assumes "all_linked w" and "has_uniform w Advection ''u_dissipation''"
  shows "\<exists>w' cs. render E f w = Inr w' \<and> calls (gl w') = calls (gl w) @ cs \<and>
        map (\<lambda>c. (dc_target c, dc_uniforms c ''u_dissipation''))
            (filter (\<lambda>c. dc_program c = Some Advection) cs) =
          [(Some (fbo_name (write_fbo (if ptr_moved (pointer w) then swap_fbo (velocity w) else velocity w))),
            Some (U1f VELOCITY_DISSIPATION)),
           (Some (fbo_name (write_fbo (if ptr_moved (pointer w) then swap_fbo (dye w) else dye w))),
            Some (U1f DENSITY_DISSIPATION))]"
proof -
  let ?v = "if ptr_moved (pointer w) then swap_fbo (velocity w) else velocity w"
  let ?d = "if ptr_moved (pointer w) then swap_fbo (dye w) else dye w"
  from render_calls[OF assms(1), of E f] obtain w' cs1 cs2 c where
    r: "render E f w = Inr w'" "calls (gl w') = calls (gl w) @ cs1 @ cs2 @ [c]"
    and m1: "map dc_program cs1 = (if ptr_moved (pointer w) then [Some Splat, Some Splat] else [])"
    and m2: "map draw_summary cs2 = spec_solver_sequence ?v ?d (divergence w) (pressure w) (unit_tex (gl w) 1)"
    and q2: "map advection_params (take 2 cs2) =
       [((if has_uniform w Advection ''u_dt'' then Some (U1f (frame_dt f w)) else uniform_vals (gl w) Advection ''u_dt''),
         (if has_uniform w Advection ''u_dissipation'' then Some (U1f VELOCITY_DISSIPATION)
          else uniform_vals (gl w) Advection ''u_dissipation'')),
        ((if has_uniform w Advection ''u_dt'' then Some (U1f (frame_dt f w)) else uniform_vals (gl w) Advection ''u_dt''),
         (if has_uniform w Advection ''u_dissipation'' then Some (U1f DENSITY_DISSIPATION)
          else uniform_vals (gl w) Advection ''u_dissipation''))]"
    and d: "dc_program c = Some Display"
    by (elim exE conjE) (rule that; assumption)
  from solver_calls_decompose[OF m2] obtain c1 c2 rest where
    cs2: "cs2 = c1 # c2 # rest"
    and c1: "dc_program c1 = Some Advection" "dc_target c1 = Some (fbo_name (write_fbo ?v))"
    and c2: "dc_program c2 = Some Advection" "dc_target c2 = Some (fbo_name (write_fbo ?d))"
    and rest: "map dc_program rest = Some Divergence # replicate 8 (Some Pressure) @ [Some GradientSubtract]"
    by (elim exE conjE) (rule that; assumption)
  have f1: "filter (\<lambda>c. dc_program c = Some Advection) cs1 = []"
  proof -
    have "Some Advection \<notin> set (map dc_program cs1)" unfolding m1 by simp
    then show ?thesis by (force simp add: filter_empty_conv)
  qed
  have f3: "filter (\<lambda>c. dc_program c = Some Advection) rest = []"
  proof -
    have "Some Advection \<notin> set (map dc_program rest)" unfolding rest by simp
    then show ?thesis by (force simp add: filter_empty_conv)
  qed
  have u: "dc_uniforms c1 ''u_dissipation'' = Some (U1f VELOCITY_DISSIPATION)"
    "dc_uniforms c2 ''u_dissipation'' = Some (U1f DENSITY_DISSIPATION)"
    using q2 assms(2) unfolding cs2 by (simp_all add: advection_params_def)
  have "map (\<lambda>c. (dc_target c, dc_uniforms c ''u_dissipation''))
            (filter (\<lambda>c. dc_program c = Some Advection) (cs1 @ cs2 @ [c])) =
          [(Some (fbo_name (write_fbo ?v)), Some (U1f VELOCITY_DISSIPATION)),
           (Some (fbo_name (write_fbo ?d)), Some (U1f DENSITY_DISSIPATION))]"
    unfolding cs2 using f1 f3 c1 c2 u d by simp
  then show ?thesis
    using r by (intro exI[of _ w'] exI[of _ "cs1 @ cs2 @ [c]"] conjI)
qed

lemma advection_effect:
  fixes E f w
  defines "w2 \<equiv> outcome_world (applySplat E f (frame_dt f w) (w\<lparr>lastTime := now f\<rparr>))"
  defines "w' \<equiv> outcome_world (render E f w)"
  assumes l: "all_linked w" and hd: "has_uniform w Advection ''u_dissipation''"
    and frag: "fragment E Advection = spec_advection"
    and hs: "has_uniform w Advection ''u_source''" and hv: "has_uniform w Advection ''u_velocity''"
    and d: "distinct (buffer_names w)"
    and fv: "field_ok (gl w2) (velocity w2)" and fd: "field_ok (gl w2) (dye w2)"
  shows "tex_within (- m) m (textures (gl w2) (fbo_name (read_fbo (velocity w2)))) \<Longrightarrow>
         tex_within (- (VELOCITY_DISSIPATION * m)) (VELOCITY_DISSIPATION * m)
           (textures (gl w') (fbo_name (write_fbo (velocity w2))))"
    and "\<not> (isTransitioning w2 \<and> TRANSITION_DURATION \<le> now f - transitionStart w2) \<Longrightarrow>
         read_fbo (dye w') = write_fbo (dye w2)"
    and "\<not> (isTransitioning w2 \<and> TRANSITION_DURATION \<le> now f - transitionStart w2) \<Longrightarrow>
         tex_within lo hi (textures (gl w2) (fbo_name (read_fbo (dye w2)))) \<Longrightarrow>
         tex_within lo hi (textures (gl w') (fbo_name (read_fbo (dye w'))))"
    and "\<not> (isTransitioning w2 \<and> TRANSITION_DURATION \<le> now f - transitionStart w2) \<Longrightarrow>
         tex_within 0 0 (textures (gl w2) (fbo_name (read_fbo (velocity w2)))) \<Longrightarrow>
         tex_data (textures (gl w') (fbo_name (read_fbo (dye w')))) =
           tex_data (textures (gl w2) (fbo_name (read_fbo (dye w2))))"
proof -
  let ?V = "textures (gl w2) (fbo_name (read_fbo (velocity w2)))"
  let ?D = "textures (gl w2) (fbo_name (read_fbo (dye w2)))"
  let ?vb = "write_fbo (velocity w2)" and ?db = "write_fbo (dye w2)"
  let ?nr = "\<not> (isTransitioning w2 \<and> TRANSITION_DURATION \<le> now f - transitionStart w2)"
  from render_advection[OF l d, of E f, folded w2_def, unfolded frag]
  obtain w'' us1 ts1 us2 ts2 where
    r: "render E f w = Inr w''" and dy: "dye w'' = swap_fbo (dye w2)"
    and tv: "textures (gl w'') (fbo_name ?vb) =
       (textures (gl w2) (fbo_name ?vb))\<lparr>tex_data := spec_advection us1 ts1 (fbo_width ?vb) (fbo_height ?vb)\<rparr>"
    and td: "?nr \<longrightarrow> textures (gl w'') (fbo_name ?db) =
       (textures (gl w2) (fbo_name ?db))\<lparr>tex_data := spec_advection us2 ts2 (fbo_width ?db) (fbo_height ?db)\<rparr>"
    and ud: "has_uniform w Advection ''u_dissipation'' \<longrightarrow>
        us1 ''u_dissipation'' = Some (U1f VELOCITY_DISSIPATION) \<and>
        us2 ''u_dissipation'' = Some (U1f DENSITY_DISSIPATION)"
    and us: "has_uniform w Advection ''u_source'' \<longrightarrow>
        us1 ''u_source'' = Some (U1i 0) \<and> us2 ''u_source'' = Some (U1i 1)"
    and uv: "has_uniform w Advection ''u_velocity'' \<longrightarrow>
        us1 ''u_velocity'' = Some (U1i 0) \<and> us2 ''u_velocity'' = Some (U1i 0)"
    and s1: "ts1 0 = Some ?V"
    and s2: "ts2 0 = Some (textures (gl w'') (fbo_name ?vb))" "ts2 1 = Some ?D"
    by (elim exE conjE) (rule that; assumption)
  have u1: "us1 ''u_dissipation'' = Some (U1f VELOCITY_DISSIPATION)" "us1 ''u_source'' = Some (U1i 0)"
    and u2: "us2 ''u_dissipation'' = Some (U1f DENSITY_DISSIPATION)" "us2 ''u_source'' = Some (U1i 1)"
      "us2 ''u_velocity'' = Some (U1i 0)"
    using ud us uv hd hs hv by simp_all
  have w': "w' = w''" by (simp add: w'_def r)
  have okV: "tex_ok ?V" and okD: "tex_ok ?D"
    using fv fd by (simp_all add: field_ok_def read_fbo_def fbo_ok_tex_ok)
  have s1': "ts1 (nat 0) = Some ?V" and s2': "ts2 (nat 1) = Some ?D"
    "ts2 (nat 0) = Some (textures (gl w'') (fbo_name ?vb))"
    using s1 s2 by simp_all
  have vd: "0 \<le> VELOCITY_DISSIPATION" "0 \<le> DENSITY_DISSIPATION" "DENSITY_DISSIPATION = 1"
    by (simp_all add: VELOCITY_DISSIPATION_def DENSITY_DISSIPATION_def)
  have vw: "tex_within (- (VELOCITY_DISSIPATION * m)) (VELOCITY_DISSIPATION * m)
              (textures (gl w'') (fbo_name ?vb))" if "tex_within (- m) m ?V" for m
    using spec_advection_within[where us = us1 and ts = ts1 and n = 0 and w = "fbo_width ?vb"
        and h = "fbo_height ?vb", OF u1(2) s1' okV that u1(1) vd(1)]
    by (simp add: tv tex_within_def)
  show "tex_within (- m) m ?V \<Longrightarrow>
         tex_within (- (VELOCITY_DISSIPATION * m)) (VELOCITY_DISSIPATION * m)
           (textures (gl w') (fbo_name (write_fbo (velocity w2))))"
    unfolding w' by (rule vw)
  have rd: "read_fbo (dye w'') = write_fbo (dye w2)"
    by (simp add: dy)
  show "read_fbo (dye w') = write_fbo (dye w2)"
    by (simp add: w' dy)
  show "?nr \<Longrightarrow> tex_within lo hi ?D \<Longrightarrow> tex_within lo hi (textures (gl w') (fbo_name (read_fbo (dye w'))))"
  proof -
    assume nr: ?nr and b: "tex_within lo hi ?D"
    from spec_advection_within[where us = us2 and ts = ts2 and n = 1 and w = "fbo_width ?db"
        and h = "fbo_height ?db", OF u2(2) s2'(1) okD b u2(1) vd(2)]
    show ?thesis using td nr by (simp add: rd tex_within_def vd(3) w')
  qed
  show "?nr \<Longrightarrow> tex_within 0 0 ?V \<Longrightarrow>
        tex_data (textures (gl w') (fbo_name (read_fbo (dye w')))) = tex_data ?D"
  proof -
    assume nr: ?nr and z: "tex_within 0 0 ?V"
    have z': "tex_within 0 0 (textures (gl w'') (fbo_name ?vb))"
      using vw[of 0] z by simp
    have ok': "tex_ok (textures (gl w'') (fbo_name ?vb))"
      using fv by (simp add: tv[unfolded write_fbo_def] tex_ok_def field_ok_def fbo_ok_def write_fbo_def
          spec_advection_def)
    have dims: "tex_width ?D = fbo_width ?db" "tex_height ?D = fbo_height ?db"
      using fd by (simp_all add: field_ok_def fbo_ok_def read_fbo_def write_fbo_def)
    from spec_advection_rest[where us = us2 and ts = ts2 and n = 1 and m = 0,
        OF u2(2,3) u2(1)[unfolded vd(3)] s2'(2) s2'(1) ok' z' okD dims]
    show ?thesis using td nr by (simp add: rd w')
  qed
qed

subsection \<open>The painted example page\<close>

lemma round_sim: "round (128 * (1280 / 720 :: real)) = 228"
  by (simp add: round_def floor_eq_iff)

lemma round_dye: "round (512 * (1280 / 720 :: real)) = 910"
  by (simp add: round_def floor_eq_iff)

lemma example_res:
  "getRes SIM_RESOLUTION (initial_gl example_env) = (228, 128)"
  "getRes DYE_RESOLUTION (initial_gl example_env) = (910, 512)"
  using round_sim round_dye
  by (simp_all add: getRes_def Let_def initial_gl_def example_env_simps SIM_RESOLUTION_def DYE_RESOLUTION_def)

lemma initial_gl_simps:
  "next_name (initial_gl E) = 0"
  "textures (initial_gl E) = (\<lambda>_. \<lparr>tex_width = 0, tex_height = 0, tex_data = []\<rparr>)"
  by (simp_all add: initial_gl_def)

lemma example_world_fbos:
  "velocity example_world =
     \<lparr>dfbo_width = 228, dfbo_height = 128, dfbo_texelX = 1 / 228, dfbo_texelY = 1 / 128,
      dfbo_a = \<lparr>fbo_name = 0, fbo_width = 228, fbo_height = 128, fbo_texelX = 1 / 228, fbo_texelY = 1 / 128\<rparr>,
      dfbo_b = \<lparr>fbo_name = 1, fbo_width = 228, fbo_height = 128, fbo_texelX = 1 / 228, fbo_texelY = 1 / 128\<rparr>\<rparr>"
  "dye example_world =
     \<lparr>dfbo_width = 910, dfbo_height = 512, dfbo_texelX = 1 / 910, dfbo_texelY = 1 / 512,
      dfbo_a = \<lparr>fbo_name = 2, fbo_width = 910, fbo_height = 512, fbo_texelX = 1 / 910, fbo_texelY = 1 / 512\<rparr>,
      dfbo_b = \<lparr>fbo_name = 3, fbo_width = 910, fbo_height = 512, fbo_texelX = 1 / 910, fbo_texelY = 1 / 512\<rparr>\<rparr>"
  by (simp_all add: example_world_def createState_def Let_def split_def initial_world_def
      createDoubleFBO_simps createFBO_simps example_res initial_gl_simps)

lemma loadImageTextures_textures:
  "n < next_name g \<Longrightarrow> textures (snd (loadImageTextures urls g)) n = textures g n \<and>
     next_name g \<le> next_name (snd (loadImageTextures urls g))"
proof (induction urls arbitrary: g)
  case Nil
  then show ?case by simp
next
  case (Cons u urls)
  have a: "n < next_name (snd (loadImageTexture u g))" "textures (snd (loadImageTexture u g)) n = textures g n"
    "next_name g \<le> next_name (snd (loadImageTexture u g))"
    using Cons.prems by (simp_all add: loadImageTexture_def Let_def)
  from Cons.IH[OF a(1)] a(2,3) show ?case by (simp add: split_def Let_def)
qed

lemma example_world_textures:
  "textures (gl example_world) 0 = \<lparr>tex_width = 228, tex_height = 128, tex_data = cleared 228 128\<rparr>"
  "textures (gl example_world) 1 = \<lparr>tex_width = 228, tex_height = 128, tex_data = cleared 228 128\<rparr>"
  "textures (gl example_world) 2 = \<lparr>tex_width = 910, tex_height = 512, tex_data = cleared 910 512\<rparr>"
  "textures (gl example_world) 3 = \<lparr>tex_width = 910, tex_height = 512, tex_data = cleared 910 512\<rparr>"
  by (simp_all add: example_world_def createState_def Let_def split_def initial_world_def
      createDoubleFBO_simps createFBO_simps example_res initial_gl_simps loadImageTextures_textures)

lemma painted_column_simps:
  "length (painted_column w h) = nat (w * h)"
  "k < nat (w * h) \<Longrightarrow> painted_column w h ! k = (if int k mod w = 0 then (1, 1, 1, 1) else (0, 0, 0, 0))"
  "list_all (rgba_within 0 1) (painted_column w h)"
  by (auto simp add: painted_column_def list_all_iff rgba_within_def)

lemma spec_env_simps:
  "fragment spec_env Advection = spec_advection"
  by (simp add: spec_env_def spec_fragment_def)

lemma painted_world_fields:
  "velocity (painted_world vx) = velocity example_world"
  "dye (painted_world vx) = dye example_world"
  "buffer_names (painted_world vx) = [0, 1, 2, 3, 4, 5, 6]"
  "calls (gl (painted_world vx)) = []"
  "programs (painted_world vx) = example_programs"
  "\<not> isTransitioning (painted_world vx)"
  "\<not> ptr_moved (pointer (painted_world vx))"
  "lastTime (painted_world vx) = 0"
  using example_world_buffers example_world_calls example_world_fields
  by (simp_all add: painted_world_def buffer_names_def)

lemma painted_world_textures:
  "textures (gl (painted_world vx)) 0 =
     \<lparr>tex_width = 228, tex_height = 128, tex_data = replicate (nat (228 * 128)) (vx, 0, 0, 0)\<rparr>"
  "textures (gl (painted_world vx)) (Suc 0) = \<lparr>tex_width = 228, tex_height = 128, tex_data = cleared 228 128\<rparr>"
  "textures (gl (painted_world vx)) 2 =
     \<lparr>tex_width = 910, tex_height = 512, tex_data = painted_column 910 512\<rparr>"
  "textures (gl (painted_world vx)) 3 = \<lparr>tex_width = 910, tex_height = 512, tex_data = cleared 910 512\<rparr>"
  using example_world_textures
  by (simp_all add: painted_world_def example_world_fbos read_fbo_def)

lemma example_advection_uniforms:
  "programs w = example_programs \<Longrightarrow> has_uniform w Advection ''u_source''"
  "programs w = example_programs \<Longrightarrow> has_uniform w Advection ''u_velocity''"
  "programs w = example_programs \<Longrightarrow> has_uniform w Advection ''u_texel''"
  by (simp_all add: has_uniform_def example_programs_def example_uniforms_def)

lemma painted_world_ok:
  "field_ok (gl (painted_world vx)) (velocity (painted_world vx))"
  "field_ok (gl (painted_world vx)) (dye (painted_world vx))"
  by (simp_all add: field_ok_def fbo_ok_def painted_world_fields example_world_fbos
      painted_world_textures painted_column_simps cleared_def)

lemma painted_frame:
  fixes vx :: real
  defines "w \<equiv> painted_world vx"
  defines "f \<equiv> \<lparr>now = 16, now_start = 16\<rparr>"
  shows "\<exists>w' us2 ts2.
     render spec_env f w = Inr w' \<and> \<not> isTransitioning w' \<and> read_fbo (dye w') = write_fbo (dye w) \<and>
     tex_data (textures (gl w') 1) = replicate (nat (228 * 128)) (VELOCITY_DISSIPATION * vx, 0, 0, 0) \<and>
     tex_data (textures (gl w') 3) = spec_advection us2 ts2 910 512 \<and>
     us2 ''u_dissipation'' = Some (U1f DENSITY_DISSIPATION) \<and>
     us2 ''u_source'' = Some (U1i 1) \<and> us2 ''u_velocity'' = Some (U1i 0) \<and>
     us2 ''u_dt'' = Some (U1f (16 / 1000)) \<and> us2 ''u_texel'' = Some (U2f (1 / 228) (1 / 128)) \<and>
     ts2 0 = Some \<lparr>tex_width = 228, tex_height = 128,
                    tex_data = replicate (nat (228 * 128)) (VELOCITY_DISSIPATION * vx, 0, 0, 0)\<rparr> \<and>
     ts2 1 = Some \<lparr>tex_width = 910, tex_height = 512, tex_data = painted_column 910 512\<rparr>"
proof -
  have pr: "programs w = example_programs" by (simp add: w_def painted_world_fields)
  have l: "all_linked w" by (rule example_all_linked) (rule pr)
  have d: "distinct (buffer_names w)" by (simp add: w_def painted_world_fields)
  have hu: "has_uniform w Advection ''u_dissipation''" "has_uniform w Advection ''u_source''"
    "has_uniform w Advection ''u_velocity''" "has_uniform w Advection ''u_dt''"
    "has_uniform w Advection ''u_texel''"
    using pr by (simp_all add: example_has_uniform example_advection_uniforms)
  have w2: "outcome_world (applySplat spec_env f (frame_dt f w) (w\<lparr>lastTime := now f\<rparr>)) = w\<lparr>lastTime := 16\<rparr>"
    by (simp add: applySplat_not_moved w_def f_def painted_world_fields)
  have dt: "frame_dt f w = 16 / 1000"
    by (simp add: frame_dt_def w_def f_def painted_world_fields)
  from render_advection[OF l d, of spec_env f, unfolded w2 spec_env_simps]
  obtain w' us1 ts1 us2 ts2 where
    r: "render spec_env f w = Inr w'" and dy: "dye w' = swap_fbo (dye (w\<lparr>lastTime := 16\<rparr>))"
    and tv: "textures (gl w') (fbo_name (write_fbo (velocity (w\<lparr>lastTime := 16\<rparr>)))) =
       (textures (gl (w\<lparr>lastTime := 16\<rparr>)) (fbo_name (write_fbo (velocity (w\<lparr>lastTime := 16\<rparr>)))))
         \<lparr>tex_data := spec_advection us1 ts1
            (fbo_width (write_fbo (velocity (w\<lparr>lastTime := 16\<rparr>))))
            (fbo_height (write_fbo (velocity (w\<lparr>lastTime := 16\<rparr>))))\<rparr>"
    and td: "\<not> (isTransitioning (w\<lparr>lastTime := 16\<rparr>) \<and>
                TRANSITION_DURATION \<le> now f - transitionStart (w\<lparr>lastTime := 16\<rparr>)) \<longrightarrow>
      textures (gl w') (fbo_name (write_fbo (dye (w\<lparr>lastTime := 16\<rparr>)))) =
        (textures (gl (w\<lparr>lastTime := 16\<rparr>)) (fbo_name (write_fbo (dye (w\<lparr>lastTime := 16\<rparr>)))))
          \<lparr>tex_data := spec_advection us2 ts2
             (fbo_width (write_fbo (dye (w\<lparr>lastTime := 16\<rparr>))))
             (fbo_height (write_fbo (dye (w\<lparr>lastTime := 16\<rparr>))))\<rparr>"
    and u: "has_uniform w Advection ''u_dissipation'' \<longrightarrow>
        us1 ''u_dissipation'' = Some (U1f VELOCITY_DISSIPATION) \<and>
        us2 ''u_dissipation'' = Some (U1f DENSITY_DISSIPATION)"
      "has_uniform w Advection ''u_source'' \<longrightarrow>
        us1 ''u_source'' = Some (U1i 0) \<and> us2 ''u_source'' = Some (U1i 1)"
      "has_uniform w Advection ''u_velocity'' \<longrightarrow>
        us1 ''u_velocity'' = Some (U1i 0) \<and> us2 ''u_velocity'' = Some (U1i 0)"
      "has_uniform w Advection ''u_dt'' \<longrightarrow>
        us1 ''u_dt'' = Some (U1f (frame_dt f w)) \<and> us2 ''u_dt'' = Some (U1f (frame_dt f w))"
      "has_uniform w Advection ''u_texel'' \<longrightarrow>
        us1 ''u_texel'' = Some (U2f (dfbo_texelX (velocity (w\<lparr>lastTime := 16\<rparr>)))
                                     (dfbo_texelY (velocity (w\<lparr>lastTime := 16\<rparr>)))) \<and>
        us2 ''u_texel'' = Some (U2f (dfbo_texelX (velocity (w\<lparr>lastTime := 16\<rparr>)))
                                     (dfbo_texelY (velocity (w\<lparr>lastTime := 16\<rparr>))))"
    and ts: "ts1 0 = Some (textures (gl (w\<lparr>lastTime := 16\<rparr>)) (fbo_name (read_fbo (velocity (w\<lparr>lastTime := 16\<rparr>)))))"
      "ts2 0 = Some (textures (gl w') (fbo_name (write_fbo (velocity (w\<lparr>lastTime := 16\<rparr>)))))"
      "ts2 1 = Some (textures (gl (w\<lparr>lastTime := 16\<rparr>)) (fbo_name (read_fbo (dye (w\<lparr>lastTime := 16\<rparr>)))))"
    by (elim exE conjE) (rule that; assumption)
  have nt: "\<not> isTransitioning w'"
  proof -
    from render_vars[of spec_env f w, unfolded w2] r
    have "script_vars w' = script_vars (updateTransition (now f) (w\<lparr>lastTime := 16\<rparr>))" by auto
    then have "isTransitioning w' = isTransitioning (updateTransition (now f) (w\<lparr>lastTime := 16\<rparr>))"
      by (simp add: script_vars_def)
    then show ?thesis by (simp add: updateTransition_effect w_def painted_world_fields)
  qed
  have u1: "us1 ''u_dissipation'' = Some (U1f VELOCITY_DISSIPATION)" "us1 ''u_source'' = Some (U1i 0)"
    and u2: "us2 ''u_dissipation'' = Some (U1f DENSITY_DISSIPATION)" "us2 ''u_source'' = Some (U1i 1)"
      "us2 ''u_velocity'' = Some (U1i 0)" "us2 ''u_dt'' = Some (U1f (16 / 1000))"
      "us2 ''u_texel'' = Some (U2f (1 / 228) (1 / 128))"
    using u hu by (simp_all add: dt[unfolded w_def] w_def painted_world_fields example_world_fbos)
  have s1: "ts1 (nat 0) = Some \<lparr>tex_width = 228, tex_height = 128,
                                tex_data = replicate (nat (228 * 128)) (vx, 0, 0, 0)\<rparr>"
    using ts(1) by (simp add: w_def painted_world_fields example_world_fbos read_fbo_def painted_world_textures)
  have a1: "spec_advection us1 ts1 228 128 =
      replicate (nat (228 * 128)) (rgba_scale VELOCITY_DISSIPATION (vx, 0, 0, 0))"
    by (rule spec_advection_uniform[where us = us1 and ts = ts1 and n = 0 and m = "nat (228 * 128)", OF u1(2) s1 _ _ u1(1)])
      (simp_all add: tex_ok_def)
  have tv': "textures (gl w') (Suc 0) = \<lparr>tex_width = 228, tex_height = 128,
      tex_data = replicate (nat (228 * 128)) (VELOCITY_DISSIPATION * vx, 0, 0, 0)\<rparr>"
    using tv by (simp add: w_def painted_world_fields example_world_fbos write_fbo_def
        painted_world_textures a1 rgba_scale_def)
  have td': "tex_data (textures (gl w') 3) = spec_advection us2 ts2 910 512"
    using td by (simp add: w_def painted_world_fields example_world_fbos write_fbo_def)
  have s2: "ts2 0 = Some \<lparr>tex_width = 228, tex_height = 128,
      tex_data = replicate (nat (228 * 128)) (VELOCITY_DISSIPATION * vx, 0, 0, 0)\<rparr>"
    "ts2 1 = Some \<lparr>tex_width = 910, tex_height = 512, tex_data = painted_column 910 512\<rparr>"
    using ts(2,3) tv'
    by (simp_all add: w_def painted_world_fields example_world_fbos write_fbo_def read_fbo_def
        painted_world_textures)
  have rd: "read_fbo (dye w') = write_fbo (dye w)" by (simp add: dy)
  show ?thesis
    apply (rule exI[of _ w'], rule exI[of _ us2], rule exI[of _ ts2])
    using r nt rd tv' td' u2 s2 by simp
qed

section \<open>Properties\<close>

subsection \<open>The timed cross-fade\<close>

text \<open>
  C1.  While a transition started at \<open>transitionStart\<close> is in progress, a call of
  \<^verbatim>\<open>updateTransition\<close> at a later time \<open>t_now\<close> computes the blend factor
  \<open>clamp((t_now - transitionStart) / 1200, 0, 1)\<close>.  Below 1 it only stores that
  blend factor.  At 1 the transition completes: the current index becomes the old next
  index, the next index advances by one modulo the number of images, the blend factor
  and the accumulated energy are 0, the state is idle, and both sides of the dye field
  are cleared to zero; it completes once, every later call leaving the state as it is.
  (A later time is one not before \<open>transitionStart\<close>.  The frame that starts a
  transition calls \<^verbatim>\<open>updateTransition\<close> with the clock it read before the start; the
  quotient has no lower clamp.)
\<close>

theorem transition_progress:
  assumes "isTransitioning w" and "transitionStart w \<le> t_now" and "imageTextures w \<noteq> []"
  shows "let t = spec_clamp ((t_now - transitionStart w) / TRANSITION_DURATION) 0 1;
             w' = updateTransition t_now w
         in TRANSITION_DURATION = 1200 \<and>
            (t < 1 \<longrightarrow> w' = w\<lparr>blendFactor := t\<rparr>) \<and>
            (t = 1 \<longrightarrow>
               currentImageIdx w' = nextImageIdx w \<and>
               nextImageIdx w' = (nextImageIdx w + 1) mod length (imageTextures w) \<and>
               blendFactor w' = 0 \<and> \<not> isTransitioning w' \<and> totalSplatEnergy w' = 0 \<and>
               tex_data (textures (gl w') (fbo_name (read_fbo (dye w')))) =
                 cleared (tex_width (textures (gl w) (fbo_name (read_fbo (dye w)))))
                         (tex_height (textures (gl w) (fbo_name (read_fbo (dye w))))) \<and>
               tex_data (textures (gl w') (fbo_name (write_fbo (dye w')))) =
                 cleared (tex_width (textures (gl w) (fbo_name (write_fbo (dye w)))))
                         (tex_height (textures (gl w) (fbo_name (write_fbo (dye w))))) \<and>
               (\<forall>t'. updateTransition t' w' = w'))"
proof -
  let ?x = "(t_now - transitionStart w) / TRANSITION_DURATION"
  have x0: "0 \<le> ?x" using assms(2) by (simp add: TRANSITION_DURATION_def)
  have cl: "spec_clamp ?x 0 1 = min ?x 1" using x0 by (simp add: spec_clamp_def)
  show ?thesis
    unfolding Let_def cl
    using assms(1)
    apply (intro conjI impI)
      apply (simp add: TRANSITION_DURATION_def)
     apply (simp add: updateTransition_def Let_def)
    apply (simp_all add: updateTransition_def Let_def clearDye_def gl_clear_def gl_bindFramebuffer_def)
    done
qed

theorem transition_progress_witness:
  "isTransitioning mid_transition \<and> transitionStart mid_transition \<le> 933 \<and>
   imageTextures mid_transition \<noteq> [] \<and>
   updateTransition 933 mid_transition = mid_transition\<lparr>blendFactor := 3 / 4\<rparr> \<and>
   currentImageIdx (updateTransition 1233 mid_transition) = 1 \<and>
   nextImageIdx (updateTransition 1233 mid_transition) = 2 \<and>
   blendFactor (updateTransition 1233 mid_transition) = 0 \<and>
   totalSplatEnergy (updateTransition 1233 mid_transition) = 0 \<and>
   \<not> isTransitioning (updateTransition 1233 mid_transition)"
proof -
  note v = script_vars_fields[OF mid_transition_vars(2)]
  have h: "isTransitioning mid_transition" "transitionStart mid_transition \<le> 933"
    "transitionStart mid_transition \<le> 1233" "imageTextures mid_transition \<noteq> []"
    by (simp_all add: v)
  have c: "spec_clamp ((933 - transitionStart mid_transition) / TRANSITION_DURATION) 0 1 = 3 / 4"
    "spec_clamp ((1233 - transitionStart mid_transition) / TRANSITION_DURATION) 0 1 = 1"
    by (simp_all add: spec_clamp_def TRANSITION_DURATION_def v)
  from transition_progress[OF h(1) h(2) h(4)] transition_progress[OF h(1) h(3) h(4)]
  show ?thesis
    unfolding Let_def c using h by (simp add: v)
qed

subsection \<open>The double framebuffer\<close>

text \<open>
  C8.  For every width and height of at least 1, a double framebuffer created at that
  size and swapped twice is the one created: \<^verbatim>\<open>read()\<close> and \<^verbatim>\<open>write()\<close> are the
  buffers they were, one swap exchanges the two (distinct) buffers, and the size is
  kept.  A swap exchanges the two references only: it has no access to the textures.
\<close>

theorem swap_involution:
  assumes "1 \<le> w" and "1 \<le> h"
  shows "let d = fst (createDoubleFBO w h g) in
           swap_fbo (swap_fbo d) = d \<and>
           read_fbo (swap_fbo d) = write_fbo d \<and> write_fbo (swap_fbo d) = read_fbo d \<and>
           read_fbo (swap_fbo (swap_fbo d)) = read_fbo d \<and>
           write_fbo (swap_fbo (swap_fbo d)) = write_fbo d \<and>
           fbo_name (read_fbo d) \<noteq> fbo_name (write_fbo d) \<and>
           dfbo_width (swap_fbo d) = w \<and> dfbo_height (swap_fbo d) = h"
  by (simp add: Let_def createDoubleFBO_simps read_fbo_def write_fbo_def swap_fbo_def)

theorem swap_involution_witness:
  "(1::int) \<le> 228 \<and> (1::int) \<le> 128 \<and>
   swap_fbo (swap_fbo (fst (createDoubleFBO 228 128 (initial_gl example_env)))) =
     fst (createDoubleFBO 228 128 (initial_gl example_env)) \<and>
   fbo_name (read_fbo (swap_fbo (fst (createDoubleFBO 228 128 (initial_gl example_env))))) = 1 \<and>
   fbo_name (write_fbo (swap_fbo (fst (createDoubleFBO 228 128 (initial_gl example_env))))) = 0"
  using swap_involution[of 228 128 "initial_gl example_env"]
  by (simp add: Let_def createDoubleFBO_simps read_fbo_def write_fbo_def initial_gl_def)

subsection \<open>The accumulated energy\<close>

text \<open>
  C3.  From the start of the script and through every sequence of events (frames, pointer
  and touch moves, resizes, image loads) \<^verbatim>\<open>totalSplatEnergy\<close> is non-negative.  A frame
  taken in the idle state, on a clock that does not run backwards, never decreases it.
  A frame that starts in a transition and ends idle leaves it exactly 0; and so does
  any event that takes the page from a transition to the idle state.
\<close>

theorem energy_invariant:
  "(\<forall>pg. script E f0 = Inr pg \<longrightarrow> 0 \<le> totalSplatEnergy (page_world (run E pg evs))) \<and>
   (\<not> isTransitioning w \<and> now f \<le> now_start f \<longrightarrow>
      totalSplatEnergy w \<le> totalSplatEnergy (outcome_world (render E f w))) \<and>
   (isTransitioning w \<and> \<not> isTransitioning (outcome_world (render E f w)) \<longrightarrow>
      totalSplatEnergy (outcome_world (render E f w)) = 0) \<and>
   (isTransitioning (page_world pg') \<and> \<not> isTransitioning (page_world (dispatch E pg' ev)) \<longrightarrow>
      totalSplatEnergy (page_world (dispatch E pg' ev)) = 0)"
proof (intro conjI allI impI)
  fix pg assume "script E f0 = Inr pg"
  then show "0 \<le> totalSplatEnergy (page_world (run E pg evs))"
    by (intro run_energy_nonneg script_energy_nonneg)
next
  assume "\<not> isTransitioning w \<and> now f \<le> now_start f"
  then show "totalSplatEnergy w \<le> totalSplatEnergy (outcome_world (render E f w))"
    using render_energy_cases[of E f w] pointer_speed_nonneg[of w]
    by (auto simp add: TRANSITION_DURATION_def split: if_splits)
next
  assume "isTransitioning w \<and> \<not> isTransitioning (outcome_world (render E f w))"
  then show "totalSplatEnergy (outcome_world (render E f w)) = 0"
    using render_energy_cases[of E f w]
    by (auto split: if_splits)
next
  assume a: "isTransitioning (page_world pg') \<and> \<not> isTransitioning (page_world (dispatch E pg' ev))"
  show "totalSplatEnergy (page_world (dispatch E pg' ev)) = 0"
  proof (cases ev)
    case (AnimationFrame g)
    show ?thesis
    proof (cases "frame_requested pg'")
      case True
      then show ?thesis
        using a AnimationFrame render_energy_cases[of E g "page_world pg'"]
        by (auto split: if_splits)
    next
      case False
      then show ?thesis using a AnimationFrame by simp
    qed
  next
    case (Resize iw ih)
    then show ?thesis using a script_vars_eqD(4)[OF onResize_vars[of E iw ih "page_world pg'"]] by simp
  qed (use a in \<open>auto simp add: onMouseMove_def onTouchMove_def Let_def
        split: option.splits list.splits prod.splits\<close>)
qed

theorem energy_invariant_witness:
  "\<not> isl (script example_env \<lparr>now = 16, now_start = 16\<rparr>) \<and>
   0 \<le> totalSplatEnergy (page_world (run example_env (projr (script example_env \<lparr>now = 16, now_start = 16\<rparr>))
          example_events)) \<and>
   \<not> isTransitioning example_world \<and>
   totalSplatEnergy example_world \<le>
     totalSplatEnergy (outcome_world (render example_env \<lparr>now = 16, now_start = 16\<rparr> example_world)) \<and>
   isTransitioning mid_transition \<and>
   \<not> isTransitioning (outcome_world (render example_env \<lparr>now = 1300, now_start = 1300\<rparr> mid_transition)) \<and>
   totalSplatEnergy (outcome_world (render example_env \<lparr>now = 1300, now_start = 1300\<rparr> mid_transition)) = 0 \<and>
   totalSplatEnergy (page_world (dispatch example_env \<lparr>page_world = mid_transition, frame_requested = True\<rparr>
       (AnimationFrame \<lparr>now = 1300, now_start = 1300\<rparr>))) = 0"
proof -
  let ?f0 = "\<lparr>now = 16, now_start = 16\<rparr>" and ?f2 = "\<lparr>now = 1300, now_start = 1300\<rparr>"
  let ?pg = "\<lparr>page_world = mid_transition, frame_requested = True\<rparr>"
  note v = script_vars_fields[OF mid_transition_vars(2)]
  have s: "script example_env ?f0 = Inr (projr (script example_env ?f0))"
    by (simp add: example_script)
  have rdy: "frame_ready mid_transition" by (rule example_frame_ready) (rule v(8))
  from ready_frame_still[OF rdy mid_transition_vars(2), of example_env ?f2] obtain w' where
    r: "render example_env ?f2 mid_transition = Inr w'" and "\<not> isTransitioning w'"
    by (auto simp add: TRANSITION_DURATION_def script_vars_def)
  then have nt: "\<not> isTransitioning (outcome_world (render example_env ?f2 mid_transition))"
    by simp
  have ni: "\<not> isl (script example_env ?f0)"
    by (simp add: example_script)
  have idle: "\<not> isTransitioning example_world \<and> now ?f0 \<le> now_start ?f0"
    by (simp add: example_world_fields)
  have edge: "isTransitioning (page_world ?pg) \<and>
      \<not> isTransitioning (page_world (dispatch example_env ?pg (AnimationFrame ?f2)))"
    using nt by (simp add: v)
  from energy_invariant[of example_env ?f0 example_events example_world ?f0 ?pg "AnimationFrame ?f2"] s idle
  have a: "0 \<le> totalSplatEnergy (page_world (run example_env (projr (script example_env ?f0)) example_events))"
    and b: "totalSplatEnergy example_world \<le> totalSplatEnergy (outcome_world (render example_env ?f0 example_world))"
    by blast+
  from energy_invariant[of example_env ?f0 example_events mid_transition ?f2 ?pg "AnimationFrame ?f2"] nt edge
  have c: "totalSplatEnergy (outcome_world (render example_env ?f2 mid_transition)) = 0"
    and d: "totalSplatEnergy (page_world (dispatch example_env ?pg (AnimationFrame ?f2))) = 0"
    by (simp_all add: v)
  show ?thesis using ni a b c d nt idle by (simp add: v)
qed

subsection \<open>Triggering a transition\<close>

text \<open>
  C7.  The threshold \<^verbatim>\<open>ADVANCE_ENERGY\<close> is 8000.  A frame that finds the state idle, the
  accumulated energy 0 and a pointer move of speed 8001 returns with the state
  transitioning, started at that frame's clock.  \<^verbatim>\<open>checkAdvance\<close> starts a transition
  exactly when the energy is strictly above the threshold, and only in the idle state:
  during a transition it changes nothing.
\<close>

theorem single_event_triggers:
  assumes "\<not> isTransitioning w" and "totalSplatEnergy w = 0" and "ptr_moved (pointer w)"
    and "pointer_speed w = 8001" and "frame_ready w" and "now f \<le> now_start f"
  shows "ADVANCE_ENERGY = 8000 \<and>
         (\<exists>w'. render E f w = Inr w' \<and> isTransitioning w' \<and> transitionStart w' = now_start f) \<and>
         (\<forall>f' (v::world). \<not> isTransitioning v \<longrightarrow>
                  isTransitioning (checkAdvance f' v) = (totalSplatEnergy v > ADVANCE_ENERGY)) \<and>
         (\<forall>f' (v::world). isTransitioning v \<longrightarrow> checkAdvance f' v = v)"
proof (intro conjI allI impI)
  show "ADVANCE_ENERGY = 8000" by (simp add: ADVANCE_ENERGY_def)
next
  let ?wa = "outcome_world (applySplat E f (frame_dt f w) (w\<lparr>lastTime := now f\<rparr>))"
  have sa: "splat_applies w" using assms(3,5) by (simp add: splat_applies_def frame_ready_def)
  note ef = applySplat_effect[of E f "frame_dt f w" "w\<lparr>lastTime := now f\<rparr>", unfolded applySplat_speed]
  have a: "isTransitioning ?wa" "transitionStart ?wa = now_start f"
    using ef(2,3) sa assms(1,2,4) by (simp_all add: ADVANCE_ENERGY_def)
  from render_ready[OF assms(5), of E f] obtain w' where
    r: "render E f w = Inr w'" and
    v: "script_vars w' = script_vars (updateTransition (now f) ?wa)" by blast
  have "isTransitioning w'" "transitionStart w' = now_start f"
    using script_vars_eqD(4,5)[OF v] a assms(6)
    by (simp_all add: updateTransition_effect TRANSITION_DURATION_def)
  with r show "\<exists>w'. render E f w = Inr w' \<and> isTransitioning w' \<and> transitionStart w' = now_start f"
    by blast
next
  fix f' and v :: world assume "\<not> isTransitioning v"
  then show "isTransitioning (checkAdvance f' v) = (totalSplatEnergy v > ADVANCE_ENERGY)"
    by (simp add: checkAdvance_vars)
next
  fix f' and v :: world assume "isTransitioning v"
  then show "checkAdvance f' v = v" by (simp add: checkAdvance_def)
qed

theorem single_event_triggers_witness:
  "\<not> isTransitioning (onMouseMove \<lparr>clientX = 8641, clientY = 360, rect_left = 0, rect_top = 0\<rparr>
                         (page_world example_page)) \<and>
   totalSplatEnergy (onMouseMove \<lparr>clientX = 8641, clientY = 360, rect_left = 0, rect_top = 0\<rparr>
                         (page_world example_page)) = 0 \<and>
   ptr_moved (pointer (onMouseMove \<lparr>clientX = 8641, clientY = 360, rect_left = 0, rect_top = 0\<rparr>
                         (page_world example_page))) \<and>
   pointer_speed (onMouseMove \<lparr>clientX = 8641, clientY = 360, rect_left = 0, rect_top = 0\<rparr>
                         (page_world example_page)) = 8001 \<and>
   frame_ready (onMouseMove \<lparr>clientX = 8641, clientY = 360, rect_left = 0, rect_top = 0\<rparr>
                         (page_world example_page)) \<and>
   \<not> isl (render example_env \<lparr>now = 32, now_start = 33\<rparr>
       (onMouseMove \<lparr>clientX = 8641, clientY = 360, rect_left = 0, rect_top = 0\<rparr>
                         (page_world example_page))) \<and>
   isTransitioning (projr (render example_env \<lparr>now = 32, now_start = 33\<rparr>
       (onMouseMove \<lparr>clientX = 8641, clientY = 360, rect_left = 0, rect_top = 0\<rparr>
                         (page_world example_page)))) \<and>
   transitionStart (projr (render example_env \<lparr>now = 32, now_start = 33\<rparr>
       (onMouseMove \<lparr>clientX = 8641, clientY = 360, rect_left = 0, rect_top = 0\<rparr>
                         (page_world example_page)))) = 33"
proof -
  let ?W = "onMouseMove \<lparr>clientX = 8641, clientY = 360, rect_left = 0, rect_top = 0\<rparr> (page_world example_page)"
  let ?f = "\<lparr>now = 32, now_start = 33\<rparr>"
  note f0 = script_vars_fields[OF example_page_vars(2)]
  have h: "\<not> isTransitioning ?W" "totalSplatEnergy ?W = 0" "ptr_moved (pointer ?W)"
    and pr: "programs ?W = example_programs"
    and pt: "ptr_dx (pointer ?W) = 8001" "ptr_dy (pointer ?W) = 0"
    by (simp_all add: onMouseMove_def Let_def f0)
  have sp: "pointer_speed ?W = 8001" by (rule pointer_speed_horizontal) (simp_all add: pt)
  have rdy: "frame_ready ?W" by (rule example_frame_ready) (rule pr)
  have clk: "now ?f \<le> now_start ?f" by simp
  from single_event_triggers[OF h sp rdy clk, of example_env]
  obtain w' where "render example_env ?f ?W = Inr w'" "isTransitioning w'" "transitionStart w' = now_start ?f"
    by blast
  then show ?thesis using h sp rdy by simp
qed

subsection \<open>Movement during a transition\<close>



subsection \<open>What completion leaves alone\<close>

text \<open>
  C10.  When the seven buffers are distinct textures (as they are in every state the
  page reaches, by \<open>script_buffers_distinct\<close>), the call of \<^verbatim>\<open>updateTransition\<close>
  that completes a transition changes no texture but the two of the dye field, which it
  clears: the textures of the velocity, divergence and pressure fields are what they
  were, as are the field objects, the pointer, the draw calls, the texture units and
  the uniforms.
\<close>

theorem completion_clears_only_dye:
  assumes "isTransitioning w" and "TRANSITION_DURATION \<le> t_now - transitionStart w"
    and "distinct (buffer_names w)"
  shows "let w' = updateTransition t_now w in
           \<not> isTransitioning w' \<and>
           velocity w' = velocity w \<and> pressure w' = pressure w \<and> divergence w' = divergence w \<and>
           dye w' = dye w \<and> pointer w' = pointer w \<and>
           (\<forall>n. n \<noteq> fbo_name (dfbo_a (dye w)) \<and> n \<noteq> fbo_name (dfbo_b (dye w)) \<longrightarrow>
                textures (gl w') n = textures (gl w) n) \<and>
           textures (gl w') (fbo_name (dfbo_a (velocity w))) = textures (gl w) (fbo_name (dfbo_a (velocity w))) \<and>
           textures (gl w') (fbo_name (dfbo_b (velocity w))) = textures (gl w) (fbo_name (dfbo_b (velocity w))) \<and>
           textures (gl w') (fbo_name (divergence w)) = textures (gl w) (fbo_name (divergence w)) \<and>
           textures (gl w') (fbo_name (dfbo_a (pressure w))) = textures (gl w) (fbo_name (dfbo_a (pressure w))) \<and>
           textures (gl w') (fbo_name (dfbo_b (pressure w))) = textures (gl w) (fbo_name (dfbo_b (pressure w))) \<and>
           tex_data (textures (gl w') (fbo_name (dfbo_a (dye w)))) =
             cleared (tex_width (textures (gl w) (fbo_name (dfbo_a (dye w)))))
                     (tex_height (textures (gl w) (fbo_name (dfbo_a (dye w))))) \<and>
           tex_data (textures (gl w') (fbo_name (dfbo_b (dye w)))) =
             cleared (tex_width (textures (gl w) (fbo_name (dfbo_b (dye w)))))
                     (tex_height (textures (gl w) (fbo_name (dfbo_b (dye w))))) \<and>
           calls (gl w') = calls (gl w) \<and> unit_tex (gl w') = unit_tex (gl w) \<and>
           uniform_vals (gl w') = uniform_vals (gl w) \<and> cur_program (gl w') = cur_program (gl w)"
proof -
  have t: "min ((t_now - transitionStart w) / TRANSITION_DURATION) 1 = 1"
    using assms(2) by (simp add: TRANSITION_DURATION_def)
  have u: "updateTransition t_now w =
      clearDye (w\<lparr>currentImageIdx := nextImageIdx w,
                  nextImageIdx := (nextImageIdx w + 1) mod length (imageTextures w),
                  blendFactor := 0, isTransitioning := False, totalSplatEnergy := 0\<rparr>)"
    using assms(1) by (simp add: updateTransition_def Let_def t)
  let ?da = "fbo_name (dfbo_a (dye w))" and ?db = "fbo_name (dfbo_b (dye w))"
  have other: "textures (gl (updateTransition t_now w)) n = textures (gl w) n"
    if "n \<noteq> ?da" "n \<noteq> ?db" for n
    unfolding u using that
    by (simp add: clearDye_def Let_def gl_clear_def gl_bindFramebuffer_def read_fbo_def write_fbo_def)
  have d: "fbo_name (dfbo_a (velocity w)) \<noteq> ?da" "fbo_name (dfbo_a (velocity w)) \<noteq> ?db"
    "fbo_name (dfbo_b (velocity w)) \<noteq> ?da" "fbo_name (dfbo_b (velocity w)) \<noteq> ?db"
    "fbo_name (divergence w) \<noteq> ?da" "fbo_name (divergence w) \<noteq> ?db"
    "fbo_name (dfbo_a (pressure w)) \<noteq> ?da" "fbo_name (dfbo_a (pressure w)) \<noteq> ?db"
    "fbo_name (dfbo_b (pressure w)) \<noteq> ?da" "fbo_name (dfbo_b (pressure w)) \<noteq> ?db"
    using assms(3) by (auto simp add: buffer_names_def)
  have rest: "\<not> isTransitioning (updateTransition t_now w)"
    "velocity (updateTransition t_now w) = velocity w" "pressure (updateTransition t_now w) = pressure w"
    "divergence (updateTransition t_now w) = divergence w" "dye (updateTransition t_now w) = dye w"
    "pointer (updateTransition t_now w) = pointer w"
    "calls (gl (updateTransition t_now w)) = calls (gl w)"
    "unit_tex (gl (updateTransition t_now w)) = unit_tex (gl w)"
    "uniform_vals (gl (updateTransition t_now w)) = uniform_vals (gl w)"
    "cur_program (gl (updateTransition t_now w)) = cur_program (gl w)"
    unfolding u
    by (simp_all add: clearDye_def Let_def gl_clear_def gl_bindFramebuffer_def)
  have zero: "tex_data (textures (gl (updateTransition t_now w)) ?da) =
             cleared (tex_width (textures (gl w) ?da)) (tex_height (textures (gl w) ?da))"
    "tex_data (textures (gl (updateTransition t_now w)) ?db) =
             cleared (tex_width (textures (gl w) ?db)) (tex_height (textures (gl w) ?db))"
    unfolding u
    by (simp_all add: clearDye_def Let_def gl_clear_def gl_bindFramebuffer_def read_fbo_def write_fbo_def)
  show ?thesis
    unfolding Let_def
    using rest zero other d by simp
qed

theorem completion_clears_only_dye_witness:
  "isTransitioning mid_transition \<and>
   TRANSITION_DURATION \<le> 1300 - transitionStart mid_transition \<and>
   distinct (buffer_names mid_transition) \<and>
   \<not> isTransitioning (updateTransition 1300 mid_transition) \<and>
   velocity (updateTransition 1300 mid_transition) = velocity mid_transition \<and>
   pointer (updateTransition 1300 mid_transition) = pointer mid_transition \<and>
   textures (gl (updateTransition 1300 mid_transition)) (fbo_name (dfbo_a (velocity mid_transition))) =
     textures (gl mid_transition) (fbo_name (dfbo_a (velocity mid_transition))) \<and>
   textures (gl (updateTransition 1300 mid_transition)) (fbo_name (dfbo_b (pressure mid_transition))) =
     textures (gl mid_transition) (fbo_name (dfbo_b (pressure mid_transition)))"
proof -
  note v = script_vars_fields[OF mid_transition_vars(2)]
  have h: "isTransitioning mid_transition" "TRANSITION_DURATION \<le> 1300 - transitionStart mid_transition"
    "distinct (buffer_names mid_transition)"
    by (simp_all add: v TRANSITION_DURATION_def mid_transition_buffers)
  from completion_clears_only_dye[OF h] show ?thesis
    using h by (simp add: Let_def)
qed

subsection \<open>Resize\<close>

text \<open>
  C4, as stated, fails: the listener of \<^verbatim>\<open>resize\<close> assigns the canvas size, the two
  resolutions and the four fields, and nothing else.  On the example page 600 ms into a
  transition, with blend factor 1/2 and energy 8001, a resize leaves the transition in
  progress, the blend factor 1/2 and the energy 8001.
\<close>

theorem resize_keeps_transition_counterexample:
  "isTransitioning mid_transition \<and> blendFactor mid_transition = 1 / 2 \<and>
   totalSplatEnergy mid_transition = 8001 \<and>
   isTransitioning (onResize example_env 1024 512 mid_transition) \<and>
   blendFactor (onResize example_env 1024 512 mid_transition) = 1 / 2 \<and>
   totalSplatEnergy (onResize example_env 1024 512 mid_transition) = 8001"
proof -
  note v = script_vars_fields[OF mid_transition_vars(2)]
  note r = script_vars_eqD[OF onResize_vars[of example_env 1024 512 mid_transition]]
  show ?thesis using r(3,4,6) by (simp add: v)
qed

text \<open>
  C4, amended.  A resize to a drawing buffer of positive size allocates seven new
  textures (names not used before), cleared to zero: the velocity, divergence and
  pressure fields at the simulation resolution of the new drawing buffer, the dye field
  at its dye resolution.  The textures allocated before are untouched.  The transition
  state (\<^verbatim>\<open>isTransitioning\<close>, \<^verbatim>\<open>blendFactor\<close>, \<^verbatim>\<open>transitionStart\<close>, the image indices),
  the accumulated energy and the pointer are unchanged.
\<close>

theorem resize_reallocates:
  assumes "0 < fst (drawing_buffer E iw ih)" and "0 < snd (drawing_buffer E iw ih)"
  shows "let w' = onResize E iw ih w;
             n = next_name (gl w);
             sr = getRes SIM_RESOLUTION (gl w');
             dr = getRes DYE_RESOLUTION (gl w')
         in drawingBufferWidth (gl w') = fst (drawing_buffer E iw ih) \<and>
            drawingBufferHeight (gl w') = snd (drawing_buffer E iw ih) \<and>
            buffer_names w' = [n, n + 1, n + 2, n + 3, n + 4, n + 5, n + 6] \<and>
            (dfbo_width (velocity w'), dfbo_height (velocity w')) = sr \<and>
            (dfbo_width (dye w'), dfbo_height (dye w')) = dr \<and>
            (fbo_width (divergence w'), fbo_height (divergence w')) = sr \<and>
            (dfbo_width (pressure w'), dfbo_height (pressure w')) = sr \<and>
            (\<forall>m \<in> set [n, n + 1, n + 4, n + 5, n + 6].
               textures (gl w') m = \<lparr>tex_width = fst sr, tex_height = snd sr, tex_data = cleared (fst sr) (snd sr)\<rparr>) \<and>
            (\<forall>m \<in> set [n + 2, n + 3].
               textures (gl w') m = \<lparr>tex_width = fst dr, tex_height = snd dr, tex_data = cleared (fst dr) (snd dr)\<rparr>) \<and>
            (\<forall>m < n. textures (gl w') m = textures (gl w) m) \<and>
            script_vars w' = script_vars w \<and>
            isTransitioning w' = isTransitioning w \<and> blendFactor w' = blendFactor w \<and>
            transitionStart w' = transitionStart w \<and> totalSplatEnergy w' = totalSplatEnergy w"
proof -
  let ?g0 = "(gl w)\<lparr>drawingBufferWidth := fst (drawing_buffer E iw ih),
                      drawingBufferHeight := snd (drawing_buffer E iw ih)\<rparr>"
  have sr: "getRes SIM_RESOLUTION (gl (onResize E iw ih w)) = getRes SIM_RESOLUTION ?g0"
    and dr: "getRes DYE_RESOLUTION (gl (onResize E iw ih w)) = getRes DYE_RESOLUTION ?g0"
    by (rule getRes_cong; simp add: onResize_gl)+
  note v = script_vars_eqD[OF onResize_vars[of E iw ih w]]
  show ?thesis
    unfolding Let_def sr dr
    using v(3,4,5,6)
    by (simp add: onResize_gl onResize_vars onResize_buffers[unfolded Let_def])
       (simp add: onResize_def Let_def split_def createDoubleFBO_simps createFBO_simps)
qed

theorem resize_reallocates_witness:
  "0 < fst (drawing_buffer example_env 1024 512) \<and> 0 < snd (drawing_buffer example_env 1024 512) \<and>
   buffer_names (onResize example_env 1024 512 mid_transition) =
     [next_name (gl mid_transition), next_name (gl mid_transition) + 1, next_name (gl mid_transition) + 2,
      next_name (gl mid_transition) + 3, next_name (gl mid_transition) + 4, next_name (gl mid_transition) + 5,
      next_name (gl mid_transition) + 6] \<and>
   getRes SIM_RESOLUTION (gl (onResize example_env 1024 512 mid_transition)) = (256, 128) \<and>
   dfbo_width (velocity (onResize example_env 1024 512 mid_transition)) = 256 \<and>
   dfbo_height (dye (onResize example_env 1024 512 mid_transition)) = 512 \<and>
   isTransitioning (onResize example_env 1024 512 mid_transition) \<and>
   totalSplatEnergy (onResize example_env 1024 512 mid_transition) = 8001"
proof -
  note v = script_vars_fields[OF mid_transition_vars(2)]
  have h: "0 < fst (drawing_buffer example_env 1024 512)" "0 < snd (drawing_buffer example_env 1024 512)"
    by (simp_all add: example_env_simps)
  have r: "getRes SIM_RESOLUTION (gl (onResize example_env 1024 512 mid_transition)) = (256, 128)"
    "getRes DYE_RESOLUTION (gl (onResize example_env 1024 512 mid_transition)) = (1024, 512)"
    by (simp_all add: getRes_def onResize_gl example_env_simps SIM_RESOLUTION_def DYE_RESOLUTION_def Let_def)
  from resize_reallocates[OF h, of mid_transition] show ?thesis
    unfolding Let_def r using h by (simp add: v)
qed

subsection \<open>The solver\<close>




text \<open>
  C6.  When the six programs are linked and the advection program has the uniform
  \<^verbatim>\<open>u_dt\<close>, every frame returns, and its draw calls are, in order: the two splat draws
  when the pointer moved; then the fixed sequence of the solver (velocity
  self-advection, dye advection, divergence, eight pressure iterations that alternate
  the two sides of the pressure field, gradient subtraction), on the buffers the
  sequence of the specification names; then the display draw.  The two advection draws
  receive as \<^verbatim>\<open>u_dt\<close> the elapsed time in seconds capped at 0.016, which is at most a
  sixtieth of a second.
\<close>

theorem solver_sequence:
  assumes "all_linked w" and "has_uniform w Advection ''u_dt''"
  shows "\<exists>w' cs1 cs2 c.
     render E f w = Inr w' \<and> calls (gl w') = calls (gl w) @ cs1 @ cs2 @ [c] \<and>
     map dc_program cs1 = (if ptr_moved (pointer w) then [Some Splat, Some Splat] else []) \<and>
     map draw_summary cs2 =
       spec_solver_sequence (if ptr_moved (pointer w) then swap_fbo (velocity w) else velocity w)
         (if ptr_moved (pointer w) then swap_fbo (dye w) else dye w)
         (divergence w) (pressure w) (unit_tex (gl w) 1) \<and>
     map dc_program cs2 =
       [Some Advection, Some Advection, Some Divergence] @ replicate 8 (Some Pressure) @ [Some GradientSubtract] \<and>
     map (\<lambda>c. dc_uniforms c ''u_dt'') (take 2 cs2) = [Some (U1f (frame_dt f w)), Some (U1f (frame_dt f w))] \<and>
     dc_program c = Some Display \<and>
     frame_dt f w = min ((now f - lastTime w) / 1000) (16 / 1000) \<and> frame_dt f w \<le> 1 / 60 \<and>
     PRESSURE_ITERATIONS = 8"
proof -
  from render_calls[OF assms(1), of E f] obtain w' cs1 cs2 c where
    r: "render E f w = Inr w'" "calls (gl w') = calls (gl w) @ cs1 @ cs2 @ [c]"
      "map dc_program cs1 = (if ptr_moved (pointer w) then [Some Splat, Some Splat] else [])"
    and m2: "map draw_summary cs2 =
       spec_solver_sequence (if ptr_moved (pointer w) then swap_fbo (velocity w) else velocity w)
         (if ptr_moved (pointer w) then swap_fbo (dye w) else dye w)
         (divergence w) (pressure w) (unit_tex (gl w) 1)"
    and q2: "map advection_params (take 2 cs2) =
       [((if has_uniform w Advection ''u_dt'' then Some (U1f (frame_dt f w)) else uniform_vals (gl w) Advection ''u_dt''),
         (if has_uniform w Advection ''u_dissipation'' then Some (U1f VELOCITY_DISSIPATION)
          else uniform_vals (gl w) Advection ''u_dissipation'')),
        ((if has_uniform w Advection ''u_dt'' then Some (U1f (frame_dt f w)) else uniform_vals (gl w) Advection ''u_dt''),
         (if has_uniform w Advection ''u_dissipation'' then Some (U1f DENSITY_DISSIPATION)
          else uniform_vals (gl w) Advection ''u_dissipation''))]"
    and d: "dc_program c = Some Display"
    by (elim exE conjE) (rule that; assumption)
  have "map dc_program cs2 = map fst (map draw_summary cs2)"
    by (simp add: draw_summary_def comp_def)
  then have p2: "map dc_program cs2 =
       [Some Advection, Some Advection, Some Divergence] @ replicate 8 (Some Pressure) @ [Some GradientSubtract]"
    by (simp add: m2 spec_solver_sequence_def eval_nat_numeral)
  have "map (\<lambda>c. dc_uniforms c ''u_dt'') (take 2 cs2) = map fst (map advection_params (take 2 cs2))"
    by (simp add: advection_params_def comp_def)
  then have dt: "map (\<lambda>c. dc_uniforms c ''u_dt'') (take 2 cs2) =
       [Some (U1f (frame_dt f w)), Some (U1f (frame_dt f w))]"
    unfolding q2 using assms(2) by simp
  have b: "frame_dt f w = min ((now f - lastTime w) / 1000) (16 / 1000)" "frame_dt f w \<le> 1 / 60"
    "PRESSURE_ITERATIONS = 8"
    by (simp_all add: frame_dt_def PRESSURE_ITERATIONS_def min_def)
  show ?thesis
    apply (rule exI[of _ w'], rule exI[of _ cs1], rule exI[of _ cs2], rule exI[of _ c])
    using r m2 p2 dt d b by (intro conjI)
qed

theorem solver_sequence_witness:
  "all_linked example_world \<and> has_uniform example_world Advection ''u_dt'' \<and>
   \<not> isl (render example_env \<lparr>now = 16, now_start = 16\<rparr> example_world) \<and>
   map dc_program (calls (gl (projr (render example_env \<lparr>now = 16, now_start = 16\<rparr> example_world)))) =
     [Some Advection, Some Advection, Some Divergence,
      Some Pressure, Some Pressure, Some Pressure, Some Pressure,
      Some Pressure, Some Pressure, Some Pressure, Some Pressure,
      Some GradientSubtract, Some Display] \<and>
   map (\<lambda>c. dc_uniforms c ''u_dt'')
     (take 2 (calls (gl (projr (render example_env \<lparr>now = 16, now_start = 16\<rparr> example_world))))) =
     [Some (U1f (16 / 1000)), Some (U1f (16 / 1000))]"
proof -
  let ?f = "\<lparr>now = 16, now_start = 16\<rparr>"
  have h: "all_linked example_world" "has_uniform example_world Advection ''u_dt''"
    by (simp_all add: example_all_linked example_has_uniform example_world_fields)
  have dt: "frame_dt ?f example_world = 16 / 1000"
    by (simp add: frame_dt_def example_world_fields)
  from solver_sequence[OF h, of example_env ?f] obtain w' cs1 cs2 c where
    r: "render example_env ?f example_world = Inr w'"
    and c: "calls (gl w') = calls (gl example_world) @ cs1 @ cs2 @ [c]"
    and m1: "map dc_program cs1 = (if ptr_moved (pointer example_world) then [Some Splat, Some Splat] else [])"
    and m2: "map dc_program cs2 =
       [Some Advection, Some Advection, Some Divergence] @ replicate 8 (Some Pressure) @ [Some GradientSubtract]"
    and u: "map (\<lambda>c. dc_uniforms c ''u_dt'') (take 2 cs2) =
       [Some (U1f (frame_dt ?f example_world)), Some (U1f (frame_dt ?f example_world))]"
    and d: "dc_program c = Some Display"
    by (elim exE conjE) (rule that; assumption)
  have e1: "cs1 = []" using m1 by (simp add: example_world_fields)
  have l2: "length cs2 = 12" using arg_cong[OF m2, of length] by simp
  have t: "take 2 (calls (gl w')) = take 2 cs2"
    unfolding c e1 example_world_calls using l2 by simp
  show ?thesis
    using h r u d m2 unfolding t[symmetric] dt
    by (simp add: c e1 example_world_calls eval_nat_numeral)
qed

subsection \<open>Programs that fail to compile or link\<close>

text \<open>
  C2, as stated, fails: on the example page with a splat program that does not link, the
  script is not aborted; \<^verbatim>\<open>programs.splat\<close> is \<^verbatim>\<open>null\<close>, the first call of \<^verbatim>\<open>render\<close>
  returns and requests the next frame.
\<close>

theorem link_failure_counterexample:
  "\<not> isl (startup broken_env) \<and>
   programs (projr (startup broken_env)) Splat = None \<and>
   \<not> isl (script broken_env \<lparr>now = 16, now_start = 16\<rparr>) \<and>
   frame_requested (projr (script broken_env \<lparr>now = 16, now_start = 16\<rparr>)) \<and>
   programs (page_world (projr (script broken_env \<lparr>now = 16, now_start = 16\<rparr>))) Splat = None"
proof -
  let ?f = "\<lparr>now = 16, now_start = 16\<rparr>"
  from broken_startup obtain w where
    w: "startup broken_env = Inr w" "\<not> ptr_moved (pointer w)" "programs w Splat = None"
    and rdy: "frame_ready w"
    by (auto simp add: frame_ready_def)
  have s: "script broken_env ?f = Inr (after_render (render broken_env ?f w))"
    by (simp add: script_def w)
  have r: "frame_requested (after_render (render broken_env ?f w))"
    using rdy by (simp add: after_render_requested render_isl)
  have p: "programs (page_world (after_render (render broken_env ?f w))) Splat = None"
    using w by (simp add: render_programs)
  show ?thesis using w s r p by simp
qed

text \<open>
  C2, amended.  On a page with a context and the seven shader sources:
  when a shader does not compile, and \<^verbatim>\<open>attachShader\<close> rejects \<^verbatim>\<open>null\<close> with a TypeError,
  the script is aborted by that exception with a compile error on the console;
  when the shaders compile, the script is not aborted: each entry of \<^verbatim>\<open>programs\<close> is
  the linked program or, where linking failed, \<^verbatim>\<open>null\<close> with a link error on the console,
  and no event changes an entry afterwards (no retry, no fallback).
  A frame raises exactly when it reads a \<^verbatim>\<open>null\<close> program (the splat program only when
  the pointer moved, the five others always); the exception is a TypeError on such a
  program, and the frame then requests no further frame, while a frame that reads
  none requests the next.
\<close>

theorem program_failure:
  assumes "gl_supported E" and "sources_present E"
  shows
   "(\<not> sources_compile E \<and> attach_null_throws E \<longrightarrow>
       (\<exists>w'. startup E = Inl (TypeError_attach_null, w') \<and> ''Shader compile error:'' \<in> set (console w'))) \<and>
    (sources_compile E \<longrightarrow>
       (\<exists>w. startup E = Inr w \<and>
            (\<forall>k. programs w k = map_option (\<lambda>ns. \<lparr>program = k, uniforms = ns\<rparr>) (program_link E k)) \<and>
            (\<forall>k. program_link E k = None \<longrightarrow> ''Program link error:'' \<in> set (console w)) \<and>
            (\<forall>b evs. programs (page_world (run E \<lparr>page_world = w, frame_requested = b\<rparr> evs)) = programs w))) \<and>
    (\<forall>w f. isl (render E f w) = (\<not> frame_ready w)) \<and>
    (\<forall>w f e w'. render E f w = Inl (e, w') \<longrightarrow> (\<exists>k. e = TypeError_null_program k \<and> programs w k = None)) \<and>
    (\<forall>pg f. frame_requested (dispatch E pg (AnimationFrame f)) =
              (frame_requested pg \<and> frame_ready (page_world pg)))"
proof (intro conjI impI allI)
  assume "\<not> sources_compile E \<and> attach_null_throws E"
  then show "\<exists>w'. startup E = Inl (TypeError_attach_null, w') \<and> ''Shader compile error:'' \<in> set (console w')"
    using startup_not_compiled[OF assms] by blast
next
  assume sc: "sources_compile E"
  from startup_compiled[OF assms(1) sc] obtain w where
    w: "startup E = Inr w"
    "\<forall>k. programs w k = map_option (\<lambda>ns. \<lparr>program = k, uniforms = ns\<rparr>) (program_link E k)"
    "\<forall>k. program_link E k = None \<longrightarrow> ''Program link error:'' \<in> set (console w)"
    by blast
  have "\<forall>b evs. programs (page_world (run E \<lparr>page_world = w, frame_requested = b\<rparr> evs)) = programs w"
    by (simp add: run_programs)
  with w show "\<exists>w. startup E = Inr w \<and>
            (\<forall>k. programs w k = map_option (\<lambda>ns. \<lparr>program = k, uniforms = ns\<rparr>) (program_link E k)) \<and>
            (\<forall>k. program_link E k = None \<longrightarrow> ''Program link error:'' \<in> set (console w)) \<and>
            (\<forall>b evs. programs (page_world (run E \<lparr>page_world = w, frame_requested = b\<rparr> evs)) = programs w)"
    by blast
next
  fix w f show "isl (render E f w) = (\<not> frame_ready w)" by (rule render_isl)
next
  fix w f e w' assume "render E f w = Inl (e, w')"
  then show "\<exists>k. e = TypeError_null_program k \<and> programs w k = None" by (rule render_error)
next
  fix pg f
  show "frame_requested (dispatch E pg (AnimationFrame f)) =
              (frame_requested pg \<and> frame_ready (page_world pg))"
    by (simp add: after_render_requested render_isl)
qed

theorem program_failure_witness:
  "gl_supported broken_env \<and> sources_present broken_env \<and> sources_compile broken_env \<and>
   program_link broken_env Splat = None \<and>
   \<not> isl (startup broken_env) \<and> programs (projr (startup broken_env)) Splat = None \<and>
   ''Program link error:'' \<in> set (console (projr (startup broken_env))) \<and>
   \<not> frame_ready (onMouseMove \<lparr>clientX = 700, clientY = 360, rect_left = 0, rect_top = 0\<rparr>
                    (projr (startup broken_env))) \<and>
   isl (render broken_env \<lparr>now = 16, now_start = 16\<rparr>
         (onMouseMove \<lparr>clientX = 700, clientY = 360, rect_left = 0, rect_top = 0\<rparr>
            (projr (startup broken_env)))) \<and>
   gl_supported uncompiled_env \<and> sources_present uncompiled_env \<and> \<not> sources_compile uncompiled_env \<and>
   attach_null_throws uncompiled_env \<and> isl (startup uncompiled_env)"
proof -
  let ?e = "\<lparr>clientX = 700, clientY = 360, rect_left = 0, rect_top = 0\<rparr>"
  let ?f = "\<lparr>now = 16, now_start = 16\<rparr>"
  note b = program_failure[OF broken_env_simps(1) broken_env_facts(1)]
  note u = program_failure[OF uncompiled_env_facts(1,2)]
  have pl: "program_link broken_env Splat = None" by (simp add: broken_env_facts)
  from b broken_env_facts(2) obtain w where
    w: "startup broken_env = Inr w"
    and p: "\<forall>k. programs w k = map_option (\<lambda>ns. \<lparr>program = k, uniforms = ns\<rparr>) (program_link broken_env k)"
    and c: "\<forall>k. program_link broken_env k = None \<longrightarrow> ''Program link error:'' \<in> set (console w)"
    by blast
  have ps: "programs w Splat = None" using p pl by simp
  have cs: "''Program link error:'' \<in> set (console w)" using c pl by blast
  have nr: "\<not> frame_ready (onMouseMove ?e w)"
    using ps by (simp add: frame_ready_def onMouseMove_def Let_def)
  from b have "isl (render broken_env ?f (onMouseMove ?e w)) = (\<not> frame_ready (onMouseMove ?e w))"
    by blast
  then have ir: "isl (render broken_env ?f (onMouseMove ?e w))" using nr by simp
  from u uncompiled_env_facts(3,4) obtain w' where
    "startup uncompiled_env = Inl (TypeError_attach_null, w')" by blast
  then have iu: "isl (startup uncompiled_env)" by simp
  show ?thesis
    using broken_env_simps(1) broken_env_facts(1,2) pl w ps cs nr ir uncompiled_env_facts iu
    by simp
qed

end
